(* ===== verification/Prelude.thy ===== *)
theory Prelude
  imports Main
begin

text \<open>
  Shared vocabulary of the development. The picker's handlers are Python functions that
  run a sequence of host calls, each of which may raise; an uncaught exception aborts the
  handler but keeps every effect already made on the scene. This theory gives that
  behaviour a name: an exception-state function \<open>('s, 'a) exc\<close> takes the state and
  returns either a Python exception (\<open>Inl\<close>) or a value (\<open>Inr\<close>), together with the
  state reached. On top of it are Python's control constructs as the sources use them:
  sequencing, \<open>for x in xs\<close>, \<open>if\<close> without \<open>else\<close>, \<open>try: ... except: pass\<close>
  and \<open>try: ... finally: ...\<close>. The lemmas are the monad laws, the loop over an
  appended list, and the frame rules used by every component theory: a property of the
  state that each step keeps is kept by the whole handler, whatever the step returns.
\<close>

named_theorems exc_simps "evaluation rules of the exception-state functions"
named_theorems keeps_intros "introduction rules for keeps"

datatype py_error =
    ValueError string
  | TypeError string
  | IndexError
  | RuntimeError string
  | AttributeError string
  | FileNotFoundError string

type_synonym ('s, 'a) exc = "'s \<Rightarrow> (py_error + 'a) \<times> 's"

definition returnE :: "'a \<Rightarrow> ('s, 'a) exc" where
  "returnE x = (\<lambda>s. (Inr x, s))"

definition raiseE :: "py_error \<Rightarrow> ('s, 'a) exc" where
  "raiseE e = (\<lambda>s. (Inl e, s))"

definition bindE :: "('s, 'a) exc \<Rightarrow> ('a \<Rightarrow> ('s, 'b) exc) \<Rightarrow> ('s, 'b) exc" where
  "bindE m f = (\<lambda>s. case m s of (Inl e, s') \<Rightarrow> (Inl e, s') | (Inr x, s') \<Rightarrow> f x s')"

definition thenE :: "('s, 'a) exc \<Rightarrow> ('s, 'b) exc \<Rightarrow> ('s, 'b) exc" where
  "thenE m n = bindE m (\<lambda>_. n)"

definition getsE :: "('s \<Rightarrow> 'a) \<Rightarrow> ('s, 'a) exc" where
  "getsE f = (\<lambda>s. (Inr (f s), s))"

definition modifyE :: "('s \<Rightarrow> 's) \<Rightarrow> ('s, unit) exc" where
  "modifyE f = (\<lambda>s. (Inr (), f s))"

definition whenE :: "bool \<Rightarrow> ('s, unit) exc \<Rightarrow> ('s, unit) exc" where
  "whenE b m = (if b then m else returnE ())"

text \<open>\<open>try: m except: pass\<close>: every exception is swallowed, the effects stay.\<close>

definition try_pass :: "('s, unit) exc \<Rightarrow> ('s, unit) exc" where
  "try_pass m = (\<lambda>s. (Inr (), snd (m s)))"

text \<open>
  \<open>try: m finally: c\<close>: the clean-up runs after a normal return and after an
  exception; an exception raised by the clean-up replaces the body's outcome.
\<close>

definition try_finally :: "('s, 'a) exc \<Rightarrow> ('s, unit) exc \<Rightarrow> ('s, 'a) exc" where
  "try_finally m c =
     (\<lambda>s. case m s of (r, s') \<Rightarrow>
        (case c s' of (Inl e, s'') \<Rightarrow> (Inl e, s'') | (Inr _, s'') \<Rightarrow> (r, s'')))"

text \<open>\<open>for x in xs: f(x)\<close>; the list is evaluated once, before the loop starts.\<close>

primrec forE :: "'a list \<Rightarrow> ('a \<Rightarrow> ('s, unit) exc) \<Rightarrow> ('s, unit) exc" where
  "forE [] f = returnE ()"
| "forE (x # xs) f = bindE (f x) (\<lambda>_. forE xs f)"

text \<open>
  A loop that stores one result per element, as the snap's capture loop does in its
  dictionary: the results in order, or the first exception.
\<close>

primrec mapE :: "('a \<Rightarrow> ('s, 'b) exc) \<Rightarrow> 'a list \<Rightarrow> ('s, 'b list) exc" where
  "mapE f [] = returnE []"
| "mapE f (x # xs) = bindE (f x) (\<lambda>y. bindE (mapE f xs) (\<lambda>ys. returnE (y # ys)))"

text \<open>A property of the state that a step keeps on every path, exceptions included.\<close>

definition keeps :: "('s \<Rightarrow> bool) \<Rightarrow> ('s, 'a) exc \<Rightarrow> bool" where
  "keeps P m \<longleftrightarrow> (\<forall>s. P s \<longrightarrow> P (snd (m s)))"

definition ok :: "(py_error + 'a) \<times> 's \<Rightarrow> bool" where
  "ok r \<longleftrightarrow> \<not> isl (fst r)"

subsection \<open>Evaluation rules\<close>

lemma returnE_apply [exc_simps]: "returnE x s = (Inr x, s)"
  by (simp add: returnE_def)

lemma raiseE_apply [exc_simps]: "raiseE e s = (Inl e, s)"
  by (simp add: raiseE_def)

lemma getsE_apply [exc_simps]: "getsE f s = (Inr (f s), s)"
  by (simp add: getsE_def)

lemma modifyE_apply [exc_simps]: "modifyE f s = (Inr (), f s)"
  by (simp add: modifyE_def)

lemma bindE_apply [exc_simps]:
  "bindE m f s = (case m s of (Inl e, s') \<Rightarrow> (Inl e, s') | (Inr x, s') \<Rightarrow> f x s')"
  by (simp add: bindE_def)

lemma thenE_apply [exc_simps]:
  "thenE m n s = (case m s of (Inl e, s') \<Rightarrow> (Inl e, s') | (Inr x, s') \<Rightarrow> n s')"
  by (simp add: thenE_def bindE_def)

lemma whenE_apply [exc_simps]: "whenE b m s = (if b then m s else (Inr (), s))"
  by (simp add: whenE_def returnE_def)

lemma try_pass_apply [exc_simps]: "try_pass m s = (Inr (), snd (m s))"
  by (simp add: try_pass_def)

lemma try_finally_apply [exc_simps]:
  "try_finally m c s =
     (case m s of (r, s') \<Rightarrow>
        (case c s' of (Inl e, s'') \<Rightarrow> (Inl e, s'') | (Inr _, s'') \<Rightarrow> (r, s'')))"
  by (simp add: try_finally_def)

lemma bindE_Inr [simp]: "m s = (Inr x, s') \<Longrightarrow> bindE m f s = f x s'"
  by (simp add: bindE_def)

lemma bindE_Inl [simp]: "m s = (Inl e, s') \<Longrightarrow> bindE m f s = (Inl e, s')"
  by (simp add: bindE_def)

lemma ok_Inr [simp]: "ok (Inr x, s)" and ok_Inl [simp]: "\<not> ok (Inl e, s)"
  by (simp_all add: ok_def)

subsection \<open>Monad laws and the loop\<close>

lemma bindE_returnE_left: "bindE (returnE x) f = f x"
  by (simp add: bindE_def returnE_def)

lemma bindE_returnE_right: "bindE m returnE = m"
  by (rule ext) (simp add: bindE_def returnE_def split: prod.split sum.split)

lemma bindE_assoc: "bindE (bindE m f) g = bindE m (\<lambda>x. bindE (f x) g)"
  by (rule ext) (simp add: bindE_def split: prod.split sum.split)

lemma forE_append: "forE (xs @ ys) f = bindE (forE xs f) (\<lambda>_. forE ys f)"
  by (induction xs) (simp_all add: bindE_returnE_left bindE_assoc)

lemma forE_Cons_Inr:
  "f x s = (Inr u, s') \<Longrightarrow> forE (x # xs) f s = forE xs f s'"
  by simp

lemma forE_Cons_ok: "fst (f x s) = Inr u \<Longrightarrow> forE (x # xs) f s = forE xs f (snd (f x s))"
  by (cases "f x s") simp

lemma forE_noraise:
  assumes step: "\<And>x s. fst (f x s) = Inr ()"
  shows "fst (forE xs f s) = Inr ()"
proof (induction xs arbitrary: s)
  case Nil
  show ?case by (simp add: returnE_def)
next
  case (Cons x xs)
  obtain s' where "f x s = (Inr (), s')"
    using step [of x s] by (cases "f x s") auto
  with Cons.IH show ?case by simp
qed

lemma try_pass_never_raises: "fst (try_pass m s) = Inr ()"
  by (simp add: try_pass_def)

subsection \<open>Frame rules\<close>

lemma keepsD: "keeps P m \<Longrightarrow> P s \<Longrightarrow> P (snd (m s))"
  by (simp add: keeps_def)

lemma keeps_returnE [keeps_intros]: "keeps P (returnE x)"
  and keeps_raiseE [keeps_intros]: "keeps P (raiseE e)"
  and keeps_getsE [keeps_intros]: "keeps P (getsE f)"
  by (simp_all add: keeps_def exc_simps)

lemma keeps_modifyE [keeps_intros]: "(\<And>s. P s \<Longrightarrow> P (f s)) \<Longrightarrow> keeps P (modifyE f)"
  by (simp add: keeps_def modifyE_def)

lemma keeps_bindE [keeps_intros]:
  "keeps P m \<Longrightarrow> (\<And>x. keeps P (f x)) \<Longrightarrow> keeps P (bindE m f)"
  unfolding keeps_def bindE_def by (auto split: prod.split sum.split)

lemma keeps_thenE [keeps_intros]: "keeps P m \<Longrightarrow> keeps P n \<Longrightarrow> keeps P (thenE m n)"
  unfolding thenE_def by (rule keeps_bindE)

lemma keeps_whenE [keeps_intros]: "keeps P m \<Longrightarrow> keeps P (whenE b m)"
  by (simp add: whenE_def keeps_returnE)

lemma keeps_try_pass [keeps_intros]: "keeps P m \<Longrightarrow> keeps P (try_pass m)"
  by (simp add: keeps_def try_pass_def)

lemma keeps_forE [keeps_intros]: "(\<And>x. keeps P (f x)) \<Longrightarrow> keeps P (forE xs f)"
  by (induction xs) (simp_all add: keeps_returnE keeps_bindE)

lemma keeps_mapE [keeps_intros]: "(\<And>x. keeps P (f x)) \<Longrightarrow> keeps P (mapE f xs)"
  by (induction xs) (simp_all add: keeps_returnE keeps_bindE)

lemma keeps_if [keeps_intros]: "keeps P m \<Longrightarrow> keeps P n \<Longrightarrow> keeps P (if b then m else n)"
  by simp

lemma keeps_case_sum [keeps_intros]:
  "(\<And>e. keeps P (f e)) \<Longrightarrow> (\<And>x. keeps P (g x)) \<Longrightarrow> keeps P (case r of Inl e \<Rightarrow> f e | Inr x \<Rightarrow> g x)"
  by (cases r) simp_all

lemma keeps_try_finally [keeps_intros]:
  "keeps P m \<Longrightarrow> keeps P c \<Longrightarrow> keeps P (try_finally m c)"
  unfolding keeps_def try_finally_def by (auto split: prod.split sum.split)

lemma keeps_case_prod [keeps_intros]:
  "(\<And>a b. keeps P (f a b)) \<Longrightarrow> keeps P (case p of (a, b) \<Rightarrow> f a b)"
  by (cases p) simp

lemma keeps_Let [keeps_intros]: "(\<And>x. keeps P (f x)) \<Longrightarrow> keeps P (Let v f)"
  by simp

subsection \<open>Nested loops\<close>

lemma forE_nested:
  "forE xs (\<lambda>x. forE ys (f x)) = forE (concat (map (\<lambda>x. map (\<lambda>y. (x, y)) ys) xs)) (\<lambda>q. f (fst q) (snd q))"
proof (induction xs)
  case Nil
  then show ?case by simp
next
  case (Cons x xs)
  have "forE ys (f x) = forE (map (\<lambda>y. (x, y)) ys) (\<lambda>q. f (fst q) (snd q))"
    by (induction ys) simp_all
  with Cons show ?case by (simp add: forE_append)
qed

end
