(* ===== verification/PyStr.thy ===== *)
theory PyStr
  imports Prelude
begin

text \<open>
  The Python string and list primitives the picker's name handling is built from, with
  CPython's semantics on the inputs the sources give them: \<open>s.split(c)\<close> for a
  one-character separator, \<open>sep.join(ws)\<close>, \<open>s.replace(old, new)\<close> (every
  non-overlapping occurrence, scanning left to right), \<open>s.endswith(t)\<close>,
  \<open>xs[i]\<close> with negative indices (IndexError out of range) and \<open>s.capitalize()\<close>
  on ASCII text. Strings are \<open>char list\<close>; the rig's names are ASCII, so a Python
  code point is one \<open>char\<close>.
  The lemmas are the round trips of \<open>split\<close> and \<open>join\<close>, how \<open>split\<close> and
  \<open>replace\<close> act on a name assembled from parts, and the reading of negative indices.
\<close>

fun py_split :: "char \<Rightarrow> string \<Rightarrow> string list" where
  "py_split c [] = [[]]"
| "py_split c (x # xs) =
     (let ws = py_split c xs in if x = c then [] # ws else (x # hd ws) # tl ws)"

fun py_join :: "string \<Rightarrow> string list \<Rightarrow> string" where
  "py_join sep [] = []"
| "py_join sep [w] = w"
| "py_join sep (w # v # ws) = w @ sep @ py_join sep (v # ws)"

text \<open>\<open>xs[i]\<close>: a negative index counts from the end.\<close>

definition py_index :: "'a list \<Rightarrow> int \<Rightarrow> py_error + 'a" where
  "py_index xs i =
     (let k = (if 0 \<le> i then i else i + int (length xs))
      in if k < 0 \<or> int (length xs) \<le> k then Inl IndexError else Inr (xs ! nat k))"

definition py_endswith :: "string \<Rightarrow> string \<Rightarrow> bool" where
  "py_endswith s t \<longleftrightarrow> drop (length s - length t) s = t"

function replace_ne :: "string \<Rightarrow> string \<Rightarrow> string \<Rightarrow> string" where
  "replace_ne old new [] = []"
| "replace_ne old new (c # cs) =
     (if old \<noteq> [] \<and> take (length old) (c # cs) = old
      then new @ replace_ne old new (drop (length old) (c # cs))
      else c # replace_ne old new cs)"
  by pat_completeness auto
termination
  by (relation "measure (\<lambda>(_, _, s). length s)") auto

text \<open>\<open>s.replace('', new)\<close> inserts \<open>new\<close> before every character and at the end.\<close>

definition py_replace :: "string \<Rightarrow> string \<Rightarrow> string \<Rightarrow> string" where
  "py_replace old new s =
     (if old = [] then new @ concat (map (\<lambda>c. c # new) s) else replace_ne old new s)"

definition ascii_upper :: "char \<Rightarrow> char" where
  "ascii_upper c = (let n = (of_char c :: nat) in if 97 \<le> n \<and> n \<le> 122 then char_of (n - 32) else c)"

definition ascii_lower :: "char \<Rightarrow> char" where
  "ascii_lower c = (let n = (of_char c :: nat) in if 65 \<le> n \<and> n \<le> 90 then char_of (n + 32) else c)"

fun py_capitalize :: "string \<Rightarrow> string" where
  "py_capitalize [] = []"
| "py_capitalize (c # cs) = ascii_upper c # map ascii_lower cs"

subsection \<open>split and join\<close>

lemma py_split_nonempty [simp]: "py_split c s \<noteq> []"
  by (induction s) (simp_all add: Let_def)

lemma py_split_no_sep: "c \<notin> set s \<Longrightarrow> py_split c s = [s]"
  by (induction s) (auto simp: Let_def)

lemma py_split_pieces: "w \<in> set (py_split c s) \<Longrightarrow> c \<notin> set w"
proof (induction s arbitrary: w)
  case Nil
  then show ?case by simp
next
  case (Cons x xs)
  obtain v vs where vs: "py_split c xs = v # vs"
    by (cases "py_split c xs") simp_all
  with Cons show ?case by (auto simp: Let_def split: if_splits)
qed

lemma py_split_append_sep: "py_split c (u @ c # v) = py_split c u @ py_split c v"
proof (induction u)
  case Nil
  then show ?case by simp
next
  case (Cons x xs)
  obtain w ws where "py_split c xs = w # ws"
    by (cases "py_split c xs") simp_all
  with Cons show ?case by (simp add: Let_def)
qed

lemma py_join_Cons: "ws \<noteq> [] \<Longrightarrow> py_join sep (w # ws) = w @ sep @ py_join sep ws"
  by (cases ws) simp_all

text \<open>Round trip: joining the pieces with the separator gives the string back.\<close>

lemma py_join_split: "py_join [c] (py_split c s) = s"
proof (induction s)
  case Nil
  then show ?case by simp
next
  case (Cons x xs)
  obtain w ws where ws: "py_split c xs = w # ws"
    by (cases "py_split c xs") simp_all
  show ?case
  proof (cases "x = c")
    case True
    with Cons.IH ws show ?thesis by (simp add: Let_def)
  next
    case False
    with Cons.IH ws show ?thesis by (cases ws) (simp_all add: Let_def)
  qed
qed

text \<open>Round trip: splitting a join of separator-free pieces gives the pieces back.\<close>

lemma py_split_join:
  "ws \<noteq> [] \<Longrightarrow> (\<And>w. w \<in> set ws \<Longrightarrow> c \<notin> set w) \<Longrightarrow> py_split c (py_join [c] ws) = ws"
proof (induction ws)
  case Nil
  then show ?case by simp
next
  case (Cons w ws)
  show ?case
  proof (cases ws)
    case Nil
    with Cons.prems show ?thesis by (simp add: py_split_no_sep)
  next
    case (Cons v vs)
    with Cons.IH Cons.prems show ?thesis
      by (simp add: py_join_Cons py_split_append_sep py_split_no_sep)
  qed
qed

lemma py_split_last_piece:
  "c \<notin> set v \<Longrightarrow> py_split c (u @ c # v) = py_split c u @ [v]"
  by (simp add: py_split_append_sep py_split_no_sep)

subsection \<open>Indexing\<close>

lemma py_index_minus1: "xs \<noteq> [] \<Longrightarrow> py_index xs (-1) = Inr (last xs)"
proof -
  assume "xs \<noteq> []"
  moreover have "nat (int (length xs) - 1) = length xs - 1" by simp
  ultimately show ?thesis by (simp add: py_index_def last_conv_nth)
qed

lemma py_index_minus2: "py_index (xs @ [a, b]) (-2) = Inr a"
proof -
  have "nat (int (length xs) + 2 + - 2) = length xs" by simp
  then show ?thesis by (simp add: py_index_def nth_append)
qed

lemma py_index_short: "length xs < 2 \<Longrightarrow> py_index xs (-2) = Inl IndexError"
  by (simp add: py_index_def)

subsection \<open>replace\<close>

lemma replace_ne_Nil [simp]: "replace_ne old new [] = []"
  by simp

lemma replace_ne_skip:
  "old \<noteq> [] \<Longrightarrow> hd old \<notin> set u \<Longrightarrow> replace_ne old new (u @ w) = u @ replace_ne old new w"
proof (induction u)
  case Nil
  then show ?case by simp
next
  case (Cons x xs)
  then have "take (length old) (x # xs @ w) \<noteq> old"
    by (cases old) auto
  with Cons show ?case by simp
qed

lemma replace_ne_hit:
  "old \<noteq> [] \<Longrightarrow> replace_ne old new (old @ w) = new @ replace_ne old new w"
  by (cases old) simp_all

lemma replace_ne_none: "old \<noteq> [] \<Longrightarrow> hd old \<notin> set u \<Longrightarrow> replace_ne old new u = u"
  using replace_ne_skip [of old u new "[]"] by simp

text \<open>
  The shape the rig's names have: an occurrence of \<open>old\<close>, and no character
  \<open>hd old\<close> on either side of it. Exactly that occurrence is replaced.
\<close>

lemma py_replace_once:
  "old \<noteq> [] \<Longrightarrow> hd old \<notin> set u \<Longrightarrow> hd old \<notin> set v \<Longrightarrow>
   py_replace old new (u @ old @ v) = u @ new @ v"
  by (simp add: py_replace_def replace_ne_skip replace_ne_hit replace_ne_none)

subsection \<open>endswith\<close>

lemma py_endswith_append [simp]: "py_endswith (u @ t) t"
  by (simp add: py_endswith_def)

lemma py_endswith_iff: "py_endswith s t \<longleftrightarrow> (\<exists>u. s = u @ t)"
proof
  assume "py_endswith s t"
  then have "s = take (length s - length t) s @ t"
    by (metis append_take_drop_id py_endswith_def)
  then show "\<exists>u. s = u @ t" by blast
qed auto

subsection \<open>join with a longer separator\<close>

lemma py_join_prefix: "py_join sep ((t @ v) # rest) = t @ py_join sep (v # rest)"
  by (cases rest) simp_all

lemma py_join_sep_Cons: "py_join (c # t) (w # ws) = py_join [c] (w # map (\<lambda>v. t @ v) ws)"
proof (induction ws arbitrary: w)
  case Nil
  then show ?case by simp
next
  case (Cons v vs)
  then show ?case by (simp add: py_join_prefix)
qed

lemma py_join_chars: "c \<in> set (py_join sep ws) \<Longrightarrow> c \<in> set sep \<or> (\<exists>w \<in> set ws. c \<in> set w)"
  by (induction sep ws rule: py_join.induct) auto

end
