(* ===== verification/Names.thy ===== *)
theory Names
  imports PyStr
begin

text \<open>
  The naming convention between the picker and the rig, and the two small pieces of
  keyboard and namespace logic every handler goes through.
  \<^item> \<open>get_modifier\<close> decodes \<open>cmds.getModifiers()\<close> (\<open>picker_model.get_modifier\<close>,
    \<open>Picker.get_modifier\<close>): later tests overwrite earlier ones, so Alt wins over
    Control, and Control over Shift.
  \<^item> \<open>set_namespace_model\<close> and \<open>set_namespace_cls\<close> are the text the namespace line edit
    holds after \<open>picker_model.set_namespace\<close> and \<open>Picker.set_namespace\<close>: the first
    selected name up to and including its last colon. The free-function variant passes
    \<open>None\<close> to \<open>setText\<close> where the class variant passes the empty string;
    \<open>qt_setText\<close> is the line edit's reading of that argument.
  \<^item> \<open>ns_prefix\<close> is the \<open>if namespace_le: ... if namespace: name = namespace + name\<close>
    pattern of the free-function handlers.
  \<^item> \<open>side_of\<close>, \<open>opposite_side\<close> and \<open>mirror_name\<close> are the side classification of
    \<open>flip_pose\<close> and \<open>mirror_pose\<close>: the token between the last two underscores, and
    the counterpart's name obtained by \<open>str.replace\<close>.
  The lemmas characterise each of them, show the two \<open>set_namespace\<close> variants agree,
  and show that on names of the rig's form \<open>pre_x_post\<close> the side token is \<open>_x_\<close> and the
  mirror name exchanges the left and right sides (a centre name maps to the right side).
\<close>

unbundle bit_operations_syntax

datatype modifier = Shift | Control | Alt

definition get_modifier :: "int \<Rightarrow> modifier option" where
  "get_modifier mods =
     (let v0 = None;
          v1 = (if 0 < mods AND 1 then Some Shift else v0);
          v2 = (if 0 < mods AND 4 then Some Control else v1);
          v3 = (if 0 < mods AND 8 then Some Alt else v2)
      in v3)"

text \<open>\<open>QLineEdit.setText(None)\<close> clears the field, as PySide2 converts \<open>None\<close> to an empty \<open>QString\<close>.\<close>

definition qt_setText :: "string option \<Rightarrow> string" where
  "qt_setText t = (case t of None \<Rightarrow> [] | Some x \<Rightarrow> x)"

definition set_namespace_model :: "string list \<Rightarrow> string" where
  "set_namespace_model selection =
     qt_setText
       (case selection of
          [] \<Rightarrow> None
        | s # _ \<Rightarrow>
            if CHR '':'' \<in> set s
            then Some (py_join '':'' (butlast (py_split CHR '':'' s)) @ '':'')
            else None)"

definition set_namespace_cls :: "string list \<Rightarrow> string" where
  "set_namespace_cls selection =
     (case selection of
        [] \<Rightarrow> []
      | s # _ \<Rightarrow>
          if CHR '':'' \<in> set s
          then py_join '':'' (butlast (py_split CHR '':'' s)) @ '':''
          else [])"

definition ns_prefix :: "string option \<Rightarrow> string \<Rightarrow> string" where
  "ns_prefix namespace_le name =
     (case namespace_le of
        None \<Rightarrow> name
      | Some namespace \<Rightarrow> if namespace \<noteq> [] then namespace @ name else name)"

definition side_of :: "string \<Rightarrow> py_error + string" where
  "side_of ctr =
     (case py_index (py_split CHR ''_'' ctr) (-2) of
        Inl e \<Rightarrow> Inl e
      | Inr x \<Rightarrow> Inr (''_'' @ x @ ''_''))"

definition opposite_side :: "string \<Rightarrow> string" where
  "opposite_side side = (if side = ''_r_'' then ''_l_'' else ''_r_'')"

definition mirror_name :: "string \<Rightarrow> string \<Rightarrow> string" where
  "mirror_name ctr side = py_replace side (opposite_side side) ctr"

text \<open>A name of the rig's form: a base, the side token, a suffix, no other underscore.\<close>

definition rig_name :: "string \<Rightarrow> string \<Rightarrow> string \<Rightarrow> string" where
  "rig_name pre x post = pre @ ''_'' @ x @ ''_'' @ post"

definition rig_name_ok :: "string \<Rightarrow> string \<Rightarrow> string \<Rightarrow> bool" where
  "rig_name_ok pre x post \<longleftrightarrow>
     CHR ''_'' \<notin> set pre \<and> CHR ''_'' \<notin> set x \<and> CHR ''_'' \<notin> set post"

subsection \<open>Modifiers\<close>

lemma and_exp_pos_iff: "0 < (m::int) AND 2 ^ n \<longleftrightarrow> bit m n"
proof -
  have "0 \<le> m AND 2 ^ n" by simp
  then show ?thesis using and_exp_eq_0_iff_not_bit [of m n] by linarith
qed

lemma get_modifier_bits:
  "get_modifier m =
     (if bit m 3 then Some Alt else if bit m 2 then Some Control
      else if bit m 0 then Some Shift else None)"
proof -
  have "0 < m AND 1 \<longleftrightarrow> bit m 0" using and_exp_pos_iff [of m 0] by simp
  moreover have "0 < m AND 4 \<longleftrightarrow> bit m 2" using and_exp_pos_iff [of m 2] by simp
  moreover have "0 < m AND 8 \<longleftrightarrow> bit m 3" using and_exp_pos_iff [of m 3] by simp
  ultimately show ?thesis by (simp add: get_modifier_def Let_def)
qed

subsection \<open>Namespace capture\<close>

lemma py_join_snoc: "xs \<noteq> [] \<Longrightarrow> py_join sep (xs @ [y]) = py_join sep xs @ sep @ y"
  by (induction sep xs rule: py_join.induct) simp_all

lemma py_join_butlast:
  "2 \<le> length ws \<Longrightarrow> py_join sep ws = py_join sep (butlast ws) @ sep @ last ws"
proof -
  assume "2 \<le> length ws"
  then have "ws \<noteq> []" and "butlast ws \<noteq> []" by (auto simp: butlast_conv_take)
  then show ?thesis
    using py_join_snoc [of "butlast ws" sep "last ws"] by simp
qed

lemma py_split_two_pieces: "c \<in> set s \<Longrightarrow> 2 \<le> length (py_split c s)"
proof -
  assume "c \<in> set s"
  then obtain u v where "s = u @ c # v" by (meson split_list)
  then have "py_split c s = py_split c u @ py_split c v" by (simp add: py_split_append_sep)
  moreover have "py_split c u \<noteq> []" "py_split c v \<noteq> []" by simp_all
  ultimately show ?thesis by (cases "py_split c u"; cases "py_split c v") simp_all
qed

lemma ns_of_name:
  assumes "c \<in> set s"
  shows "s = py_join [c] (butlast (py_split c s)) @ [c] @ last (py_split c s)"
    and "c \<notin> set (last (py_split c s))"
proof -
  show "s = py_join [c] (butlast (py_split c s)) @ [c] @ last (py_split c s)"
    using py_join_butlast [OF py_split_two_pieces [OF assms]] py_join_split [of c s] by simp
  show "c \<notin> set (last (py_split c s))"
    using py_split_pieces [of "last (py_split c s)" c s] by simp
qed

subsection \<open>Sides and mirror names\<close>

lemma side_of_rig_name:
  "CHR ''_'' \<notin> set x \<Longrightarrow> CHR ''_'' \<notin> set post \<Longrightarrow>
   side_of (rig_name pre x post) = Inr (''_'' @ x @ ''_'')"
proof -
  assume x: "CHR ''_'' \<notin> set x" and post: "CHR ''_'' \<notin> set post"
  have "py_split CHR ''_'' (rig_name pre x post) = py_split CHR ''_'' pre @ [x, post]"
    using x post by (simp add: rig_name_def py_split_append_sep py_split_no_sep)
  then show ?thesis
    by (simp add: side_of_def py_index_minus2 [of _ x post, simplified])
qed

lemma side_of_no_underscore: "CHR ''_'' \<notin> set ctr \<Longrightarrow> side_of ctr = Inl IndexError"
  by (simp add: side_of_def py_split_no_sep py_index_short)

lemma mirror_rig_name:
  "rig_name_ok pre x post \<Longrightarrow>
   mirror_name (rig_name pre x post) (''_'' @ x @ ''_'') =
   rig_name pre (if x = ''r'' then ''l'' else ''r'') post"
proof -
  assume "rig_name_ok pre x post"
  then have "py_replace (''_'' @ x @ ''_'') (opposite_side (''_'' @ x @ ''_''))
               (pre @ (''_'' @ x @ ''_'') @ post) =
             pre @ opposite_side (''_'' @ x @ ''_'') @ post"
    by (intro py_replace_once) (simp_all add: rig_name_ok_def)
  then show ?thesis
    by (simp add: mirror_name_def rig_name_def opposite_side_def)
qed

subsection \<open>Namespace capture and counterparts\<close>

lemma ns_extract_piece:
  assumes "CHR '':'' \<notin> set n"
  shows "py_join '':'' (butlast (py_split CHR '':'' (ns @ CHR '':'' # n))) = ns"
proof -
  have "py_split CHR '':'' (ns @ CHR '':'' # n) = py_split CHR '':'' ns @ [n]"
    using assms by (rule py_split_last_piece)
  then have "butlast (py_split CHR '':'' (ns @ CHR '':'' # n)) = py_split CHR '':'' ns"
    by (simp only: butlast_snoc)
  then show ?thesis by (simp only: py_join_split)
qed

text \<open>
  C15. Namespace capture takes the first selected name up to and including its last
  colon: for \<open>ns1:ns2:joint1\<close> it is \<open>ns1:ns2:\<close>; a name without a colon and an
  empty selection give the empty namespace.
\<close>

theorem set_namespace_extract:
  "CHR '':'' \<notin> set n \<Longrightarrow>
   set_namespace_model ((ns @ '':'' @ n) # rest) = ns @ '':'' \<and>
   set_namespace_model (n # rest) = [] \<and> set_namespace_model [] = []"
  by (simp add: set_namespace_model_def qt_setText_def ns_extract_piece)

theorem set_namespace_extract_witness:
  "set_namespace_model [''ns1:ns2:joint1''] = ''ns1:ns2:'' \<and> set_namespace_model [''joint1''] = []"
  using set_namespace_extract [of "''joint1''" "''ns1:ns2''" "[]"] by simp

text \<open>
  The two variants of namespace capture leave the same text in the line edit,
  although the free-function variant passes \<open>None\<close> where the class variant passes
  the empty string.
\<close>

theorem set_namespace_cls_model: "set_namespace_cls = set_namespace_model"
  by (simp add: fun_eq_iff set_namespace_cls_def set_namespace_model_def qt_setText_def
      split: list.split)

text \<open>
  C16. On a rig name \<open>pre_x_post\<close> (no other underscore) the side token is \<open>_x_\<close> and
  the counterpart \<open>str.replace\<close> gives is the same name on the opposite side: \<open>_l_\<close> and
  \<open>_r_\<close> trade places, and a centre name \<open>_c_\<close> (or any other token) becomes the right
  side; for a left or right name, the counterpart's counterpart is the name itself.
\<close>

theorem mirror_name_counterpart:
  assumes "rig_name_ok pre x post"
  shows "side_of (rig_name pre x post) = Inr (''_'' @ x @ ''_'') \<and>
         mirror_name (rig_name pre x post) (''_'' @ x @ ''_'') =
           rig_name pre (if x = ''r'' then ''l'' else ''r'') post \<and>
         (x \<in> {''l'', ''r''} \<longrightarrow>
            mirror_name (mirror_name (rig_name pre x post) (''_'' @ x @ ''_''))
              (opposite_side (''_'' @ x @ ''_'')) = rig_name pre x post)"
proof -
  let ?y = "if x = ''r'' then ''l'' else ''r''"
  have ok: "rig_name_ok pre ?y post" using assms by (simp add: rig_name_ok_def)
  have "opposite_side (''_'' @ x @ ''_'') = ''_'' @ ?y @ ''_''"
    by (simp add: opposite_side_def)
  then show ?thesis
    using side_of_rig_name [of x post pre] mirror_rig_name [OF assms] mirror_rig_name [OF ok] assms
    by (auto simp: rig_name_ok_def)
qed

theorem mirror_name_counterpart_witness:
  "side_of ''armFk_l_ctr'' = Inr ''_l_'' \<and> mirror_name ''armFk_l_ctr'' ''_l_'' = ''armFk_r_ctr'' \<and>
   mirror_name ''armFk_r_ctr'' ''_r_'' = ''armFk_l_ctr'' \<and>
   mirror_name ''brow_c_ctr'' ''_c_'' = ''brow_r_ctr''"
  using mirror_name_counterpart [of "''armFk''" "''l''" "''ctr''"] mirror_name_counterpart [of "''brow''" "''c''" "''ctr''"]
  by (auto simp: rig_name_ok_def rig_name_def opposite_side_def)

end
