(* ===== verification/Scene.thy ===== *)
theory Scene
  imports Complex_Main Names
begin

text \<open>
  The host application's scene, as far as the picker's handlers see it through
  \<open>maya.cmds\<close>. The scene is a record of string-keyed stores:
  \<^item> \<open>sel\<close>: the current selection, in order (\<open>cmds.ls(selection=True)\<close>);
  \<^item> \<open>plugs\<close>: attribute values by plug name \<open>node.attr\<close> (\<open>getAttr\<close>, \<open>setAttr\<close>),
    with \<open>locked\<close> the plugs \<open>setAttr\<close> refuses;
  \<^item> \<open>udattrs\<close>, \<open>defaults\<close>: \<open>listAttr(node, userDefined=True)\<close> and
    \<open>attributeQuery(attr, node=n, listDefault=True)\<close>;
  \<^item> \<open>lmat\<close>: the object-space matrix of every transform node (its domain is the set of
    nodes that exist), \<open>wmat\<close> the world-space matrix a node holds by itself, and
    \<open>blend\<close> the rig's FK/IK switch: a blended node follows its FK source while the
    switch plug reads 0 and its IK source otherwise, so its world matrix is computed
    (\<open>world\<close>) and changes when the switch is set;
  \<^item> \<open>relatives\<close>: \<open>listRelatives(group, allDescendents=True)\<close>, \<open>None\<close> where Maya
    returns \<open>None\<close> (a node without descendants);
  \<^item> \<open>keyed\<close>: the node lists passed to \<open>setKeyframe\<close>, in call order; \<open>mods\<close>: the
    value \<open>getModifiers()\<close> reports; \<open>undo_depth\<close>: the undo chunks open.
  Each command is an exception-state function: a name that matches no node or plug
  raises ValueError, a locked plug RuntimeError, a matrix of the wrong length
  RuntimeError, as the host does. The object-space translate and rotate channels are
  the plugs \<open>tx\<close> \<dots> \<open>rz\<close>; \<open>xform\<close> writes them and the matrices directly, as a
  transform command that does not go through the attribute locks.
  The host's decomposition of a matrix into channels is not modelled: matrices and
  channels are separate views of a node.
\<close>

datatype val = Num real | Str string

type_synonym vec3 = "real \<times> real \<times> real"

record scene =
  sel :: "string list"
  plugs :: "string \<rightharpoonup> val"
  locked :: "string set"
  udattrs :: "string \<Rightarrow> string list"
  defaults :: "string \<rightharpoonup> val list"
  lmat :: "string \<rightharpoonup> real list"
  wmat :: "string \<rightharpoonup> real list"
  blend :: "string \<rightharpoonup> string \<times> string \<times> string"
  relatives :: "string \<rightharpoonup> string list option"
  keyed :: "string list list"
  mods :: int
  undo_depth :: nat

type_synonym 'a cmd = "(scene, 'a) exc"

text \<open>Python truthiness of an attribute value, as in \<open>0 if cmds.getAttr(...) else 1\<close>.\<close>

definition truthy :: "val \<Rightarrow> bool" where
  "truthy v = (case v of Num x \<Rightarrow> x \<noteq> 0 | Str s \<Rightarrow> s \<noteq> [])"

definition plug :: "string \<Rightarrow> string \<Rightarrow> string" where
  "plug node attr = node @ ''.'' @ attr"

definition node_exists :: "scene \<Rightarrow> string \<Rightarrow> bool" where
  "node_exists sc n \<longleftrightarrow> lmat sc n \<noteq> None"

definition world :: "scene \<Rightarrow> string \<Rightarrow> real list option" where
  "world sc n =
     (case blend sc n of
        None \<Rightarrow> wmat sc n
      | Some (p, fk, ik) \<Rightarrow> if plugs sc p = Some (Num 0) then wmat sc fk else wmat sc ik)"

definition no_match :: "string \<Rightarrow> py_error" where
  "no_match n = ValueError (''No object matches name: '' @ n)"

definition ls_selection :: "string list cmd" where
  "ls_selection = getsE sel"

definition getModifiers :: "int cmd" where
  "getModifiers = getsE mods"

definition getAttr :: "string \<Rightarrow> val cmd" where
  "getAttr p = (\<lambda>sc. case plugs sc p of None \<Rightarrow> (Inl (no_match p), sc) | Some v \<Rightarrow> (Inr v, sc))"

definition setAttr :: "string \<Rightarrow> val \<Rightarrow> unit cmd" where
  "setAttr p v = (\<lambda>sc.
     if plugs sc p = None then (Inl (no_match p), sc)
     else if p \<in> locked sc then (Inl (RuntimeError (''The attribute is locked: '' @ p)), sc)
     else (Inr (), sc\<lparr>plugs := (plugs sc)(p \<mapsto> v)\<rparr>))"

definition listAttr_ud :: "string \<Rightarrow> string list cmd" where
  "listAttr_ud n = (\<lambda>sc. if node_exists sc n then (Inr (udattrs sc n), sc) else (Inl (no_match n), sc))"

definition attr_exists :: "string \<Rightarrow> string \<Rightarrow> bool cmd" where
  "attr_exists a n = (\<lambda>sc.
     if node_exists sc n then (Inr (plugs sc (plug n a) \<noteq> None), sc) else (Inl (no_match n), sc))"

definition attr_defaults :: "string \<Rightarrow> string \<Rightarrow> val list cmd" where
  "attr_defaults a n = (\<lambda>sc.
     case defaults sc (plug n a) of None \<Rightarrow> (Inl (no_match (plug n a)), sc) | Some ds \<Rightarrow> (Inr ds, sc))"

definition xform_q_vec :: "char \<Rightarrow> string \<Rightarrow> vec3 cmd" where
  "xform_q_vec c n = (\<lambda>sc.
     if \<not> node_exists sc n then (Inl (no_match n), sc)
     else case (plugs sc (plug n [c, CHR ''x'']), plugs sc (plug n [c, CHR ''y'']),
                plugs sc (plug n [c, CHR ''z''])) of
            (Some (Num x), Some (Num y), Some (Num z)) \<Rightarrow> (Inr (x, y, z), sc)
          | _ \<Rightarrow> (Inl (TypeError (plug n [c])), sc))"

definition xform_set_vec :: "char \<Rightarrow> string \<Rightarrow> vec3 \<Rightarrow> unit cmd" where
  "xform_set_vec c n v = (\<lambda>sc.
     if node_exists sc n
     then (case v of (x, y, z) \<Rightarrow>
            (Inr (), sc\<lparr>plugs := (plugs sc)(plug n [c, CHR ''x''] \<mapsto> Num x,
                                          plug n [c, CHR ''y''] \<mapsto> Num y,
                                          plug n [c, CHR ''z''] \<mapsto> Num z)\<rparr>))
     else (Inl (no_match n), sc))"

definition xform_q_matrix :: "string \<Rightarrow> real list cmd" where
  "xform_q_matrix n = (\<lambda>sc. case lmat sc n of None \<Rightarrow> (Inl (no_match n), sc) | Some m \<Rightarrow> (Inr m, sc))"

definition xform_matrix :: "string \<Rightarrow> real list \<Rightarrow> unit cmd" where
  "xform_matrix n m = (\<lambda>sc.
     if lmat sc n = None then (Inl (no_match n), sc)
     else if length m \<noteq> 16 then (Inl (RuntimeError ''matrix requires 16 values''), sc)
     else (Inr (), sc\<lparr>lmat := (lmat sc)(n \<mapsto> m)\<rparr>))"

definition xform_q_world :: "string \<Rightarrow> real list cmd" where
  "xform_q_world n = (\<lambda>sc. case world sc n of None \<Rightarrow> (Inl (no_match n), sc) | Some m \<Rightarrow> (Inr m, sc))"

definition xform_world :: "string \<Rightarrow> real list \<Rightarrow> unit cmd" where
  "xform_world n m = (\<lambda>sc.
     if wmat sc n = None then (Inl (no_match n), sc)
     else if length m \<noteq> 16 then (Inl (RuntimeError ''matrix requires 16 values''), sc)
     else (Inr (), sc\<lparr>wmat := (wmat sc)(n \<mapsto> m)\<rparr>))"

definition listRelatives_ad :: "string \<Rightarrow> string list option cmd" where
  "listRelatives_ad g = (\<lambda>sc.
     case relatives sc g of None \<Rightarrow> (Inl (no_match g), sc) | Some r \<Rightarrow> (Inr r, sc))"

definition check_nodes :: "string list \<Rightarrow> unit cmd" where
  "check_nodes ns = (\<lambda>sc.
     case filter (\<lambda>n. \<not> node_exists sc n) ns of
       [] \<Rightarrow> (Inr (), sc)
     | n # _ \<Rightarrow> (Inl (no_match n), sc))"

definition select_replace :: "string list \<Rightarrow> unit cmd" where
  "select_replace ns = thenE (check_nodes ns) (modifyE (\<lambda>sc. sc\<lparr>sel := remdups ns\<rparr>))"

definition select_add :: "string list \<Rightarrow> unit cmd" where
  "select_add ns = thenE (check_nodes ns)
     (modifyE (\<lambda>sc. sc\<lparr>sel := sel sc @ filter (\<lambda>n. n \<notin> set (sel sc)) (remdups ns)\<rparr>))"

definition select_deselect :: "string list \<Rightarrow> unit cmd" where
  "select_deselect ns = thenE (check_nodes ns)
     (modifyE (\<lambda>sc. sc\<lparr>sel := filter (\<lambda>n. n \<notin> set ns) (sel sc)\<rparr>))"

definition setKeyframe :: "string list \<Rightarrow> unit cmd" where
  "setKeyframe ns = thenE (check_nodes ns) (modifyE (\<lambda>sc. sc\<lparr>keyed := keyed sc @ [ns]\<rparr>))"

definition undo_open :: "unit cmd" where
  "undo_open = modifyE (\<lambda>sc. sc\<lparr>undo_depth := Suc (undo_depth sc)\<rparr>)"

definition undo_close :: "unit cmd" where
  "undo_close = modifyE (\<lambda>sc. sc\<lparr>undo_depth := undo_depth sc - 1\<rparr>)"

text \<open>
  \<open>cmds.undoInfo(openChunk=True)\<close>, then \<open>try: body finally: closeChunk\<close>: the
  bracket every handler of the class variant (\<open>picker.py\<close>) puts around its body.
\<close>

definition undo_chunk :: "'a cmd \<Rightarrow> 'a cmd" where
  "undo_chunk body = thenE undo_open (try_finally body undo_close)"

text \<open>
  A command that neither reads nor writes the undo depth: running it at another depth
  gives the same outcome at that depth. Every command but the two undo brackets is one.
\<close>

definition undo_free :: "'a cmd \<Rightarrow> bool" where
  "undo_free m \<longleftrightarrow>
     (\<forall>s k. m (s\<lparr>undo_depth := k\<rparr>) = (fst (m s), (snd (m s))\<lparr>undo_depth := k\<rparr>))"

text \<open>A plug \<open>setAttr\<close> writes: it exists and is not locked.\<close>

definition settable :: "scene \<Rightarrow> string \<Rightarrow> bool" where
  "settable sc p \<longleftrightarrow> plugs sc p \<noteq> None \<and> p \<notin> locked sc"

named_theorems undo_free_intros "introduction rules for undo_free"

named_theorems host_simps "evaluation rules of the host commands where they succeed"

subsection \<open>Plug names\<close>

lemma plug_inject:
  "CHR ''.'' \<notin> set n1 \<Longrightarrow> CHR ''.'' \<notin> set n2 \<Longrightarrow>
   plug n1 a1 = plug n2 a2 \<longleftrightarrow> n1 = n2 \<and> a1 = a2"
proof (induction n1 arbitrary: n2)
  case Nil
  then show ?case by (cases n2) (auto simp: plug_def)
next
  case (Cons x xs)
  then show ?case by (cases n2) (auto simp: plug_def)
qed

lemma plug_same_node [simp]: "plug n a1 = plug n a2 \<longleftrightarrow> a1 = a2"
  by (simp add: plug_def)

subsection \<open>Commands where they succeed\<close>

lemma getAttr_Some [host_simps]: "plugs sc p = Some v \<Longrightarrow> getAttr p sc = (Inr v, sc)"
  by (simp add: getAttr_def)

lemma getAttr_None: "plugs sc p = None \<Longrightarrow> getAttr p sc = (Inl (no_match p), sc)"
  by (simp add: getAttr_def)

lemma setAttr_ok [host_simps]:
  "plugs sc p \<noteq> None \<Longrightarrow> p \<notin> locked sc \<Longrightarrow>
   setAttr p v sc = (Inr (), sc\<lparr>plugs := (plugs sc)(p \<mapsto> v)\<rparr>)"
  by (simp add: setAttr_def)

lemma setAttr_locked:
  "plugs sc p \<noteq> None \<Longrightarrow> p \<in> locked sc \<Longrightarrow>
   setAttr p v sc = (Inl (RuntimeError (''The attribute is locked: '' @ p)), sc)"
  by (auto simp: setAttr_def)

lemma listAttr_ud_ok [host_simps]:
  "node_exists sc n \<Longrightarrow> listAttr_ud n sc = (Inr (udattrs sc n), sc)"
  by (simp add: listAttr_ud_def)

lemma xform_q_matrix_ok [host_simps]: "lmat sc n = Some m \<Longrightarrow> xform_q_matrix n sc = (Inr m, sc)"
  by (simp add: xform_q_matrix_def)

lemma xform_matrix_ok [host_simps]:
  "lmat sc n \<noteq> None \<Longrightarrow> length m = 16 \<Longrightarrow>
   xform_matrix n m sc = (Inr (), sc\<lparr>lmat := (lmat sc)(n \<mapsto> m)\<rparr>)"
  by (simp add: xform_matrix_def)

lemma xform_q_world_ok [host_simps]: "world sc n = Some m \<Longrightarrow> xform_q_world n sc = (Inr m, sc)"
  by (simp add: xform_q_world_def)

lemma xform_world_ok [host_simps]:
  "wmat sc n \<noteq> None \<Longrightarrow> length m = 16 \<Longrightarrow>
   xform_world n m sc = (Inr (), sc\<lparr>wmat := (wmat sc)(n \<mapsto> m)\<rparr>)"
  by (simp add: xform_world_def)

lemma ls_selection_apply [host_simps]: "ls_selection sc = (Inr (sel sc), sc)"
  by (simp add: ls_selection_def exc_simps)

lemma getModifiers_apply [host_simps]: "getModifiers sc = (Inr (mods sc), sc)"
  by (simp add: getModifiers_def exc_simps)

lemma check_nodes_ok [host_simps]: "list_all (node_exists sc) ns \<Longrightarrow> check_nodes ns sc = (Inr (), sc)"
proof -
  assume "list_all (node_exists sc) ns"
  then have "filter (\<lambda>n. \<not> node_exists sc n) ns = []" by (simp add: list_all_iff filter_empty_conv)
  then show ?thesis by (simp add: check_nodes_def)
qed

lemma check_nodes_missing:
  "filter (\<lambda>n. \<not> node_exists sc n) ns = n # r \<Longrightarrow> check_nodes ns sc = (Inl (no_match n), sc)"
  by (simp add: check_nodes_def)

lemma listRelatives_ad_ok [host_simps]:
  "relatives sc g = Some r \<Longrightarrow> listRelatives_ad g sc = (Inr r, sc)"
  by (simp add: listRelatives_ad_def)

lemma setKeyframe_ok [host_simps]:
  "list_all (node_exists sc) ns \<Longrightarrow> setKeyframe ns sc = (Inr (), sc\<lparr>keyed := keyed sc @ [ns]\<rparr>)"
  by (simp add: setKeyframe_def check_nodes_ok exc_simps)

lemma undo_open_apply [host_simps]:
  "undo_open sc = (Inr (), sc\<lparr>undo_depth := Suc (undo_depth sc)\<rparr>)"
  by (simp add: undo_open_def exc_simps)

lemma undo_close_apply [host_simps]:
  "undo_close sc = (Inr (), sc\<lparr>undo_depth := undo_depth sc - 1\<rparr>)"
  by (simp add: undo_close_def exc_simps)

subsection \<open>Frame rules\<close>

text \<open>Queries leave the scene as it is; each update touches one field.\<close>

lemma keeps_case_val [keeps_intros]:
  "(\<And>x. keeps P (f x)) \<Longrightarrow> (\<And>t. keeps P (g t)) \<Longrightarrow>
   keeps P (case v of Num x \<Rightarrow> f x | Str t \<Rightarrow> g t)"
  by (cases v) simp_all

lemma keeps_queries [keeps_intros]:
  "keeps P (getAttr p)" "keeps P (listAttr_ud n)" "keeps P (attr_exists a n)"
  "keeps P (attr_defaults a n)" "keeps P (xform_q_vec c n)"
  "keeps P (xform_q_matrix n)" "keeps P (xform_q_world n)" "keeps P (listRelatives_ad g)"
  "keeps P (check_nodes ns)" "keeps P ls_selection" "keeps P getModifiers"
  by (simp_all add: keeps_def getAttr_def listAttr_ud_def attr_exists_def attr_defaults_def
      xform_q_vec_def xform_q_matrix_def xform_q_world_def listRelatives_ad_def check_nodes_def
      ls_selection_def getModifiers_def exc_simps
      split: option.split list.split prod.split val.split)

lemma keeps_setAttr [keeps_intros]:
  "(\<And>s q. P (s\<lparr>plugs := q\<rparr>) = P s) \<Longrightarrow> keeps P (setAttr p v)"
  by (simp add: keeps_def setAttr_def)

lemma keeps_xform_set_vec [keeps_intros]:
  "(\<And>s q. P (s\<lparr>plugs := q\<rparr>) = P s) \<Longrightarrow> keeps P (xform_set_vec c n v)"
  by (simp add: keeps_def xform_set_vec_def split: prod.split)

lemma keeps_xform_matrix [keeps_intros]:
  "(\<And>s q. P (s\<lparr>lmat := q\<rparr>) = P s) \<Longrightarrow> keeps P (xform_matrix n m)"
  by (simp add: keeps_def xform_matrix_def)

lemma keeps_xform_world [keeps_intros]:
  "(\<And>s q. P (s\<lparr>wmat := q\<rparr>) = P s) \<Longrightarrow> keeps P (xform_world n m)"
  by (simp add: keeps_def xform_world_def)

lemma keeps_select [keeps_intros]:
  "(\<And>s q. P (s\<lparr>sel := q\<rparr>) = P s) \<Longrightarrow> keeps P (select_replace ns)"
  "(\<And>s q. P (s\<lparr>sel := q\<rparr>) = P s) \<Longrightarrow> keeps P (select_add ns)"
  "(\<And>s q. P (s\<lparr>sel := q\<rparr>) = P s) \<Longrightarrow> keeps P (select_deselect ns)"
  unfolding select_replace_def select_add_def select_deselect_def
  by (intro keeps_intros; simp)+

lemma keeps_setKeyframe [keeps_intros]:
  "(\<And>s q. P (s\<lparr>keyed := q\<rparr>) = P s) \<Longrightarrow> keeps P (setKeyframe ns)"
  unfolding setKeyframe_def by (intro keeps_intros; simp)

subsection \<open>The undo bracket\<close>

text \<open>
  Whatever the body does, the chunk it opens is closed again: the depth after the
  handler is the depth before it, on a normal return and after an exception.
\<close>

lemma undo_chunk_balanced:
  assumes "\<And>k. keeps (\<lambda>s. undo_depth s = k) body"
  shows "undo_depth (snd (undo_chunk body s)) = undo_depth s"
proof -
  let ?s1 = "s\<lparr>undo_depth := Suc (undo_depth s)\<rparr>"
  obtain r s' where body: "body ?s1 = (r, s')" by (cases "body ?s1")
  have "undo_depth (snd (body ?s1)) = Suc (undo_depth s)"
    using keepsD [OF assms [of "Suc (undo_depth s)"], of ?s1] by simp
  with body show ?thesis
    by (simp add: undo_chunk_def exc_simps host_simps)
qed

lemma undo_chunk_apply:
  "undo_chunk body s =
     (let r = body (s\<lparr>undo_depth := Suc (undo_depth s)\<rparr>)
      in (fst r, (snd r)\<lparr>undo_depth := undo_depth (snd r) - 1\<rparr>))"
  by (simp add: undo_chunk_def exc_simps host_simps split: prod.split sum.split)

lemma undo_chunk_result:
  "fst (undo_chunk body s) = fst (body (s\<lparr>undo_depth := Suc (undo_depth s)\<rparr>))"
  by (simp add: undo_chunk_def exc_simps host_simps split: prod.split sum.split)

subsection \<open>Commands that ignore the undo depth\<close>

lemma undo_freeD:
  "undo_free m \<Longrightarrow> m (s\<lparr>undo_depth := k\<rparr>) = (fst (m s), (snd (m s))\<lparr>undo_depth := k\<rparr>)"
  by (simp add: undo_free_def)

lemma undo_free_returnE [undo_free_intros]: "undo_free (returnE x)"
  and undo_free_raiseE [undo_free_intros]: "undo_free (raiseE e)"
  by (simp_all add: undo_free_def exc_simps)

lemma undo_free_bindE [undo_free_intros]:
  assumes "undo_free m" "\<And>x. undo_free (f x)"
  shows "undo_free (bindE m f)"
  unfolding undo_free_def
proof (intro allI)
  fix s k
  obtain r s' where m: "m s = (r, s')" by (cases "m s")
  then have "m (s\<lparr>undo_depth := k\<rparr>) = (r, s'\<lparr>undo_depth := k\<rparr>)"
    using undo_freeD [OF assms(1)] by simp
  with m show "bindE m f (s\<lparr>undo_depth := k\<rparr>) =
      (fst (bindE m f s), (snd (bindE m f s))\<lparr>undo_depth := k\<rparr>)"
    using undo_freeD [OF assms(2)] by (cases r) (simp_all add: exc_simps)
qed

lemma undo_free_thenE [undo_free_intros]: "undo_free m \<Longrightarrow> undo_free n \<Longrightarrow> undo_free (thenE m n)"
  unfolding thenE_def by (rule undo_free_bindE)

lemma undo_free_whenE [undo_free_intros]: "undo_free m \<Longrightarrow> undo_free (whenE b m)"
  by (simp add: whenE_def undo_free_returnE)

lemma undo_free_try_pass [undo_free_intros]: "undo_free m \<Longrightarrow> undo_free (try_pass m)"
  by (simp add: undo_free_def try_pass_def)

lemma undo_free_forE [undo_free_intros]: "(\<And>x. undo_free (f x)) \<Longrightarrow> undo_free (forE xs f)"
  by (induction xs) (simp_all add: undo_free_returnE undo_free_bindE)

lemma undo_free_mapE [undo_free_intros]: "(\<And>x. undo_free (f x)) \<Longrightarrow> undo_free (mapE f xs)"
  by (induction xs) (simp_all add: undo_free_returnE undo_free_bindE)

lemma undo_free_if [undo_free_intros]:
  "undo_free m \<Longrightarrow> undo_free n \<Longrightarrow> undo_free (if b then m else n)"
  by simp

lemma undo_free_case_sum [undo_free_intros]:
  "(\<And>e. undo_free (f e)) \<Longrightarrow> (\<And>x. undo_free (g x)) \<Longrightarrow>
   undo_free (case r of Inl e \<Rightarrow> f e | Inr x \<Rightarrow> g x)"
  by (cases r) simp_all

lemma undo_free_case_option [undo_free_intros]:
  "undo_free f \<Longrightarrow> (\<And>x. undo_free (g x)) \<Longrightarrow> undo_free (case r of None \<Rightarrow> f | Some x \<Rightarrow> g x)"
  by (cases r) simp_all

lemma undo_free_case_prod [undo_free_intros]:
  "(\<And>a b. undo_free (f a b)) \<Longrightarrow> undo_free (case p of (a, b) \<Rightarrow> f a b)"
  by (cases p) simp

lemma undo_free_Let [undo_free_intros]: "(\<And>x. undo_free (f x)) \<Longrightarrow> undo_free (Let v f)"
  by simp

lemma undo_free_host [undo_free_intros]:
  "undo_free (getAttr p)" "undo_free (setAttr p v)" "undo_free (listAttr_ud n)"
  "undo_free (attr_exists a n)" "undo_free (attr_defaults a n)" "undo_free (xform_q_vec c n)"
  "undo_free (xform_set_vec c n v3)" "undo_free (xform_q_matrix n)" "undo_free (xform_matrix n m)"
  "undo_free (xform_q_world n)" "undo_free (xform_world n m)" "undo_free (listRelatives_ad g)"
  "undo_free (check_nodes ns)" "undo_free ls_selection" "undo_free getModifiers"
  "undo_free (select_replace ns)" "undo_free (select_add ns)" "undo_free (select_deselect ns)"
  "undo_free (setKeyframe ns)"
  by (auto simp: undo_free_def getAttr_def setAttr_def listAttr_ud_def attr_exists_def
      attr_defaults_def xform_q_vec_def xform_set_vec_def xform_q_matrix_def xform_matrix_def
      xform_q_world_def xform_world_def listRelatives_ad_def check_nodes_def ls_selection_def
      getModifiers_def select_replace_def select_add_def select_deselect_def setKeyframe_def
      node_exists_def world_def thenE_def bindE_def exc_simps
      split: option.split list.split prod.split val.split sum.split)

text \<open>Around a command that ignores the depth, the undo bracket changes nothing.\<close>

lemma undo_chunk_transparent: "undo_free m \<Longrightarrow> undo_chunk m s = m s"
proof -
  assume u: "undo_free m"
  obtain r s' where m: "m s = (r, s')" by (cases "m s")
  have "s' = s'\<lparr>undo_depth := undo_depth s\<rparr>"
    using undo_freeD [OF u, where s = s and k = "undo_depth s"] m by simp
  then have "undo_depth s' = undo_depth (s'\<lparr>undo_depth := undo_depth s\<rparr>)"
    by (rule arg_cong)
  then have "undo_depth s' = undo_depth s" by simp
  then show ?thesis
    using undo_freeD [OF u, where s = s and k = "Suc (undo_depth s)"] m
    by (simp add: undo_chunk_apply)
qed

subsection \<open>Loops of best-effort writes\<close>

lemma plug_other_node:
  "CHR ''.'' \<notin> set c \<Longrightarrow> CHR ''.'' \<notin> set c' \<Longrightarrow> c' \<noteq> c \<Longrightarrow> plug c' a \<noteq> plug c b"
  by (simp add: plug_inject)

lemma try_set_eff:
  "try_pass (setAttr p v) s = (Inr (), if settable s p then s\<lparr>plugs := (plugs s)(p \<mapsto> v)\<rparr> else s)"
  by (auto simp: try_pass_def setAttr_def settable_def)

lemma settable_upd: "settable s q \<Longrightarrow> settable (s\<lparr>plugs := (plugs s)(q \<mapsto> w)\<rparr>) p = settable s p"
  by (simp add: settable_def)

lemma forE_guarded:
  assumes step: "\<And>x s. defaults s = D \<Longrightarrow>
      f x s = (Inr (), if settable s (k x) \<and> H x then s\<lparr>plugs := (plugs s)(k x \<mapsto> v x)\<rparr> else s)"
    and d: "defaults s = D"
  shows "forE xs f s =
    (Inr (), s\<lparr>plugs := fold (\<lambda>x P. if settable s (k x) \<and> H x then P(k x \<mapsto> v x) else P) xs (plugs s)\<rparr>)"
  using d
proof (induction xs arbitrary: s)
  case Nil
  then show ?case by (simp add: exc_simps)
next
  case (Cons x xs)
  show ?case
  proof (cases "settable s (k x) \<and> H x")
    case True
    let ?s = "s\<lparr>plugs := (plugs s)(k x \<mapsto> v x)\<rparr>"
    let ?F = "\<lambda>s x P. if settable s (k x) \<and> H x then P(k x \<mapsto> v x) else P"
    have st: "f x s = (Inr (), ?s)" using True step [OF Cons.prems] by simp
    have feq: "?F ?s = ?F s" using True by (simp add: settable_upd)
    have "forE (x # xs) f s = forE xs f ?s" by (rule forE_Cons_Inr [of f x s, OF st])
    also have "\<dots> = (Inr (), ?s\<lparr>plugs := fold (?F ?s) xs (plugs ?s)\<rparr>)"
      by (rule Cons.IH) (simp add: Cons.prems)
    also have "\<dots> = (Inr (), s\<lparr>plugs := fold (?F s) xs ((plugs s)(k x \<mapsto> v x))\<rparr>)"
      by (simp only: feq) simp
    finally show ?thesis using True by simp
  next
    case False
    have st: "f x s = (Inr (), s)" using False step [OF Cons.prems, of x] by auto
    have "forE (x # xs) f s = forE xs f s" by (rule forE_Cons_Inr [of f x s, OF st])
    also have "\<dots> = (Inr (), s\<lparr>plugs := fold (\<lambda>x P. if settable s (k x) \<and> H x then P(k x \<mapsto> v x) else P) xs (plugs s)\<rparr>)"
      by (rule Cons.IH [OF Cons.prems])
    finally show ?thesis using False by auto
  qed
qed

lemma fold_guarded_at:
  assumes "inj k"
  shows "fold (\<lambda>x P. if G x then P(k x \<mapsto> v x) else P) xs P0 (k y) =
         (if y \<in> set xs \<and> G y then Some (v y) else P0 (k y))"
  using assms by (induction xs arbitrary: P0) (auto simp: inj_eq)

lemma fold_guarded_other:
  "p \<notin> range k \<Longrightarrow> fold (\<lambda>x P. if G x then P(k x \<mapsto> v x) else P) xs P0 p = P0 p"
  by (induction xs arbitrary: P0) auto

end
