(* ===== verification/Pose.thy ===== *)
theory Pose
  imports Scene
begin

text \<open>
  Pose flip and pose mirror on the selected controls, in the two variants the
  repository carries: the free functions \<open>picker_model.flip_pose\<close> and
  \<open>picker_model.mirror_pose\<close> (\<open>flip_pose_model\<close>, \<open>mirror_pose_model\<close>) and the
  static methods \<open>Picker.flip_pose\<close> and \<open>Picker.mirror_pose\<close> of \<open>picker.py\<close>
  (\<open>flip_pose_cls\<close>, \<open>mirror_pose_cls\<close>), which wrap the same loop in an undo chunk.
  Each per-control step is a definition of its own, in the order the code performs its
  host calls: a centre control has its rotate Y/Z and translate X negated
  (\<open>flip_center\<close>); a side control has its object-space matrix exchanged with its
  counterpart's (\<open>swap_matrices\<close>) and every user-defined attribute exchanged under
  \<open>try/except: pass\<close> (\<open>swap_user_attrs\<close>). The class variant runs the attribute
  exchange for centre controls too, against the name \<open>str.replace\<close> gives for them.
  Mirror copies instead of exchanging, and skips centre controls.
  The lemmas give the effect of each step on the scene where its host calls succeed,
  lift them over the selection loop, and show which parts of the scene a step never
  touches.
\<close>

definition side_ofE :: "string \<Rightarrow> string cmd" where
  "side_ofE ctr = (case side_of ctr of Inl e \<Rightarrow> raiseE e | Inr s \<Rightarrow> returnE s)"

definition flip_center :: "string \<Rightarrow> unit cmd" where
  "flip_center ctr =
     bindE (xform_q_vec CHR ''t'' ctr) (\<lambda>(t0, t1, t2).
     bindE (xform_q_vec CHR ''r'' ctr) (\<lambda>(r0, r1, r2).
     thenE (xform_set_vec CHR ''r'' ctr (r0, - r1, - r2))
           (xform_set_vec CHR ''t'' ctr (- t0, t1, t2))))"

definition swap_matrices :: "string \<Rightarrow> string \<Rightarrow> unit cmd" where
  "swap_matrices ctr opp =
     bindE (xform_q_matrix ctr) (\<lambda>ctr_xform.
     bindE (xform_q_matrix opp) (\<lambda>ctr_opposite_xform.
     thenE (xform_matrix opp ctr_xform) (xform_matrix ctr ctr_opposite_xform)))"

definition swap_user_attr :: "string \<Rightarrow> string \<Rightarrow> string \<Rightarrow> unit cmd" where
  "swap_user_attr ctr opp user_attr = try_pass
     (bindE (getAttr (plug ctr user_attr)) (\<lambda>attr_value.
      bindE (getAttr (plug opp user_attr)) (\<lambda>attr_opposite_value.
      thenE (setAttr (plug opp user_attr) attr_value)
            (setAttr (plug ctr user_attr) attr_opposite_value))))"

definition swap_user_attrs :: "string \<Rightarrow> string \<Rightarrow> unit cmd" where
  "swap_user_attrs ctr opp =
     bindE (listAttr_ud ctr) (\<lambda>user_attrs.
     whenE (user_attrs \<noteq> [])
       (bindE (listAttr_ud ctr) (\<lambda>attrs. forE attrs (swap_user_attr ctr opp))))"

definition flip_one_model :: "string \<Rightarrow> unit cmd" where
  "flip_one_model ctr =
     bindE (side_ofE ctr) (\<lambda>side.
       if side = ''_c_'' then flip_center ctr
       else thenE (swap_matrices ctr (mirror_name ctr side))
                  (swap_user_attrs ctr (mirror_name ctr side)))"

definition flip_pose_model :: "unit cmd" where
  "flip_pose_model = bindE ls_selection (\<lambda>selection. forE selection flip_one_model)"

definition flip_one_cls :: "string \<Rightarrow> unit cmd" where
  "flip_one_cls ctr =
     bindE (side_ofE ctr) (\<lambda>side.
       thenE (if side = ''_c_'' then flip_center ctr
              else swap_matrices ctr (mirror_name ctr side))
             (swap_user_attrs ctr (mirror_name ctr side)))"

definition flip_pose_cls :: "unit cmd" where
  "flip_pose_cls = undo_chunk (bindE ls_selection (\<lambda>selection. forE selection flip_one_cls))"

definition copy_user_attr :: "string \<Rightarrow> string \<Rightarrow> string \<Rightarrow> unit cmd" where
  "copy_user_attr ctr opp user_attr = try_pass
     (bindE (getAttr (plug ctr user_attr)) (\<lambda>attr_value.
      setAttr (plug opp user_attr) attr_value))"

definition copy_user_attrs :: "string \<Rightarrow> string \<Rightarrow> unit cmd" where
  "copy_user_attrs ctr opp =
     bindE (listAttr_ud ctr) (\<lambda>user_attrs.
     whenE (user_attrs \<noteq> [])
       (bindE (listAttr_ud ctr) (\<lambda>attrs. forE attrs (copy_user_attr ctr opp))))"

definition mirror_one :: "string \<Rightarrow> unit cmd" where
  "mirror_one ctr =
     bindE (side_ofE ctr) (\<lambda>side.
     whenE (side \<noteq> ''_c_'')
       (bindE (xform_q_matrix ctr) (\<lambda>ctr_xform.
        thenE (xform_matrix (mirror_name ctr side) ctr_xform)
              (copy_user_attrs ctr (mirror_name ctr side)))))"

definition mirror_pose_model :: "unit cmd" where
  "mirror_pose_model = bindE ls_selection (\<lambda>selection. forE selection mirror_one)"

definition mirror_pose_cls :: "unit cmd" where
  "mirror_pose_cls = undo_chunk (bindE ls_selection (\<lambda>selection. forE selection mirror_one))"

subsection \<open>The centre flip as a map on plugs\<close>

definition neg_val :: "val option \<Rightarrow> val option" where
  "neg_val v = (case v of Some (Num x) \<Rightarrow> Some (Num (- x)) | _ \<Rightarrow> v)"

definition neg_plug :: "string \<Rightarrow> (string \<rightharpoonup> val) \<Rightarrow> (string \<rightharpoonup> val)" where
  "neg_plug p pl = (case pl p of Some (Num x) \<Rightarrow> pl(p \<mapsto> Num (- x)) | _ \<Rightarrow> pl)"

definition neg_center :: "string \<Rightarrow> (string \<rightharpoonup> val) \<Rightarrow> (string \<rightharpoonup> val)" where
  "neg_center n pl = neg_plug (plug n ''tx'') (neg_plug (plug n ''rz'') (neg_plug (plug n ''ry'') pl))"

definition num_plug :: "(string \<rightharpoonup> val) \<Rightarrow> string \<Rightarrow> bool" where
  "num_plug pl p \<longleftrightarrow> (\<exists>x. pl p = Some (Num x))"

definition channels_ok :: "scene \<Rightarrow> string \<Rightarrow> bool" where
  "channels_ok sc n \<longleftrightarrow>
     node_exists sc n \<and>
     list_all (\<lambda>a. num_plug (plugs sc) (plug n a)) [''tx'', ''ty'', ''tz'', ''rx'', ''ry'', ''rz'']"

subsection \<open>Exchanging and copying plugs between a control and its counterpart\<close>

definition swap_pl :: "string \<Rightarrow> string \<Rightarrow> string \<Rightarrow> (string \<rightharpoonup> val) \<Rightarrow> (string \<rightharpoonup> val)" where
  "swap_pl c m a pl = pl(plug m a := pl (plug c a), plug c a := pl (plug m a))"

definition copy_pl :: "string \<Rightarrow> string \<Rightarrow> string \<Rightarrow> (string \<rightharpoonup> val) \<Rightarrow> (string \<rightharpoonup> val)" where
  "copy_pl c m a pl = pl(plug m a := pl (plug c a))"

definition pair_ok :: "scene \<Rightarrow> string \<Rightarrow> string \<Rightarrow> string \<Rightarrow> bool" where
  "pair_ok sc c m a \<longleftrightarrow>
     plugs sc (plug c a) \<noteq> None \<and> plugs sc (plug m a) \<noteq> None \<and>
     plug c a \<notin> locked sc \<and> plug m a \<notin> locked sc"

definition dotless :: "string \<Rightarrow> bool" where
  "dotless n \<longleftrightarrow> CHR ''.'' \<notin> set n"

text \<open>A scene with one centre control, its six channels set.\<close>

definition demo_center_scene :: scene where
  "demo_center_scene =
     \<lparr>sel = [''spine_c_ctr''],
      plugs = [plug ''spine_c_ctr'' ''tx'' \<mapsto> Num 1, plug ''spine_c_ctr'' ''ty'' \<mapsto> Num 2,
               plug ''spine_c_ctr'' ''tz'' \<mapsto> Num 3, plug ''spine_c_ctr'' ''rx'' \<mapsto> Num 4,
               plug ''spine_c_ctr'' ''ry'' \<mapsto> Num 5, plug ''spine_c_ctr'' ''rz'' \<mapsto> Num 6],
      locked = {}, udattrs = (\<lambda>_. []), defaults = Map.empty,
      lmat = [''spine_c_ctr'' \<mapsto> replicate 16 0], wmat = Map.empty, blend = Map.empty,
      relatives = Map.empty, keyed = [], mods = 0, undo_depth = 0\<rparr>"

text \<open>A left arm control and its right counterpart, one user attribute on the left one.\<close>

definition demo_side_scene :: scene where
  "demo_side_scene =
     \<lparr>sel = [''armFk_l_ctr''],
      plugs = [plug ''armFk_l_ctr'' ''bend'' \<mapsto> Num 1, plug ''armFk_r_ctr'' ''bend'' \<mapsto> Num 2],
      locked = {}, udattrs = (\<lambda>n. if n = ''armFk_l_ctr'' then [''bend''] else []),
      defaults = Map.empty,
      lmat = [''armFk_l_ctr'' \<mapsto> replicate 16 1, ''armFk_r_ctr'' \<mapsto> replicate 16 2],
      wmat = Map.empty, blend = Map.empty, relatives = Map.empty, keyed = [], mods = 0,
      undo_depth = 0\<rparr>"

text \<open>A centre brow control with a user attribute, and a right brow control with the same attribute.\<close>

definition demo_brow_scene :: scene where
  "demo_brow_scene =
     \<lparr>sel = [''brow_c_ctr''],
      plugs = [plug ''brow_c_ctr'' ''tx'' \<mapsto> Num 0, plug ''brow_c_ctr'' ''ty'' \<mapsto> Num 1,
               plug ''brow_c_ctr'' ''tz'' \<mapsto> Num 0, plug ''brow_c_ctr'' ''rx'' \<mapsto> Num 0,
               plug ''brow_c_ctr'' ''ry'' \<mapsto> Num 0, plug ''brow_c_ctr'' ''rz'' \<mapsto> Num 0,
               plug ''brow_c_ctr'' ''raise'' \<mapsto> Num 5, plug ''brow_r_ctr'' ''raise'' \<mapsto> Num 0],
      locked = {}, udattrs = (\<lambda>n. if n = ''brow_c_ctr'' then [''raise''] else []),
      defaults = Map.empty,
      lmat = [''brow_c_ctr'' \<mapsto> replicate 16 0, ''brow_r_ctr'' \<mapsto> replicate 16 0],
      wmat = Map.empty, blend = Map.empty, relatives = Map.empty, keyed = [], mods = 0,
      undo_depth = 0\<rparr>"

lemma neg_val_twice [simp]: "neg_val (neg_val v) = v"
  by (simp add: neg_val_def split: option.split val.split)

lemma neg_plug_apply: "neg_plug p pl q = (if q = p then neg_val (pl p) else pl q)"
  by (simp add: neg_plug_def neg_val_def split: option.split val.split)

lemma neg_center_apply:
  "neg_center n pl q =
     (if q \<in> {plug n ''tx'', plug n ''ry'', plug n ''rz''} then neg_val (pl q) else pl q)"
  by (auto simp: neg_center_def neg_plug_apply)

lemma neg_center_twice [simp]: "neg_center n (neg_center n pl) = pl"
  by (rule ext) (simp add: neg_center_apply)

lemma neg_center_commute: "neg_center n (neg_center m pl) = neg_center m (neg_center n pl)"
  by (rule ext) (simp add: neg_center_apply)

lemma num_plug_neg_center [simp]: "num_plug (neg_center n pl) p = num_plug pl p"
  by (auto simp: num_plug_def neg_center_apply neg_val_def split: option.split val.split)

lemma channels_ok_neg_center [simp]:
  "channels_ok (sc\<lparr>plugs := neg_center m (plugs sc)\<rparr>) n = channels_ok sc n"
  by (simp add: channels_ok_def node_exists_def)

lemma fold_neg_center_commute:
  "fold neg_center cs (neg_center c pl) = neg_center c (fold neg_center cs pl)"
proof (induction cs arbitrary: pl)
  case Nil
  then show ?case by simp
next
  case (Cons a cs)
  then show ?case by (simp add: neg_center_commute [of a c])
qed

lemma fold_neg_center_twice: "fold neg_center cs (fold neg_center cs pl) = pl"
  by (induction cs arbitrary: pl) (simp_all add: fold_neg_center_commute)

lemma channels_ok_fold [simp]:
  "channels_ok (sc\<lparr>plugs := fold neg_center cs (plugs sc)\<rparr>) n = channels_ok sc n"
proof (induction cs arbitrary: sc)
  case Nil
  then show ?case by simp
next
  case (Cons c cs)
  from Cons.IH [of "sc\<lparr>plugs := neg_center c (plugs sc)\<rparr>"] show ?case by simp
qed

lemma flip_center_eff:
  assumes "channels_ok sc n"
  shows "flip_center n sc = (Inr (), sc\<lparr>plugs := neg_center n (plugs sc)\<rparr>)"
proof -
  from assms obtain tx ty tz rx ry rz where
    ex: "node_exists sc n" and
    v: "plugs sc (plug n ''tx'') = Some (Num tx)" "plugs sc (plug n ''ty'') = Some (Num ty)"
       "plugs sc (plug n ''tz'') = Some (Num tz)" "plugs sc (plug n ''rx'') = Some (Num rx)"
       "plugs sc (plug n ''ry'') = Some (Num ry)" "plugs sc (plug n ''rz'') = Some (Num rz)"
    by (auto simp: channels_ok_def num_plug_def)
  have q: "xform_q_vec CHR ''t'' n sc = (Inr (tx, ty, tz), sc)"
          "xform_q_vec CHR ''r'' n sc = (Inr (rx, ry, rz), sc)"
    using ex v by (simp_all add: xform_q_vec_def)
  have "((plugs sc)(plug n ''rx'' \<mapsto> Num rx, plug n ''ry'' \<mapsto> Num (- ry),
           plug n ''rz'' \<mapsto> Num (- rz)))(plug n ''tx'' \<mapsto> Num (- tx), plug n ''ty'' \<mapsto> Num ty,
           plug n ''tz'' \<mapsto> Num tz) = neg_center n (plugs sc)"
    using v by (auto simp: neg_center_def neg_plug_def fun_eq_iff)
  with q ex show ?thesis
    by (simp add: flip_center_def xform_set_vec_def node_exists_def exc_simps)
qed

lemma flip_one_model_center:
  "side_of c = Inr ''_c_'' \<Longrightarrow> flip_one_model c sc = flip_center c sc"
  by (simp add: flip_one_model_def side_ofE_def exc_simps)

lemma forE_flip_centers:
  "\<forall>c \<in> set cs. side_of c = Inr ''_c_'' \<and> channels_ok sc c \<Longrightarrow>
   forE cs flip_one_model sc = (Inr (), sc\<lparr>plugs := fold neg_center cs (plugs sc)\<rparr>)"
proof (induction cs arbitrary: sc)
  case Nil
  then show ?case by (simp add: exc_simps)
next
  case (Cons c cs)
  let ?sc1 = "sc\<lparr>plugs := neg_center c (plugs sc)\<rparr>"
  from Cons.prems have step: "flip_one_model c sc = (Inr (), ?sc1)"
    by (simp add: flip_one_model_center flip_center_eff)
  from Cons.prems have "forE cs flip_one_model ?sc1 =
      (Inr (), ?sc1\<lparr>plugs := fold neg_center cs (plugs ?sc1)\<rparr>)"
    by (intro Cons.IH) simp
  with step show ?case by simp
qed

subsection \<open>Side controls\<close>

lemma side_ofE_ok [simp]: "side_of c = Inr s \<Longrightarrow> side_ofE c sc = (Inr s, sc)"
  by (simp add: side_ofE_def exc_simps)

lemma swap_matrices_eff:
  "lmat sc c = Some A \<Longrightarrow> lmat sc m = Some B \<Longrightarrow> length A = 16 \<Longrightarrow> length B = 16 \<Longrightarrow>
   swap_matrices c m sc = (Inr (), sc\<lparr>lmat := (lmat sc)(m \<mapsto> A, c \<mapsto> B)\<rparr>)"
  by (simp add: swap_matrices_def exc_simps host_simps)

lemma swap_user_attr_eff:
  "pair_ok sc c m a \<Longrightarrow>
   swap_user_attr c m a sc = (Inr (), sc\<lparr>plugs := swap_pl c m a (plugs sc)\<rparr>)"
  by (auto simp: swap_user_attr_def pair_ok_def swap_pl_def exc_simps host_simps)

lemma copy_user_attr_eff:
  "pair_ok sc c m a \<Longrightarrow>
   copy_user_attr c m a sc = (Inr (), sc\<lparr>plugs := copy_pl c m a (plugs sc)\<rparr>)"
  by (auto simp: copy_user_attr_def pair_ok_def copy_pl_def exc_simps host_simps)

lemma plug_pair_ne:
  "dotless c \<Longrightarrow> dotless m \<Longrightarrow> c \<noteq> m \<Longrightarrow> plug c a \<noteq> plug m b"
  by (simp add: dotless_def plug_inject)

lemma swap_pl_at:
  "plug c a \<noteq> plug m a \<Longrightarrow>
   swap_pl c m a pl (plug c a) = pl (plug m a) \<and> swap_pl c m a pl (plug m a) = pl (plug c a)"
  by (simp add: swap_pl_def)

lemma copy_pl_at: "copy_pl c m a pl (plug m a) = pl (plug c a)"
  by (simp add: copy_pl_def)

lemma swap_pl_other:
  "dotless c \<Longrightarrow> dotless m \<Longrightarrow> c \<noteq> m \<Longrightarrow> b \<noteq> a \<Longrightarrow>
   swap_pl c m a pl (plug c b) = pl (plug c b) \<and> swap_pl c m a pl (plug m b) = pl (plug m b)"
  using plug_pair_ne [of c m] plug_pair_ne [of m c] by (simp add: swap_pl_def)

lemma copy_pl_other:
  "dotless c \<Longrightarrow> dotless m \<Longrightarrow> c \<noteq> m \<Longrightarrow>
   copy_pl c m a pl (plug c b) = pl (plug c b) \<and>
   (b \<noteq> a \<longrightarrow> copy_pl c m a pl (plug m b) = pl (plug m b))"
  using plug_pair_ne [of c m] plug_pair_ne [of m c] by (simp add: copy_pl_def)

lemma pair_ok_swap:
  "dotless c \<Longrightarrow> dotless m \<Longrightarrow> c \<noteq> m \<Longrightarrow> b \<noteq> a \<Longrightarrow> pair_ok sc c m b \<Longrightarrow>
   pair_ok (sc\<lparr>plugs := swap_pl c m a (plugs sc)\<rparr>) c m b"
  using swap_pl_other [of c m b a "plugs sc"] by (simp add: pair_ok_def)

lemma pair_ok_copy:
  "dotless c \<Longrightarrow> dotless m \<Longrightarrow> c \<noteq> m \<Longrightarrow> b \<noteq> a \<Longrightarrow> pair_ok sc c m b \<Longrightarrow>
   pair_ok (sc\<lparr>plugs := copy_pl c m a (plugs sc)\<rparr>) c m b"
  using copy_pl_other [of c m a "plugs sc" b] by (simp add: pair_ok_def)

lemma forE_swap_user_attr:
  "dotless c \<Longrightarrow> dotless m \<Longrightarrow> c \<noteq> m \<Longrightarrow> distinct as \<Longrightarrow> list_all (pair_ok sc c m) as \<Longrightarrow>
   forE as (swap_user_attr c m) sc = (Inr (), sc\<lparr>plugs := fold (swap_pl c m) as (plugs sc)\<rparr>)"
proof (induction as arbitrary: sc)
  case Nil
  then show ?case by (simp add: exc_simps)
next
  case (Cons a as)
  let ?sc1 = "sc\<lparr>plugs := swap_pl c m a (plugs sc)\<rparr>"
  from Cons.prems have "list_all (pair_ok ?sc1 c m) as"
    by (auto simp: list_all_iff intro: pair_ok_swap)
  with Cons.prems have "forE as (swap_user_attr c m) ?sc1 =
      (Inr (), ?sc1\<lparr>plugs := fold (swap_pl c m) as (plugs ?sc1)\<rparr>)"
    by (intro Cons.IH) simp_all
  with Cons.prems show ?case by (simp add: swap_user_attr_eff)
qed

lemma forE_copy_user_attr:
  "dotless c \<Longrightarrow> dotless m \<Longrightarrow> c \<noteq> m \<Longrightarrow> distinct as \<Longrightarrow> list_all (pair_ok sc c m) as \<Longrightarrow>
   forE as (copy_user_attr c m) sc = (Inr (), sc\<lparr>plugs := fold (copy_pl c m) as (plugs sc)\<rparr>)"
proof (induction as arbitrary: sc)
  case Nil
  then show ?case by (simp add: exc_simps)
next
  case (Cons a as)
  let ?sc1 = "sc\<lparr>plugs := copy_pl c m a (plugs sc)\<rparr>"
  from Cons.prems have "list_all (pair_ok ?sc1 c m) as"
    by (auto simp: list_all_iff intro: pair_ok_copy)
  with Cons.prems have "forE as (copy_user_attr c m) ?sc1 =
      (Inr (), ?sc1\<lparr>plugs := fold (copy_pl c m) as (plugs ?sc1)\<rparr>)"
    by (intro Cons.IH) simp_all
  with Cons.prems show ?case by (simp add: copy_user_attr_eff)
qed

lemma fold_swap_pl_other:
  "dotless c \<Longrightarrow> dotless m \<Longrightarrow> c \<noteq> m \<Longrightarrow> b \<notin> set as \<Longrightarrow>
   fold (swap_pl c m) as pl (plug c b) = pl (plug c b) \<and>
   fold (swap_pl c m) as pl (plug m b) = pl (plug m b)"
  by (induction as arbitrary: pl) (simp_all add: swap_pl_other)

lemma fold_swap_pl:
  "dotless c \<Longrightarrow> dotless m \<Longrightarrow> c \<noteq> m \<Longrightarrow> distinct as \<Longrightarrow> a \<in> set as \<Longrightarrow>
   fold (swap_pl c m) as pl (plug c a) = pl (plug m a) \<and>
   fold (swap_pl c m) as pl (plug m a) = pl (plug c a)"
proof (induction as arbitrary: pl)
  case Nil
  then show ?case by simp
next
  case (Cons b as)
  show ?case
  proof (cases "a = b")
    case True
    with Cons.prems fold_swap_pl_other [of c m a as "swap_pl c m a pl"] show ?thesis
      using plug_pair_ne [of c m a a] swap_pl_at [of c a m pl] by simp
  next
    case False
    with Cons.prems Cons.IH [of "swap_pl c m b pl"] show ?thesis
      by (simp add: swap_pl_other)
  qed
qed

lemma fold_copy_pl_src:
  "dotless c \<Longrightarrow> dotless m \<Longrightarrow> c \<noteq> m \<Longrightarrow> fold (copy_pl c m) as pl (plug c b) = pl (plug c b)"
  by (induction as arbitrary: pl) (simp_all add: copy_pl_other)

lemma fold_copy_pl_other:
  "dotless c \<Longrightarrow> dotless m \<Longrightarrow> c \<noteq> m \<Longrightarrow> b \<notin> set as \<Longrightarrow>
   fold (copy_pl c m) as pl (plug m b) = pl (plug m b)"
  by (induction as arbitrary: pl) (simp_all add: copy_pl_other)

lemma fold_copy_pl:
  "dotless c \<Longrightarrow> dotless m \<Longrightarrow> c \<noteq> m \<Longrightarrow> distinct as \<Longrightarrow> a \<in> set as \<Longrightarrow>
   fold (copy_pl c m) as pl (plug m a) = pl (plug c a)"
proof (induction as arbitrary: pl)
  case Nil
  then show ?case by simp
next
  case (Cons b as)
  show ?case
  proof (cases "a = b")
    case True
    with Cons.prems fold_copy_pl_other [of c m a as "copy_pl c m a pl"] show ?thesis
      by (simp add: copy_pl_at)
  next
    case False
    with Cons.prems Cons.IH [of "copy_pl c m b pl"] show ?thesis
      by (simp add: copy_pl_other)
  qed
qed

lemma swap_user_attrs_eff:
  "node_exists sc c \<Longrightarrow> dotless c \<Longrightarrow> dotless m \<Longrightarrow> c \<noteq> m \<Longrightarrow> distinct (udattrs sc c) \<Longrightarrow>
   list_all (pair_ok sc c m) (udattrs sc c) \<Longrightarrow>
   swap_user_attrs c m sc = (Inr (), sc\<lparr>plugs := fold (swap_pl c m) (udattrs sc c) (plugs sc)\<rparr>)"
  by (simp add: swap_user_attrs_def exc_simps host_simps forE_swap_user_attr)

lemma copy_user_attrs_eff:
  "node_exists sc c \<Longrightarrow> dotless c \<Longrightarrow> dotless m \<Longrightarrow> c \<noteq> m \<Longrightarrow> distinct (udattrs sc c) \<Longrightarrow>
   list_all (pair_ok sc c m) (udattrs sc c) \<Longrightarrow>
   copy_user_attrs c m sc = (Inr (), sc\<lparr>plugs := fold (copy_pl c m) (udattrs sc c) (plugs sc)\<rparr>)"
  by (simp add: copy_user_attrs_def exc_simps host_simps forE_copy_user_attr)

lemma pair_ok_lmat [simp]: "pair_ok (sc\<lparr>lmat := L\<rparr>) = pair_ok sc"
  by (simp add: pair_ok_def fun_eq_iff)

text \<open>The side-control step of the free-function flip, where its host calls succeed.\<close>

lemma flip_one_model_side:
  assumes "side_of c = Inr side" "side \<noteq> ''_c_''" "mirror_name c side = m" "m \<noteq> c"
    and "dotless c" "dotless m"
    and "lmat sc c = Some A" "lmat sc m = Some B" "length A = 16" "length B = 16"
    and "distinct (udattrs sc c)" "list_all (pair_ok sc c m) (udattrs sc c)"
  shows "flip_one_model c sc =
           (Inr (), sc\<lparr>lmat := (lmat sc)(m \<mapsto> A, c \<mapsto> B),
                       plugs := fold (swap_pl c m) (udattrs sc c) (plugs sc)\<rparr>)"
proof -
  let ?sc1 = "sc\<lparr>lmat := (lmat sc)(m \<mapsto> A, c \<mapsto> B)\<rparr>"
  have "swap_matrices c m sc = (Inr (), ?sc1)"
    using assms by (simp add: swap_matrices_eff)
  moreover have "swap_user_attrs c m ?sc1 =
      (Inr (), ?sc1\<lparr>plugs := fold (swap_pl c m) (udattrs ?sc1 c) (plugs ?sc1)\<rparr>)"
    by (rule swap_user_attrs_eff) (use assms in \<open>simp_all add: node_exists_def\<close>)
  ultimately show ?thesis
    using assms by (simp add: flip_one_model_def exc_simps)
qed

lemma mirror_one_side:
  assumes "side_of c = Inr side" "side \<noteq> ''_c_''" "mirror_name c side = m" "m \<noteq> c"
    and "dotless c" "dotless m"
    and "lmat sc c = Some A" "lmat sc m \<noteq> None" "length A = 16"
    and "distinct (udattrs sc c)" "list_all (pair_ok sc c m) (udattrs sc c)"
  shows "mirror_one c sc =
           (Inr (), sc\<lparr>lmat := (lmat sc)(m \<mapsto> A),
                       plugs := fold (copy_pl c m) (udattrs sc c) (plugs sc)\<rparr>)"
proof -
  let ?sc1 = "sc\<lparr>lmat := (lmat sc)(m \<mapsto> A)\<rparr>"
  have "xform_matrix m A sc = (Inr (), ?sc1)"
    using assms by (simp add: host_simps)
  moreover have "copy_user_attrs c m ?sc1 =
      (Inr (), ?sc1\<lparr>plugs := fold (copy_pl c m) (udattrs ?sc1 c) (plugs ?sc1)\<rparr>)"
    by (rule copy_user_attrs_eff) (use assms in \<open>simp_all add: node_exists_def\<close>)
  ultimately show ?thesis
    using assms by (simp add: mirror_one_def exc_simps host_simps)
qed

lemma pose_steps_frame:
  assumes "\<And>s q. P (s\<lparr>plugs := q\<rparr>) = P s" "\<And>s q. P (s\<lparr>lmat := q\<rparr>) = P s"
  shows "keeps P (flip_one_model c)" "keeps P (flip_one_cls c)" "keeps P (mirror_one c)"
  using assms
  unfolding flip_one_model_def flip_one_cls_def mirror_one_def side_ofE_def flip_center_def
    swap_matrices_def swap_user_attrs_def swap_user_attr_def copy_user_attrs_def
    copy_user_attr_def
  by (intro keeps_intros; simp)+

lemma swap_user_attrs_noraise: "node_exists sc c \<Longrightarrow> fst (swap_user_attrs c m sc) = Inr ()"
  by (simp add: swap_user_attrs_def exc_simps host_simps forE_noraise swap_user_attr_def
      try_pass_never_raises)

lemma swap_user_attrs_lmat: "lmat (snd (swap_user_attrs c m sc)) = lmat sc"
proof -
  have "keeps (\<lambda>s. lmat s = lmat sc) (swap_user_attrs c m)"
    unfolding swap_user_attrs_def swap_user_attr_def by (intro keeps_intros; simp)
  then show ?thesis by (rule keepsD) simp
qed

lemma flip_one_model_side_lmat:
  assumes "side_of c = Inr side" "side \<noteq> ''_c_''" "mirror_name c side = m"
    and "lmat sc c = Some A" "lmat sc m = Some B" "length A = 16" "length B = 16"
  shows "fst (flip_one_model c sc) = Inr () \<and>
         lmat (snd (flip_one_model c sc)) = (lmat sc)(m \<mapsto> A, c \<mapsto> B)"
proof -
  let ?sc1 = "sc\<lparr>lmat := (lmat sc)(m \<mapsto> A, c \<mapsto> B)\<rparr>"
  have sw: "swap_matrices c m sc = (Inr (), ?sc1)"
    using assms by (simp add: swap_matrices_eff)
  have "node_exists ?sc1 c" by (simp add: node_exists_def)
  then have "fst (swap_user_attrs c m ?sc1) = Inr ()" by (rule swap_user_attrs_noraise)
  then obtain sc2 where "swap_user_attrs c m ?sc1 = (Inr (), sc2)"
    by (cases "swap_user_attrs c m ?sc1") simp
  moreover have "lmat (snd (swap_user_attrs c m ?sc1)) = lmat ?sc1" by (rule swap_user_attrs_lmat)
  ultimately show ?thesis
    using assms sw by (simp add: flip_one_model_def exc_simps)
qed

lemma neg_center_other:
  assumes "dotless n" "dotless m" "n \<noteq> m"
  shows "neg_center n pl (plug m b) = pl (plug m b)"
proof -
  have "plug m b \<noteq> plug n x" for x using plug_pair_ne [of m n b x] assms by simp
  then show ?thesis by (simp add: neg_center_apply)
qed

lemma neg_center_user_attr:
  "a \<notin> set [''tx'', ''ry'', ''rz''] \<Longrightarrow> neg_center n pl (plug n a) = pl (plug n a)"
  by (auto simp: neg_center_apply)

lemma flip_pose_model_centers:
  "\<forall>c \<in> set (sel sc). side_of c = Inr ''_c_'' \<and> channels_ok sc c \<Longrightarrow>
   flip_pose_model sc = (Inr (), sc\<lparr>plugs := fold neg_center (sel sc) (plugs sc)\<rparr>)"
  by (simp add: flip_pose_model_def exc_simps host_simps forE_flip_centers)

lemma fold_neg_center_outside:
  "c \<notin> set cs \<Longrightarrow> dotless c \<Longrightarrow> list_all dotless cs \<Longrightarrow> fold neg_center cs pl (plug c a) = pl (plug c a)"
  by (induction cs arbitrary: pl) (auto simp: neg_center_other)

lemma fold_neg_center_at:
  assumes "distinct cs" "list_all dotless cs" "c \<in> set cs"
  shows "fold neg_center cs pl (plug c a) =
           (if a \<in> {''tx'', ''ry'', ''rz''} then neg_val (pl (plug c a)) else pl (plug c a))"
  using assms
proof (induction cs arbitrary: pl)
  case Nil
  then show ?case by simp
next
  case (Cons b cs)
  show ?case
  proof (cases "b = c")
    case True
    with Cons.prems have "c \<notin> set cs" "dotless c" "list_all dotless cs" by auto
    then have "fold neg_center cs (neg_center c pl) (plug c a) = neg_center c pl (plug c a)"
      by (rule fold_neg_center_outside)
    then have "fold neg_center (b # cs) pl (plug c a) = neg_center c pl (plug c a)"
      using True by simp
    also have "\<dots> = (if a \<in> {''tx'', ''ry'', ''rz''} then neg_val (pl (plug c a)) else pl (plug c a))"
      by (simp add: neg_center_apply)
    finally show ?thesis .
  next
    case False
    have "neg_center b pl (plug c a) = pl (plug c a)"
      by (rule neg_center_other) (use Cons.prems False in \<open>auto simp: list_all_iff\<close>)
    with False Cons.prems Cons.IH [of "neg_center b pl"] show ?thesis by auto
  qed
qed

text \<open>
  C1. With only centre controls selected, flip returns normally and negates rotate Y,
  rotate Z and translate X of every selected control (mirroring it across the X axis),
  leaving its other channels and attributes as they were where no control is selected
  twice; and flipping twice gives back the scene it started from, whatever the order
  of the selection.
\<close>

theorem flip_pose_center_involution:
  assumes "\<forall>c \<in> set (sel sc). side_of c = Inr ''_c_'' \<and> channels_ok sc c"
  shows "fst (flip_pose_model sc) = Inr () \<and>
    (distinct (sel sc) \<and> list_all dotless (sel sc) \<longrightarrow>
       (\<forall>c \<in> set (sel sc). \<forall>a.
          plugs (snd (flip_pose_model sc)) (plug c a) =
            (if a \<in> {''tx'', ''ry'', ''rz''} then neg_val (plugs sc (plug c a)) else plugs sc (plug c a)))) \<and>
    flip_pose_model (snd (flip_pose_model sc)) = (Inr (), sc)"
proof -
  let ?sc1 = "sc\<lparr>plugs := fold neg_center (sel sc) (plugs sc)\<rparr>"
  have first: "flip_pose_model sc = (Inr (), ?sc1)"
    using assms by (rule flip_pose_model_centers)
  from assms have "\<forall>c \<in> set (sel ?sc1). side_of c = Inr ''_c_'' \<and> channels_ok ?sc1 c"
    by simp
  then have "flip_pose_model ?sc1 = (Inr (), ?sc1\<lparr>plugs := fold neg_center (sel ?sc1) (plugs ?sc1)\<rparr>)"
    by (rule flip_pose_model_centers)
  with first show ?thesis by (simp add: fold_neg_center_twice fold_neg_center_at)
qed

theorem flip_pose_center_involution_witness:
  "fst (flip_pose_model demo_center_scene) = Inr () \<and>
   plugs (snd (flip_pose_model demo_center_scene)) (plug ''spine_c_ctr'' ''ry'') = Some (Num (- 5)) \<and>
   plugs (snd (flip_pose_model demo_center_scene)) (plug ''spine_c_ctr'' ''rx'') = Some (Num 4) \<and>
   flip_pose_model (snd (flip_pose_model demo_center_scene)) = (Inr (), demo_center_scene)"
proof -
  have h: "\<forall>c \<in> set (sel demo_center_scene). side_of c = Inr ''_c_'' \<and> channels_ok demo_center_scene c"
    by (simp add: demo_center_scene_def side_of_def py_index_def channels_ok_def num_plug_def
        node_exists_def plug_def)
  have d: "distinct (sel demo_center_scene) \<and> list_all dotless (sel demo_center_scene)"
    by (simp add: demo_center_scene_def dotless_def)
  have "plugs demo_center_scene (plug ''spine_c_ctr'' ''ry'') = Some (Num 5)"
    "plugs demo_center_scene (plug ''spine_c_ctr'' ''rx'') = Some (Num 4)"
    "''spine_c_ctr'' \<in> set (sel demo_center_scene)"
    by (simp_all add: demo_center_scene_def plug_def)
  then show ?thesis
    using flip_pose_center_involution [OF h] d by (auto simp: neg_val_def)
qed

text \<open>
  C2. With one side control selected, flip exchanges it with its counterpart (the name
  with the side token replaced): the two object-space matrices trade places and every
  user-defined attribute of the control trades its value with the counterpart's, where
  both plugs exist and neither is locked. Nothing raises.
\<close>

theorem flip_pose_side_exchange:
  assumes "sel sc = [c]" "side_of c = Inr side" "side \<noteq> ''_c_''"
    and "mirror_name c side = m" "m \<noteq> c" "dotless c" "dotless m"
    and "lmat sc c = Some A" "lmat sc m = Some B" "length A = 16" "length B = 16"
    and "distinct (udattrs sc c)" "list_all (pair_ok sc c m) (udattrs sc c)"
  shows "fst (flip_pose_model sc) = Inr () \<and>
         lmat (snd (flip_pose_model sc)) = (lmat sc)(m \<mapsto> A, c \<mapsto> B) \<and>
         list_all (\<lambda>a. plugs (snd (flip_pose_model sc)) (plug c a) = plugs sc (plug m a) \<and>
                       plugs (snd (flip_pose_model sc)) (plug m a) = plugs sc (plug c a))
                  (udattrs sc c)"
proof -
  have "flip_pose_model sc =
          (Inr (), sc\<lparr>lmat := (lmat sc)(m \<mapsto> A, c \<mapsto> B),
                      plugs := fold (swap_pl c m) (udattrs sc c) (plugs sc)\<rparr>)"
    using assms by (simp add: flip_pose_model_def exc_simps host_simps flip_one_model_side)
  then show ?thesis
    using assms fold_swap_pl [of c m "udattrs sc c"] by (simp add: list_all_iff)
qed

theorem flip_pose_side_exchange_witness:
  "fst (flip_pose_model demo_side_scene) = Inr () \<and>
   lmat (snd (flip_pose_model demo_side_scene)) =
     (lmat demo_side_scene)(''armFk_r_ctr'' \<mapsto> replicate 16 1, ''armFk_l_ctr'' \<mapsto> replicate 16 2) \<and>
   list_all (\<lambda>a. plugs (snd (flip_pose_model demo_side_scene)) (plug ''armFk_l_ctr'' a) =
                   plugs demo_side_scene (plug ''armFk_r_ctr'' a) \<and>
                 plugs (snd (flip_pose_model demo_side_scene)) (plug ''armFk_r_ctr'' a) =
                   plugs demo_side_scene (plug ''armFk_l_ctr'' a))
            (udattrs demo_side_scene ''armFk_l_ctr'')"
  by (rule flip_pose_side_exchange [of demo_side_scene "''armFk_l_ctr''" "''_l_''" "''armFk_r_ctr''"])
     (simp_all add: demo_side_scene_def side_of_def py_index_def mirror_name_def py_replace_def
        opposite_side_def dotless_def pair_ok_def plug_def)

text \<open>
  C3. With one side control selected, mirror copies it onto its counterpart: the
  counterpart's object-space matrix becomes the control's, every user-defined attribute
  value of the control is written to the counterpart (where both plugs exist and the
  counterpart's is not locked), and the control itself keeps its values.
\<close>

theorem mirror_pose_side_copy:
  assumes "sel sc = [c]" "side_of c = Inr side" "side \<noteq> ''_c_''"
    and "mirror_name c side = m" "m \<noteq> c" "dotless c" "dotless m"
    and "lmat sc c = Some A" "lmat sc m \<noteq> None" "length A = 16"
    and "distinct (udattrs sc c)" "list_all (pair_ok sc c m) (udattrs sc c)"
  shows "fst (mirror_pose_model sc) = Inr () \<and>
         lmat (snd (mirror_pose_model sc)) = (lmat sc)(m \<mapsto> A) \<and>
         list_all (\<lambda>a. plugs (snd (mirror_pose_model sc)) (plug m a) = plugs sc (plug c a) \<and>
                       plugs (snd (mirror_pose_model sc)) (plug c a) = plugs sc (plug c a))
                  (udattrs sc c)"
proof -
  have "mirror_pose_model sc =
          (Inr (), sc\<lparr>lmat := (lmat sc)(m \<mapsto> A),
                      plugs := fold (copy_pl c m) (udattrs sc c) (plugs sc)\<rparr>)"
    using assms by (simp add: mirror_pose_model_def exc_simps host_simps mirror_one_side)
  then show ?thesis
    using assms fold_copy_pl [of c m "udattrs sc c"] fold_copy_pl_src [of c m]
    by (simp add: list_all_iff)
qed

theorem mirror_pose_side_copy_witness:
  "fst (mirror_pose_model demo_side_scene) = Inr () \<and>
   lmat (snd (mirror_pose_model demo_side_scene)) =
     (lmat demo_side_scene)(''armFk_r_ctr'' \<mapsto> replicate 16 1) \<and>
   list_all (\<lambda>a. plugs (snd (mirror_pose_model demo_side_scene)) (plug ''armFk_r_ctr'' a) =
                   plugs demo_side_scene (plug ''armFk_l_ctr'' a) \<and>
                 plugs (snd (mirror_pose_model demo_side_scene)) (plug ''armFk_l_ctr'' a) =
                   plugs demo_side_scene (plug ''armFk_l_ctr'' a))
            (udattrs demo_side_scene ''armFk_l_ctr'')"
  by (rule mirror_pose_side_copy [of demo_side_scene "''armFk_l_ctr''" "''_l_''" "''armFk_r_ctr''"])
     (simp_all add: demo_side_scene_def side_of_def py_index_def mirror_name_def py_replace_def
        opposite_side_def dotless_def pair_ok_def plug_def)

text \<open>
  C4. Flip exchanges a pair once for each selected name of the pair: with the left control
  alone selected, the left and right object-space matrices trade places; with both the
  left and the right control selected, the second exchange undoes the first and both
  matrices are as they were. Flipping a whole selected pose therefore changes only its
  centre controls.
\<close>

theorem flip_pose_both_sides_cancel:
  assumes "rig_name_ok pre ''l'' post"
    and "sel sc = [rig_name pre ''l'' post, rig_name pre ''r'' post]"
    and "lmat sc (rig_name pre ''l'' post) = Some A" "lmat sc (rig_name pre ''r'' post) = Some B"
    and "length A = 16" "length B = 16"
  shows "fst (flip_pose_model (sc\<lparr>sel := [rig_name pre ''l'' post]\<rparr>)) = Inr () \<and>
         lmat (snd (flip_pose_model (sc\<lparr>sel := [rig_name pre ''l'' post]\<rparr>))) =
           (lmat sc)(rig_name pre ''r'' post \<mapsto> A, rig_name pre ''l'' post \<mapsto> B) \<and>
         fst (flip_pose_model sc) = Inr () \<and> lmat (snd (flip_pose_model sc)) = lmat sc"
proof -
  let ?l = "rig_name pre ''l'' post" and ?r = "rig_name pre ''r'' post"
  have ok_r: "rig_name_ok pre ''r'' post" using assms(1) by (simp add: rig_name_ok_def)
  have sl: "side_of ?l = Inr ''_l_''" and sr: "side_of ?r = Inr ''_r_''"
    using assms(1) ok_r by (simp_all add: rig_name_ok_def side_of_rig_name)
  have ml: "mirror_name ?l ''_l_'' = ?r" and mr: "mirror_name ?r ''_r_'' = ?l"
    using mirror_rig_name [OF assms(1)] mirror_rig_name [OF ok_r] by simp_all
  have "fst (flip_one_model ?l sc) = Inr () \<and>
      lmat (snd (flip_one_model ?l sc)) = (lmat sc)(?r \<mapsto> A, ?l \<mapsto> B)"
    using flip_one_model_side_lmat [OF sl _ ml assms(3,4,5,6)] by simp
  then obtain sc1 where e1: "flip_one_model ?l sc = (Inr (), sc1)"
    and l1: "lmat sc1 = (lmat sc)(?r \<mapsto> A, ?l \<mapsto> B)"
    by (cases "flip_one_model ?l sc") auto
  have "?l \<noteq> ?r" by (simp add: rig_name_def)
  with l1 have "lmat sc1 ?r = Some A" "lmat sc1 ?l = Some B" by simp_all
  then have "fst (flip_one_model ?r sc1) = Inr () \<and>
      lmat (snd (flip_one_model ?r sc1)) = (lmat sc1)(?l \<mapsto> A, ?r \<mapsto> B)"
    using flip_one_model_side_lmat [OF sr _ mr _ _ assms(5,6)] by simp
  then obtain sc2 where e2: "flip_one_model ?r sc1 = (Inr (), sc2)"
    and l2: "lmat sc2 = (lmat sc1)(?l \<mapsto> A, ?r \<mapsto> B)"
    by (cases "flip_one_model ?r sc1") auto
  have "lmat sc2 = lmat sc"
    using l1 l2 assms(3,4) by (auto simp: fun_eq_iff)
  moreover have "fst (flip_one_model ?l (sc\<lparr>sel := [?l]\<rparr>)) = Inr () \<and>
      lmat (snd (flip_one_model ?l (sc\<lparr>sel := [?l]\<rparr>))) = (lmat sc)(?r \<mapsto> A, ?l \<mapsto> B)"
    using flip_one_model_side_lmat [OF sl _ ml, of "sc\<lparr>sel := [?l]\<rparr>" A B] assms(3-6) by simp
  then obtain sc3 where e3: "flip_one_model ?l (sc\<lparr>sel := [?l]\<rparr>) = (Inr (), sc3)"
    and l3: "lmat sc3 = (lmat sc)(?r \<mapsto> A, ?l \<mapsto> B)"
    by (cases "flip_one_model ?l (sc\<lparr>sel := [?l]\<rparr>)") auto
  ultimately show ?thesis
    using e1 e2 e3 l3 assms(2) by (simp add: flip_pose_model_def exc_simps host_simps)
qed

theorem flip_pose_both_sides_cancel_witness:
  "fst (flip_pose_model demo_side_scene) = Inr () \<and>
   lmat (snd (flip_pose_model demo_side_scene)) =
     (lmat demo_side_scene)(''armFk_r_ctr'' \<mapsto> replicate 16 1, ''armFk_l_ctr'' \<mapsto> replicate 16 2) \<and>
   fst (flip_pose_model (demo_side_scene\<lparr>sel := [''armFk_l_ctr'', ''armFk_r_ctr'']\<rparr>)) = Inr () \<and>
   lmat (snd (flip_pose_model (demo_side_scene\<lparr>sel := [''armFk_l_ctr'', ''armFk_r_ctr'']\<rparr>))) =
     lmat demo_side_scene"
proof -
  have "rig_name ''armFk'' ''l'' ''ctr'' = ''armFk_l_ctr''" "rig_name ''armFk'' ''r'' ''ctr'' = ''armFk_r_ctr''"
    by (simp_all add: rig_name_def)
  moreover have "rig_name_ok ''armFk'' ''l'' ''ctr''" by (simp add: rig_name_ok_def)
  moreover have "demo_side_scene\<lparr>sel := [''armFk_l_ctr'', ''armFk_r_ctr'']\<rparr>\<lparr>sel := [''armFk_l_ctr'']\<rparr> = demo_side_scene"
    by (simp add: demo_side_scene_def)
  ultimately show ?thesis
    using flip_pose_both_sides_cancel [of "''armFk''" "''ctr''"
        "demo_side_scene\<lparr>sel := [''armFk_l_ctr'', ''armFk_r_ctr'']\<rparr>"
        "replicate 16 1" "replicate 16 2"]
    by (simp add: demo_side_scene_def)
qed

text \<open>
  C5. On a centre control, the class variant of flip (\<open>Picker.flip_pose\<close>) runs the
  user-attribute exchange as well, against the name \<open>str.replace('_c_', '_r_')\<close> gives:
  the right-side control of the same base name receives the centre control's attribute
  value. The free-function variant leaves that control alone.
\<close>

theorem flip_pose_cls_center_writes_right:
  assumes ok: "rig_name_ok pre ''c'' post"
    and dots: "dotless (rig_name pre ''c'' post)" "dotless (rig_name pre ''r'' post)"
    and sel: "sel sc = [rig_name pre ''c'' post]"
    and ch: "channels_ok sc (rig_name pre ''c'' post)"
    and ua: "udattrs sc (rig_name pre ''c'' post) = [a]" "a \<notin> set [''tx'', ''ry'', ''rz'']"
    and po: "pair_ok sc (rig_name pre ''c'' post) (rig_name pre ''r'' post) a"
  shows "plugs (snd (flip_pose_cls sc)) (plug (rig_name pre ''r'' post) a) =
           plugs sc (plug (rig_name pre ''c'' post) a) \<and>
         plugs (snd (flip_pose_model sc)) (plug (rig_name pre ''r'' post) a) =
           plugs sc (plug (rig_name pre ''r'' post) a)"
proof -
  let ?c = "rig_name pre ''c'' post" and ?r = "rig_name pre ''r'' post"
  have sc: "side_of ?c = Inr ''_c_''" using ok by (simp add: rig_name_ok_def side_of_rig_name)
  have mc: "mirror_name ?c ''_c_'' = ?r" using mirror_rig_name [OF ok] by simp
  have ne: "?c \<noteq> ?r" by (simp add: rig_name_def)
  let ?s0 = "sc\<lparr>undo_depth := Suc (undo_depth sc)\<rparr>"
  let ?s1 = "?s0\<lparr>plugs := neg_center ?c (plugs sc)\<rparr>"
  have fc: "flip_center ?c ?s0 = (Inr (), ?s1)"
    using ch flip_center_eff [of ?s0 ?c] by (simp add: channels_ok_def node_exists_def)
  have po1: "pair_ok ?s1 ?c ?r a"
    using po ua(2) dots ne by (simp add: pair_ok_def neg_center_user_attr neg_center_other)
  have "swap_user_attrs ?c ?r ?s1 =
          (Inr (), ?s1\<lparr>plugs := fold (swap_pl ?c ?r) (udattrs ?s1 ?c) (plugs ?s1)\<rparr>)"
    by (rule swap_user_attrs_eff) (use ch dots ne ua po1 in \<open>simp_all add: channels_ok_def node_exists_def\<close>)
  then have "forE (sel ?s0) flip_one_cls ?s0 =
      (Inr (), ?s1\<lparr>plugs := swap_pl ?c ?r a (neg_center ?c (plugs sc))\<rparr>)"
    using sel sc mc fc ua by (simp add: flip_one_cls_def exc_simps)
  then have cls: "plugs (snd (flip_pose_cls sc)) = swap_pl ?c ?r a (neg_center ?c (plugs sc))"
    by (simp add: flip_pose_cls_def undo_chunk_apply exc_simps host_simps)
  have model: "flip_pose_model sc = (Inr (), sc\<lparr>plugs := fold neg_center [?c] (plugs sc)\<rparr>)"
    using flip_pose_model_centers [of sc] sel sc ch by simp
  have "plug ?c a \<noteq> plug ?r a" using plug_pair_ne [of ?c ?r] dots ne by simp
  then show ?thesis
    using cls model dots ne ua(2)
    by (simp add: swap_pl_def neg_center_user_attr neg_center_other)
qed

theorem flip_pose_cls_center_writes_right_witness:
  "plugs (snd (flip_pose_cls demo_brow_scene)) (plug ''brow_r_ctr'' ''raise'') = Some (Num 5) \<and>
   plugs (snd (flip_pose_model demo_brow_scene)) (plug ''brow_r_ctr'' ''raise'') = Some (Num 0)"
proof -
  have "rig_name ''brow'' ''c'' ''ctr'' = ''brow_c_ctr''" "rig_name ''brow'' ''r'' ''ctr'' = ''brow_r_ctr''"
    by (simp_all add: rig_name_def)
  moreover have "rig_name_ok ''brow'' ''c'' ''ctr''" by (simp add: rig_name_ok_def)
  moreover have "channels_ok demo_brow_scene ''brow_c_ctr''"
    by (simp add: demo_brow_scene_def channels_ok_def num_plug_def node_exists_def plug_def)
  ultimately show ?thesis
    using flip_pose_cls_center_writes_right [of "''brow''" "''ctr''" demo_brow_scene "''raise''"]
    by (simp add: demo_brow_scene_def dotless_def pair_ok_def plug_def)
qed

text \<open>
  C6. When the counterpart of a selected side control does not exist, flip and mirror
  raise ValueError for the counterpart's name and stop there, leaving the scene as it
  was: the counterpart's matrix is read (flip) or written (mirror) outside any
  try/except.
\<close>

theorem pose_missing_counterpart_raises:
  assumes "sel sc = c # rest" "side_of c = Inr side" "side \<noteq> ''_c_''"
    and "lmat sc c \<noteq> None" "lmat sc (mirror_name c side) = None"
  shows "flip_pose_model sc = (Inl (no_match (mirror_name c side)), sc) \<and>
         mirror_pose_model sc = (Inl (no_match (mirror_name c side)), sc)"
  using assms
  by (auto simp: flip_pose_model_def mirror_pose_model_def flip_one_model_def mirror_one_def
      swap_matrices_def xform_q_matrix_def xform_matrix_def exc_simps host_simps)

theorem pose_missing_counterpart_raises_witness:
  "flip_pose_model (demo_side_scene\<lparr>lmat := [''armFk_l_ctr'' \<mapsto> replicate 16 1]\<rparr>) =
     (Inl (no_match ''armFk_r_ctr''), demo_side_scene\<lparr>lmat := [''armFk_l_ctr'' \<mapsto> replicate 16 1]\<rparr>) \<and>
   mirror_pose_model (demo_side_scene\<lparr>lmat := [''armFk_l_ctr'' \<mapsto> replicate 16 1]\<rparr>) =
     (Inl (no_match ''armFk_r_ctr''), demo_side_scene\<lparr>lmat := [''armFk_l_ctr'' \<mapsto> replicate 16 1]\<rparr>)"
proof -
  have "mirror_name ''armFk_l_ctr'' ''_l_'' = ''armFk_r_ctr''"
    by (simp add: mirror_name_def py_replace_def opposite_side_def)
  moreover have "side_of ''armFk_l_ctr'' = Inr ''_l_''" by (simp add: side_of_def py_index_def)
  ultimately show ?thesis
    using pose_missing_counterpart_raises [of "demo_side_scene\<lparr>lmat := [''armFk_l_ctr'' \<mapsto> replicate 16 1]\<rparr>"
        "''armFk_l_ctr''" "[]" "''_l_''"]
    by (simp add: demo_side_scene_def)
qed

end
