(* ===== verification/Snap.thy ===== *)
theory Snap
  imports Scene
begin

text \<open>
  The FK/IK snap of one limb (\<open>picker_model.snap_fk_ik\<close>, \<open>Picker.snap_fk_ik\<close>). The
  \<open>snap_info\<close> dictionary of the source is a list of three \<open>segment\<close> records
  (start, mid, end, in the dictionary's insertion order), each naming an FK control, an
  optional IK control, and the reference node whose world matrix gives the pose of each
  mode. The handler reads the settings control's \<open>fkIk\<close> plug, chooses the controls
  of the mode it switches to (\<open>seg_control\<close>) and their reference nodes
  (\<open>seg_snap\<close>), captures the references' world matrices (\<open>capture_xform\<close>, the
  first loop), sets \<open>fkIk\<close> to the other mode, and writes each captured matrix to its
  control (\<open>apply_xform\<close>, the second loop). \<open>snap_toggle\<close> is that common part.
  The free-function variant prefixes names with \<open>ns_prefix\<close> only when the line edit
  holds a namespace; the class variant formats the namespace into every name, and reads
  \<open>fkIk\<close> from the namespace followed by the already prefixed settings name.
  Reference nodes are blended by the rig (\<open>world\<close> in theory Scene), so their world
  matrices change when \<open>fkIk\<close> is set: the lemmas show the captures see the scene
  before the switch, that a missing control stops the snap half-way with the limb already
  switched, and where the class variant reads the wrong plug.
\<close>

record segment =
  fk_control :: string
  ik_control :: "string option"
  fk_snap :: string
  ik_snap :: "string option"

definition snap_info :: "string \<Rightarrow> string \<Rightarrow> segment list" where
  "snap_info limb side =
     (let end_name = (if limb = ''arm'' then ''hand'' else ''foot'');
          Limb = py_capitalize limb
      in [\<lparr>fk_control = ''up'' @ Limb @ ''Fk_'' @ side @ ''_ctr'', ik_control = None,
           fk_snap = ''up'' @ Limb @ ''_'' @ side @ ''_jnt'', ik_snap = None\<rparr>,
          \<lparr>fk_control = ''low'' @ Limb @ ''Fk_'' @ side @ ''_ctr'',
           ik_control = Some (limb @ ''PoleVector_'' @ side @ ''_ctr''),
           fk_snap = ''low'' @ Limb @ ''_'' @ side @ ''_jnt'',
           ik_snap = Some (limb @ ''PoleVector_'' @ side @ ''_snap'')\<rparr>,
          \<lparr>fk_control = end_name @ Limb @ ''Fk_'' @ side @ ''_ctr'',
           ik_control = Some (end_name @ Limb @ ''Ik_'' @ side @ ''_ctr''),
           fk_snap = end_name @ Limb @ ''_'' @ side @ ''_skn'',
           ik_snap = Some (end_name @ Limb @ ''_'' @ side @ ''_skn'')\<rparr>])"

definition ns_segment :: "string option \<Rightarrow> segment \<Rightarrow> segment" where
  "ns_segment namespace_le sg =
     \<lparr>fk_control = ns_prefix namespace_le (fk_control sg),
      ik_control = map_option (ns_prefix namespace_le) (ik_control sg),
      fk_snap = ns_prefix namespace_le (fk_snap sg),
      ik_snap = map_option (ns_prefix namespace_le) (ik_snap sg)\<rparr>"

definition snap_settings :: "string option \<Rightarrow> string \<Rightarrow> string \<Rightarrow> string" where
  "snap_settings namespace_le limb side = ns_prefix namespace_le (limb @ ''Settings_'' @ side @ ''_ctr'')"

definition snap_segments :: "string option \<Rightarrow> string \<Rightarrow> string \<Rightarrow> segment list" where
  "snap_segments namespace_le limb side = map (ns_segment namespace_le) (snap_info limb side)"

text \<open>\<open>control_value\<close> and \<open>snap_value\<close>: the mode the handler switches to is IK when \<open>state == 0\<close>.\<close>

definition seg_control :: "bool \<Rightarrow> segment \<Rightarrow> string option" where
  "seg_control to_ik sg = (if to_ik then ik_control sg else Some (fk_control sg))"

definition seg_snap :: "bool \<Rightarrow> segment \<Rightarrow> string option" where
  "seg_snap to_ik sg = (if to_ik then ik_snap sg else Some (fk_snap sg))"

text \<open>\<open>if snap_info[key][control_value]:\<close>, a test of the name's truth value.\<close>

definition seg_target :: "bool \<Rightarrow> segment \<Rightarrow> string option" where
  "seg_target to_ik sg =
     (case seg_control to_ik sg of None \<Rightarrow> None | Some c \<Rightarrow> if c = [] then None else Some c)"

definition capture_xform :: "bool \<Rightarrow> segment \<Rightarrow> real list option cmd" where
  "capture_xform to_ik sg =
     (case seg_target to_ik sg of
        None \<Rightarrow> returnE None
      | Some _ \<Rightarrow>
          (case seg_snap to_ik sg of
             None \<Rightarrow> raiseE (TypeError ''xform of None'')
           | Some r \<Rightarrow> bindE (xform_q_world r) (\<lambda>m. returnE (Some m))))"

definition apply_xform :: "bool \<Rightarrow> segment \<times> real list option \<Rightarrow> unit cmd" where
  "apply_xform to_ik p =
     (case p of (sg, snap_xform) \<Rightarrow>
        (case seg_target to_ik sg of
           None \<Rightarrow> returnE ()
         | Some c \<Rightarrow>
             (case snap_xform of
                None \<Rightarrow> raiseE (TypeError ''matrix of None'')
              | Some m \<Rightarrow> xform_world c m)))"

definition snap_toggle :: "string \<Rightarrow> val \<Rightarrow> segment list \<Rightarrow> unit cmd" where
  "snap_toggle settings_control state segs =
     (let to_ik = (state = Num 0)
      in bindE (mapE (capture_xform to_ik) segs) (\<lambda>snap_xforms.
         thenE (setAttr (plug settings_control ''fkIk'') (Num (if state = Num 0 then 1 else 0)))
               (forE (zip segs snap_xforms) (apply_xform to_ik))))"

definition snap_fk_ik_model :: "string \<Rightarrow> string \<Rightarrow> string option \<Rightarrow> unit cmd" where
  "snap_fk_ik_model limb side namespace_le =
     (let settings_control = snap_settings namespace_le limb side;
          segs = snap_segments namespace_le limb side
      in bindE (getAttr (plug settings_control ''fkIk''))
           (\<lambda>state. snap_toggle settings_control state segs))"

definition snap_info_cls :: "string \<Rightarrow> string \<Rightarrow> string \<Rightarrow> segment list" where
  "snap_info_cls namespace limb side =
     (let end_name = (if limb = ''arm'' then ''hand'' else ''foot'');
          Limb = py_capitalize limb
      in [\<lparr>fk_control = namespace @ ''up'' @ Limb @ ''Fk_'' @ side @ ''_ctr'', ik_control = None,
           fk_snap = namespace @ ''up'' @ Limb @ ''_'' @ side @ ''_jnt'', ik_snap = None\<rparr>,
          \<lparr>fk_control = namespace @ ''low'' @ Limb @ ''Fk_'' @ side @ ''_ctr'',
           ik_control = Some (namespace @ limb @ ''PoleVector_'' @ side @ ''_ctr''),
           fk_snap = namespace @ ''low'' @ Limb @ ''_'' @ side @ ''_jnt'',
           ik_snap = Some (namespace @ limb @ ''PoleVector_'' @ side @ ''_snap'')\<rparr>,
          \<lparr>fk_control = namespace @ end_name @ Limb @ ''Fk_'' @ side @ ''_ctr'',
           ik_control = Some (namespace @ end_name @ Limb @ ''Ik_'' @ side @ ''_ctr''),
           fk_snap = namespace @ end_name @ Limb @ ''_'' @ side @ ''_skn'',
           ik_snap = Some (namespace @ end_name @ Limb @ ''_'' @ side @ ''_skn'')\<rparr>])"

definition snap_fk_ik_cls :: "string \<Rightarrow> string \<Rightarrow> string \<Rightarrow> unit cmd" where
  "snap_fk_ik_cls limb side namespace =
     undo_chunk
       (let segs = snap_info_cls namespace limb side;
            settings_control = namespace @ limb @ ''Settings_'' @ side @ ''_ctr''
        in bindE (getAttr (plug (namespace @ settings_control) ''fkIk''))
             (\<lambda>state. snap_toggle settings_control state segs))"

subsection \<open>Reading the snap\<close>

text \<open>The controls the snap writes, in loop order.\<close>

definition snap_targets :: "bool \<Rightarrow> segment list \<Rightarrow> string list" where
  "snap_targets to_ik segs = List.map_filter (seg_target to_ik) segs"

text \<open>The value the capture loop stores for a segment, \<open>None\<close> where the query raises.\<close>

definition captured :: "scene \<Rightarrow> bool \<Rightarrow> segment \<Rightarrow> real list option option" where
  "captured sc to_ik sg =
     (case seg_target to_ik sg of
        None \<Rightarrow> Some None
      | Some _ \<Rightarrow> (case seg_snap to_ik sg of None \<Rightarrow> None | Some r \<Rightarrow> map_option Some (world sc r)))"

text \<open>The world matrices after the write loop, from the matrices before it.\<close>

definition snap_writes ::
  "bool \<Rightarrow> (segment \<times> real list option) list \<Rightarrow> (string \<rightharpoonup> real list) \<Rightarrow> (string \<rightharpoonup> real list)" where
  "snap_writes to_ik ps w =
     fold (\<lambda>(sg, x) w. case seg_target to_ik sg of None \<Rightarrow> w | Some c \<Rightarrow> w(c := x)) ps w"

text \<open>A write of the second loop that succeeds: its control has a world matrix, its value has 16 entries.\<close>

definition write_ok :: "(string \<rightharpoonup> real list) \<Rightarrow> bool \<Rightarrow> segment \<times> real list option \<Rightarrow> bool" where
  "write_ok w to_ik p =
     (case p of (sg, x) \<Rightarrow>
        (case seg_target to_ik sg of
           None \<Rightarrow> True
         | Some c \<Rightarrow> w c \<noteq> None \<and> (case x of None \<Rightarrow> False | Some m \<Rightarrow> length m = 16)))"

text \<open>
  A scene the snap runs through: every control it writes exists, and the reference node of
  each has a world matrix of 16 values; no control is written twice.
\<close>

definition snap_ready :: "scene \<Rightarrow> bool \<Rightarrow> segment list \<Rightarrow> bool" where
  "snap_ready sc to_ik segs \<longleftrightarrow>
     distinct (snap_targets to_ik segs) \<and>
     list_all (\<lambda>sg. case seg_target to_ik sg of
                      None \<Rightarrow> True
                    | Some c \<Rightarrow> wmat sc c \<noteq> None \<and>
                        (case seg_snap to_ik sg of
                           None \<Rightarrow> False
                         | Some r \<Rightarrow> (case world sc r of None \<Rightarrow> False | Some m \<Rightarrow> length m = 16)))
       segs"

text \<open>A rig with one arm in FK mode and its end joint blended by \<open>fkIk\<close>, under namespace \<open>ns\<close>.\<close>

definition demo_snap_scene :: "string \<Rightarrow> scene" where
  "demo_snap_scene ns =
     \<lparr>sel = [],
      plugs = [plug (ns @ ''armSettings_l_ctr'') ''fkIk'' \<mapsto> Num 0],
      locked = {}, udattrs = (\<lambda>n. []), defaults = Map.empty, lmat = Map.empty,
      wmat = [ns @ ''upArmFk_l_ctr'' \<mapsto> replicate 16 1, ns @ ''lowArmFk_l_ctr'' \<mapsto> replicate 16 2,
              ns @ ''handArmFk_l_ctr'' \<mapsto> replicate 16 3, ns @ ''handArmIk_l_ctr'' \<mapsto> replicate 16 4,
              ns @ ''armPoleVector_l_ctr'' \<mapsto> replicate 16 5, ns @ ''armPoleVector_l_snap'' \<mapsto> replicate 16 6],
      blend = [ns @ ''handArm_l_skn'' \<mapsto>
                 (plug (ns @ ''armSettings_l_ctr'') ''fkIk'', ns @ ''handArmFk_l_ctr'', ns @ ''handArmIk_l_ctr'')],
      relatives = Map.empty, keyed = [], mods = 0, undo_depth = 0\<rparr>"

subsection \<open>The two loops\<close>

lemma capture_xform_eff:
  "captured sc to_ik sg = Some x \<Longrightarrow> capture_xform to_ik sg sc = (Inr x, sc)"
  by (auto simp: captured_def capture_xform_def xform_q_world_def exc_simps
           split: option.splits)

lemma mapE_capture:
  "list_all (\<lambda>sg. captured sc to_ik sg \<noteq> None) segs \<Longrightarrow>
   mapE (capture_xform to_ik) segs sc = (Inr (map (\<lambda>sg. the (captured sc to_ik sg)) segs), sc)"
proof (induction segs)
  case Nil
  then show ?case by (simp add: exc_simps)
next
  case (Cons sg segs)
  then obtain x where "captured sc to_ik sg = Some x" by auto
  with Cons show ?case by (simp add: capture_xform_eff exc_simps)
qed

lemma write_ok_grow:
  "write_ok w to_ik p \<Longrightarrow> write_ok (w(c \<mapsto> m)) to_ik p"
  by (auto simp: write_ok_def split: prod.splits option.splits)

lemma forE_apply:
  "list_all (write_ok (wmat sc) to_ik) ps \<Longrightarrow>
   forE ps (apply_xform to_ik) sc = (Inr (), sc\<lparr>wmat := snap_writes to_ik ps (wmat sc)\<rparr>)"
proof (induction ps arbitrary: sc)
  case Nil
  then show ?case by (simp add: snap_writes_def exc_simps)
next
  case (Cons p ps)
  obtain sg x where p: "p = (sg, x)" by (cases p)
  show ?case
  proof (cases "seg_target to_ik sg")
    case None
    with Cons p show ?thesis by (simp add: apply_xform_def snap_writes_def exc_simps)
  next
    case (Some c)
    with Cons.prems p obtain m where x: "x = Some m" and c: "wmat sc c \<noteq> None" "length m = 16"
      by (auto simp: write_ok_def split: option.splits)
    let ?sc = "sc\<lparr>wmat := (wmat sc)(c \<mapsto> m)\<rparr>"
    have step: "apply_xform to_ik p sc = (Inr (), ?sc)"
      using Some p x c by (simp add: apply_xform_def xform_world_def)
    have "list_all (write_ok (wmat ?sc) to_ik) ps"
      using Cons.prems by (auto elim: list.pred_mono_strong intro: write_ok_grow)
    then have "forE ps (apply_xform to_ik) ?sc = (Inr (), ?sc\<lparr>wmat := snap_writes to_ik ps (wmat ?sc)\<rparr>)"
      by (rule Cons.IH)
    moreover have "snap_writes to_ik (p # ps) (wmat sc) = snap_writes to_ik ps (wmat ?sc)"
      using Some p x by (simp add: snap_writes_def)
    ultimately show ?thesis
      using forE_Cons_Inr [of "apply_xform to_ik" p sc, OF step] by simp
  qed
qed

lemma snap_targets_Cons [simp]:
  "snap_targets to_ik (sg # segs) =
     (case seg_target to_ik sg of None \<Rightarrow> snap_targets to_ik segs | Some c \<Rightarrow> c # snap_targets to_ik segs)"
  by (simp add: snap_targets_def List.map_filter_simps split: option.split)

lemma snap_ready_captured:
  "snap_ready sc to_ik segs \<Longrightarrow> list_all (\<lambda>sg. captured sc to_ik sg \<noteq> None) segs"
  unfolding snap_ready_def
  by (auto elim!: list.pred_mono_strong simp: captured_def split: option.splits)

lemma snap_ready_writes:
  "snap_ready sc to_ik segs \<Longrightarrow>
   list_all (write_ok (wmat sc) to_ik) (map (\<lambda>sg. (sg, the (captured sc to_ik sg))) segs)"
  unfolding snap_ready_def list.pred_map
  by (auto elim!: list.pred_mono_strong simp: captured_def write_ok_def split: option.splits)

lemma zip_map_self: "zip xs (map f xs) = map (\<lambda>x. (x, f x)) xs"
  by (induction xs) simp_all

lemma snap_toggle_eff:
  assumes "plugs sc (plug S ''fkIk'') \<noteq> None" "plug S ''fkIk'' \<notin> locked sc"
    and "snap_ready sc (st = Num 0) segs"
  shows "snap_toggle S st segs sc =
    (Inr (), sc\<lparr>plugs := (plugs sc)(plug S ''fkIk'' \<mapsto> Num (if st = Num 0 then 1 else 0)),
                wmat := snap_writes (st = Num 0)
                          (map (\<lambda>sg. (sg, the (captured sc (st = Num 0) sg))) segs) (wmat sc)\<rparr>)"
proof -
  let ?b = "st = Num 0"
  let ?ps = "map (\<lambda>sg. (sg, the (captured sc ?b sg))) segs"
  let ?sc = "sc\<lparr>plugs := (plugs sc)(plug S ''fkIk'' \<mapsto> Num (if ?b then 1 else 0))\<rparr>"
  have cap: "mapE (capture_xform ?b) segs sc = (Inr (map (\<lambda>sg. the (captured sc ?b sg)) segs), sc)"
    using mapE_capture [OF snap_ready_captured [OF assms(3)]] .
  have set: "setAttr (plug S ''fkIk'') (Num (if ?b then 1 else 0)) sc = (Inr (), ?sc)"
    using assms(1,2) by (simp add: setAttr_def)
  have wr: "forE ?ps (apply_xform ?b) ?sc = (Inr (), ?sc\<lparr>wmat := snap_writes ?b ?ps (wmat sc)\<rparr>)"
    using forE_apply [of ?sc ?b ?ps] snap_ready_writes [OF assms(3)] by simp
  show ?thesis
    using cap set wr by (simp add: snap_toggle_def zip_map_self exc_simps Let_def split del: if_split)
qed

lemma snap_writes_other:
  "c \<notin> set (snap_targets to_ik (map fst ps)) \<Longrightarrow> snap_writes to_ik ps w c = w c"
  by (induction ps arbitrary: w)
     (auto simp: snap_writes_def split: option.splits)

lemma snap_writes_at:
  "distinct (snap_targets to_ik segs) \<Longrightarrow> sg \<in> set segs \<Longrightarrow> seg_target to_ik sg = Some c \<Longrightarrow>
   snap_writes to_ik (map (\<lambda>sg. (sg, f sg)) segs) w c = f sg"
proof (induction segs arbitrary: w)
  case Nil
  then show ?case by simp
next
  case (Cons s segs)
  show ?case
  proof (cases "s = sg")
    case True
    with Cons.prems have "c \<notin> set (snap_targets to_ik segs)"
      by simp
    with True Cons.prems show ?thesis
      using snap_writes_other [of c to_ik "map (\<lambda>sg. (sg, f sg)) segs"]
      by (simp add: snap_writes_def comp_def)
  next
    case False
    with Cons.prems have "distinct (snap_targets to_ik segs)" "sg \<in> set segs"
      by (auto split: option.splits)
    with Cons.IH Cons.prems show ?thesis
      by (auto simp: snap_writes_def split: option.splits)
  qed
qed

lemma ascii_case_limbs [simp]:
  "ascii_upper CHR ''a'' = CHR ''A''" "ascii_lower CHR ''r'' = CHR ''r''" "ascii_lower CHR ''m'' = CHR ''m''"
  "ascii_upper CHR ''l'' = CHR ''L''" "ascii_lower CHR ''e'' = CHR ''e''" "ascii_lower CHR ''g'' = CHR ''g''"
  by code_simp+

lemma snap_fk_ik_model_eff:
  assumes "plugs sc (plug (snap_settings nl limb side) ''fkIk'') = Some st"
    and "plug (snap_settings nl limb side) ''fkIk'' \<notin> locked sc"
    and "snap_ready sc (st = Num 0) (snap_segments nl limb side)"
  shows "snap_fk_ik_model limb side nl sc =
    (Inr (), sc\<lparr>plugs := (plugs sc)(plug (snap_settings nl limb side) ''fkIk'' \<mapsto> Num (if st = Num 0 then 1 else 0)),
                wmat := snap_writes (st = Num 0)
                          (map (\<lambda>sg. (sg, the (captured sc (st = Num 0) sg))) (snap_segments nl limb side))
                          (wmat sc)\<rparr>)"
  using assms snap_toggle_eff [of sc "snap_settings nl limb side" st "snap_segments nl limb side"]
  by (simp add: snap_fk_ik_model_def getAttr_Some exc_simps Let_def split del: if_split)

lemma snap_ready_reference:
  assumes "snap_ready sc to_ik segs" "sg \<in> set segs" "seg_target to_ik sg = Some c"
  shows "captured sc to_ik sg = Some (world sc (the (seg_snap to_ik sg)))"
proof -
  from assms obtain r where "seg_snap to_ik sg = Some r" and "world sc r \<noteq> None"
    by (fastforce simp: snap_ready_def list_all_iff split: option.splits)
  with assms(3) show ?thesis by (auto simp: captured_def)
qed

lemma snap_ready_written:
  assumes "snap_ready sc to_ik segs" "sg \<in> set segs" "seg_target to_ik sg = Some c"
  shows "snap_writes to_ik (map (\<lambda>sg. (sg, the (captured sc to_ik sg))) segs) w c =
         world sc (the (seg_snap to_ik sg))"
  using snap_writes_at [of to_ik segs sg c "\<lambda>sg. the (captured sc to_ik sg)" w]
    snap_ready_reference [OF assms] assms by (simp add: snap_ready_def)

text \<open>
  C7. The snap switches the limb and matches the controls to the pose of the mode it leaves:
  on a scene where the settings plug is readable and unlocked and every control written has
  a reference with a 16-value world matrix, \<open>snap_fk_ik\<close> returns normally, sets
  \<open>fkIk\<close> to 1 when it was 0 and to 0 otherwise, gives every control it writes the world
  matrix its reference had before the switch, and changes no other world matrix, plug or
  part of the scene.
\<close>

theorem snap_fk_ik_model_switches:
  assumes "plugs sc (plug (snap_settings nl limb side) ''fkIk'') = Some st"
    and "plug (snap_settings nl limb side) ''fkIk'' \<notin> locked sc"
    and "snap_ready sc (st = Num 0) (snap_segments nl limb side)"
  shows "fst (snap_fk_ik_model limb side nl sc) = Inr () \<and>
    plugs (snd (snap_fk_ik_model limb side nl sc)) =
      (plugs sc)(plug (snap_settings nl limb side) ''fkIk'' \<mapsto> Num (if st = Num 0 then 1 else 0)) \<and>
    list_all (\<lambda>sg. case seg_target (st = Num 0) sg of
                     None \<Rightarrow> True
                   | Some c \<Rightarrow> wmat (snd (snap_fk_ik_model limb side nl sc)) c =
                               world sc (the (seg_snap (st = Num 0) sg)))
      (snap_segments nl limb side) \<and>
    (\<forall>n. n \<notin> set (snap_targets (st = Num 0) (snap_segments nl limb side)) \<longrightarrow>
         wmat (snd (snap_fk_ik_model limb side nl sc)) n = wmat sc n) \<and>
    (snd (snap_fk_ik_model limb side nl sc))\<lparr>plugs := plugs sc, wmat := wmat sc\<rparr> = sc"
  using snap_fk_ik_model_eff [OF assms] snap_ready_written [OF assms(3)]
    snap_writes_other [where ps = "map (\<lambda>sg. (sg, the (captured sc (st = Num 0) sg))) (snap_segments nl limb side)"]
  by (auto simp: list_all_iff comp_def split: option.split)

theorem snap_fk_ik_model_switches_witness:
  "fst (snap_fk_ik_model ''arm'' ''l'' None (demo_snap_scene [])) = Inr () \<and>
   plugs (snd (snap_fk_ik_model ''arm'' ''l'' None (demo_snap_scene []))) =
      (plugs (demo_snap_scene []))(plug (snap_settings None ''arm'' ''l'') ''fkIk'' \<mapsto> Num 1) \<and>
   list_all (\<lambda>sg. case seg_target True sg of
                     None \<Rightarrow> True
                   | Some c \<Rightarrow> wmat (snd (snap_fk_ik_model ''arm'' ''l'' None (demo_snap_scene []))) c =
                               world (demo_snap_scene []) (the (seg_snap True sg)))
      (snap_segments None ''arm'' ''l'')"
  using snap_fk_ik_model_switches [of "demo_snap_scene []" None "''arm''" "''l''" "Num 0"]
  by (simp add: demo_snap_scene_def snap_settings_def ns_prefix_def plug_def snap_ready_def
      snap_segments_def snap_info_def snap_targets_def ns_segment_def seg_target_def seg_control_def
      seg_snap_def world_def)

lemma snap_segments_snoc:
  "snap_segments nl limb side = butlast (snap_segments nl limb side) @ [last (snap_segments nl limb side)]"
  by (simp add: snap_segments_def snap_info_def Let_def)

lemma apply_xform_missing:
  "seg_target to_ik sg = Some c \<Longrightarrow> wmat sc c = None \<Longrightarrow>
   apply_xform to_ik (sg, Some m) sc = (Inl (no_match c), sc)"
  by (simp add: apply_xform_def xform_world_def)

text \<open>
  C8. The snap is not transactional: when the control it writes for the end segment does
  not exist (say the IK hand control was deleted), the snap raises ValueError for that
  control only after it has switched \<open>fkIk\<close> and written the controls of the earlier
  segments, so the limb is left in the other mode with the end control unmatched; the
  free function opens no undo chunk.
\<close>

theorem snap_fk_ik_model_missing_control:
  assumes "plugs sc (plug (snap_settings nl limb side) ''fkIk'') = Some st"
    and "plug (snap_settings nl limb side) ''fkIk'' \<notin> locked sc"
    and "snap_ready sc (st = Num 0) (butlast (snap_segments nl limb side))"
    and "captured sc (st = Num 0) (last (snap_segments nl limb side)) \<noteq> None"
    and "seg_target (st = Num 0) (last (snap_segments nl limb side)) = Some c"
    and "wmat sc c = None" "c \<notin> set (snap_targets (st = Num 0) (butlast (snap_segments nl limb side)))"
  shows "snap_fk_ik_model limb side nl sc =
    (Inl (no_match c),
     sc\<lparr>plugs := (plugs sc)(plug (snap_settings nl limb side) ''fkIk'' \<mapsto> Num (if st = Num 0 then 1 else 0)),
        wmat := snap_writes (st = Num 0)
                  (map (\<lambda>sg. (sg, the (captured sc (st = Num 0) sg))) (butlast (snap_segments nl limb side)))
                  (wmat sc)\<rparr>)"
proof -
  let ?segs = "snap_segments nl limb side" and ?b = "st = Num 0"
  let ?S = "snap_settings nl limb side"
  let ?f = "\<lambda>sg. the (captured sc ?b sg)"
  let ?psb = "map (\<lambda>sg. (sg, ?f sg)) (butlast ?segs)"
  let ?sc1 = "sc\<lparr>plugs := (plugs sc)(plug ?S ''fkIk'' \<mapsto> Num (if ?b then 1 else 0))\<rparr>"
  let ?sc2 = "?sc1\<lparr>wmat := snap_writes ?b ?psb (wmat sc)\<rparr>"
  have segs: "?segs = butlast ?segs @ [last ?segs]" by (rule snap_segments_snoc)
  have "list_all (\<lambda>sg. captured sc ?b sg \<noteq> None) (butlast ?segs @ [last ?segs])"
    using snap_ready_captured [OF assms(3)] assms(4) by simp
  then have cap: "mapE (capture_xform ?b) ?segs sc = (Inr (map ?f ?segs), sc)"
    using segs mapE_capture [of sc ?b ?segs] by simp
  have set: "setAttr (plug ?S ''fkIk'') (Num (if ?b then 1 else 0)) sc = (Inr (), ?sc1)"
    using assms(1,2) by (simp add: setAttr_def)
  have wr: "forE ?psb (apply_xform ?b) ?sc1 = (Inr (), ?sc2)"
    using forE_apply [of ?sc1 ?b ?psb] snap_ready_writes [OF assms(3)] by simp
  obtain m where m: "?f (last ?segs) = Some m"
    using assms(4,5) by (auto simp: captured_def split: option.splits)
  have "wmat ?sc2 c = None"
    using snap_writes_other [of c ?b ?psb "wmat sc"] assms(6,7) by (simp add: comp_def)
  then have last: "apply_xform ?b (last ?segs, ?f (last ?segs)) ?sc2 = (Inl (no_match c), ?sc2)"
    using m apply_xform_missing [OF assms(5)] by simp
  have "map (\<lambda>sg. (sg, ?f sg)) ?segs = ?psb @ [(last ?segs, ?f (last ?segs))]"
    by (subst segs) simp
  then have "forE (zip ?segs (map ?f ?segs)) (apply_xform ?b) ?sc1 = (Inl (no_match c), ?sc2)"
    using wr last by (simp add: zip_map_self forE_append exc_simps)
  then show ?thesis
    using cap set assms(1)
    by (simp add: snap_fk_ik_model_def snap_toggle_def getAttr_Some exc_simps Let_def split del: if_split)
qed

theorem snap_fk_ik_model_missing_control_witness:
  "snap_fk_ik_model ''arm'' ''l'' None
     ((demo_snap_scene [])\<lparr>wmat := (wmat (demo_snap_scene []))(''handArmIk_l_ctr'' := None)\<rparr>) =
   (Inl (no_match ''handArmIk_l_ctr''),
    (demo_snap_scene [])\<lparr>plugs := (plugs (demo_snap_scene []))(plug ''armSettings_l_ctr'' ''fkIk'' \<mapsto> Num 1),
       wmat := (wmat (demo_snap_scene []))(''handArmIk_l_ctr'' := None,
                  ''armPoleVector_l_ctr'' \<mapsto> replicate 16 6)\<rparr>)"
  using snap_fk_ik_model_missing_control
    [of "(demo_snap_scene [])\<lparr>wmat := (wmat (demo_snap_scene []))(''handArmIk_l_ctr'' := None)\<rparr>"
        None "''arm''" "''l''" "Num 0" "''handArmIk_l_ctr''"]
  by (simp add: demo_snap_scene_def snap_settings_def ns_prefix_def plug_def snap_ready_def
      snap_segments_def snap_info_def snap_targets_def ns_segment_def seg_target_def seg_control_def
      seg_snap_def world_def captured_def snap_writes_def fun_upd_twist)

subsection \<open>The class variant\<close>

lemma snap_info_cls_segments: "snap_info_cls ns limb side = snap_segments (Some ns) limb side"
  by (simp add: snap_info_cls_def snap_segments_def snap_info_def ns_segment_def ns_prefix_def Let_def)

lemma undo_free_capture_xform [undo_free_intros]: "undo_free (capture_xform b sg)"
  unfolding capture_xform_def by (intro undo_free_intros)

lemma undo_free_apply_xform [undo_free_intros]: "undo_free (apply_xform b p)"
  unfolding apply_xform_def by (intro undo_free_intros)

lemma undo_free_snap_toggle [undo_free_intros]: "undo_free (snap_toggle S st segs)"
  unfolding snap_toggle_def by (intro undo_free_intros)

lemma snap_fk_ik_cls_run:
  "snap_fk_ik_cls limb side ns sc =
     bindE (getAttr (plug (ns @ ns @ limb @ ''Settings_'' @ side @ ''_ctr'') ''fkIk''))
       (\<lambda>state. snap_toggle (ns @ limb @ ''Settings_'' @ side @ ''_ctr'') state
                  (snap_segments (Some ns) limb side)) sc"
  unfolding snap_fk_ik_cls_def Let_def snap_info_cls_segments
  by (intro undo_chunk_transparent undo_free_intros)

text \<open>
  Without a namespace the class variant of the snap, undo chunk included, is the
  free-function variant called without a line edit.
\<close>

theorem snap_fk_ik_cls_no_namespace: "snap_fk_ik_cls limb side [] = snap_fk_ik_model limb side None"
proof
  fix sc
  have "ns_prefix (Some []) = ns_prefix None"
    by (simp add: fun_eq_iff ns_prefix_def)
  then have "snap_segments (Some []) limb side = snap_segments None limb side"
    by (simp add: snap_segments_def ns_segment_def)
  then show "snap_fk_ik_cls limb side [] sc = snap_fk_ik_model limb side None sc"
    by (simp add: snap_fk_ik_cls_run snap_fk_ik_model_def snap_settings_def ns_prefix_def Let_def)
qed

text \<open>
  C9. With a namespace the class variant reads \<open>fkIk\<close> from the namespace written
  twice before the settings control: on a rig where that node does not exist it raises
  the host's ValueError and leaves the scene as it was, while the free-function variant
  with the same namespace snaps.
\<close>

theorem snap_fk_ik_cls_double_namespace:
  assumes "plugs sc (plug (ns @ ns @ limb @ ''Settings_'' @ side @ ''_ctr'') ''fkIk'') = None"
    and "plugs sc (plug (snap_settings (Some ns) limb side) ''fkIk'') = Some st"
    and "plug (snap_settings (Some ns) limb side) ''fkIk'' \<notin> locked sc"
    and "snap_ready sc (st = Num 0) (snap_segments (Some ns) limb side)"
  shows "snap_fk_ik_cls limb side ns sc =
           (Inl (no_match (plug (ns @ ns @ limb @ ''Settings_'' @ side @ ''_ctr'') ''fkIk'')), sc) \<and>
         fst (snap_fk_ik_model limb side (Some ns) sc) = Inr ()"
  using snap_fk_ik_model_eff [OF assms(2-4)] assms(1)
  by (simp add: snap_fk_ik_cls_run getAttr_None exc_simps)

theorem snap_fk_ik_cls_double_namespace_witness:
  "snap_fk_ik_cls ''arm'' ''l'' ''rig:'' (demo_snap_scene ''rig:'') =
     (Inl (no_match ''rig:rig:armSettings_l_ctr.fkIk''), demo_snap_scene ''rig:'') \<and>
   fst (snap_fk_ik_model ''arm'' ''l'' (Some ''rig:'') (demo_snap_scene ''rig:'')) = Inr ()"
  using snap_fk_ik_cls_double_namespace [of "demo_snap_scene ''rig:''" "''rig:''" "''arm''" "''l''" "Num 0"]
  by (simp add: demo_snap_scene_def snap_settings_def ns_prefix_def plug_def snap_ready_def
      snap_segments_def snap_info_def snap_targets_def ns_segment_def seg_target_def seg_control_def
      seg_snap_def world_def)

end
