(* ===== verification/Select.thy ===== *)
theory Select
  imports Scene
begin

text \<open>
  The selection, keying and visibility handlers of both variants
  (\<open>picker_model.select_control\<close> \<dots> \<open>vis_geometries\<close>, \<open>Picker.select_control\<close> \<dots>
  \<open>Picker.vis_geometries\<close>).
  \<^item> \<open>select_by_modifier\<close> is the \<open>if get_modifier() == 'shift' \<dots> elif get_modifier() ==
    'control' \<dots> else\<close> dispatch: it reads the modifier mask once for the first test and
    again for the second, as the source calls \<open>get_modifier\<close> twice.
  \<^item> \<open>ctr_descendants\<close> is \<open>[x for x in cmds.listRelatives(g, allDescendents=True) if
    x.endswith('_ctr')]\<close>; \<open>listRelatives\<close> returns \<open>None\<close> for a group without
    descendants and iterating it raises TypeError.
  \<^item> \<open>group_handler_model\<close> and \<open>group_handler_cls\<close> are the common shape of the three
    select and three key handlers of each variant; the free-function variant does nothing
    when it is given no line edit.
  \<^item> \<open>vis_toggle\<close> reads a visibility plug of \<open>general_c_ctr\<close> and writes 0 when the
    value is true in Python's sense, 1 otherwise.
  The lemmas give the selection each modifier state produces, the keys set by the group
  handlers, the errors of a missing node or an empty group, the effect of toggling twice,
  and that each class handler is its free-function counterpart given the same namespace.
\<close>

definition select_by_modifier :: "string list \<Rightarrow> unit cmd" where
  "select_by_modifier ns =
     bindE getModifiers (\<lambda>m1.
       if get_modifier m1 = Some Shift then select_add ns
       else bindE getModifiers (\<lambda>m2.
         if get_modifier m2 = Some Control then select_deselect ns
         else select_replace ns))"

definition select_control_model :: "string \<Rightarrow> string option \<Rightarrow> unit cmd" where
  "select_control_model control_name namespace_le =
     select_by_modifier [ns_prefix namespace_le control_name]"

definition select_control_list_model :: "string list \<Rightarrow> string option \<Rightarrow> unit cmd" where
  "select_control_list_model control_list namespace_le =
     select_by_modifier (map (ns_prefix namespace_le) control_list)"

definition is_ctr :: "string \<Rightarrow> bool" where
  "is_ctr x \<longleftrightarrow> py_endswith x ''_ctr''"

definition ctr_descendants :: "string \<Rightarrow> string list cmd" where
  "ctr_descendants grp =
     bindE (listRelatives_ad grp) (\<lambda>r.
       case r of
         None \<Rightarrow> raiseE (TypeError ''NoneType object is not iterable'')
       | Some xs \<Rightarrow> returnE (filter is_ctr xs))"

definition group_handler_model :: "(string list \<Rightarrow> unit cmd) \<Rightarrow> string \<Rightarrow> string option \<Rightarrow> unit cmd" where
  "group_handler_model act modules_grp namespace_le =
     (case namespace_le of
        None \<Rightarrow> returnE ()
      | Some namespace \<Rightarrow>
          if namespace \<noteq> [] then bindE (ctr_descendants (namespace @ modules_grp)) act
          else bindE (ctr_descendants modules_grp) act)"

definition select_all_controls_model :: "string option \<Rightarrow> unit cmd" where
  "select_all_controls_model = group_handler_model select_replace ''modules_c_grp''"

definition select_body_controls_model :: "string option \<Rightarrow> unit cmd" where
  "select_body_controls_model = group_handler_model select_replace ''bodyModules_c_grp''"

definition select_face_controls_model :: "string option \<Rightarrow> unit cmd" where
  "select_face_controls_model = group_handler_model select_replace ''faceModules_c_grp''"

definition key_all_controls_model :: "string option \<Rightarrow> unit cmd" where
  "key_all_controls_model = group_handler_model setKeyframe ''modules_c_grp''"

definition key_body_controls_model :: "string option \<Rightarrow> unit cmd" where
  "key_body_controls_model = group_handler_model setKeyframe ''bodyModules_c_grp''"

definition key_face_controls_model :: "string option \<Rightarrow> unit cmd" where
  "key_face_controls_model = group_handler_model setKeyframe ''faceModules_c_grp''"

definition vis_toggle :: "string \<Rightarrow> unit cmd" where
  "vis_toggle p = bindE (getAttr p) (\<lambda>v. setAttr p (Num (if truthy v then 0 else 1)))"

text \<open>The \<open>print\<close> of the no-namespace branch of \<open>vis_controls\<close> writes to the script editor only.\<close>

definition vis_controls_model :: "string option \<Rightarrow> unit cmd" where
  "vis_controls_model namespace_le =
     (case namespace_le of
        None \<Rightarrow> returnE ()
      | Some namespace \<Rightarrow>
          if namespace \<noteq> [] then vis_toggle (plug (namespace @ ''general_c_ctr'') ''visControls'')
          else vis_toggle (plug ''general_c_ctr'' ''visControls''))"

definition vis_geometries_model :: "string option \<Rightarrow> unit cmd" where
  "vis_geometries_model namespace_le =
     (case namespace_le of
        None \<Rightarrow> returnE ()
      | Some namespace \<Rightarrow>
          if namespace \<noteq> [] then vis_toggle (plug (namespace @ ''general_c_ctr'') ''visGeometries'')
          else vis_toggle (plug ''general_c_ctr'' ''visGeometries''))"

definition select_control_cls :: "string \<Rightarrow> string \<Rightarrow> unit cmd" where
  "select_control_cls namespace control_name =
     undo_chunk (select_by_modifier [namespace @ control_name])"

definition select_control_list_cls :: "string \<Rightarrow> string list \<Rightarrow> unit cmd" where
  "select_control_list_cls namespace control_list =
     undo_chunk (select_by_modifier (map (\<lambda>control_name. namespace @ control_name) control_list))"

definition group_handler_cls :: "(string list \<Rightarrow> unit cmd) \<Rightarrow> string \<Rightarrow> string \<Rightarrow> unit cmd" where
  "group_handler_cls act modules_grp namespace =
     undo_chunk (bindE (ctr_descendants (namespace @ modules_grp)) act)"

definition select_all_controls_cls :: "string \<Rightarrow> unit cmd" where
  "select_all_controls_cls = group_handler_cls select_replace ''modules_c_grp''"

definition select_body_controls_cls :: "string \<Rightarrow> unit cmd" where
  "select_body_controls_cls = group_handler_cls select_replace ''bodyModules_c_grp''"

definition select_face_controls_cls :: "string \<Rightarrow> unit cmd" where
  "select_face_controls_cls = group_handler_cls select_replace ''faceModules_c_grp''"

definition key_all_controls_cls :: "string \<Rightarrow> unit cmd" where
  "key_all_controls_cls = group_handler_cls setKeyframe ''modules_c_grp''"

definition key_body_controls_cls :: "string \<Rightarrow> unit cmd" where
  "key_body_controls_cls = group_handler_cls setKeyframe ''bodyModules_c_grp''"

definition key_face_controls_cls :: "string \<Rightarrow> unit cmd" where
  "key_face_controls_cls = group_handler_cls setKeyframe ''faceModules_c_grp''"

definition vis_controls_cls :: "string \<Rightarrow> unit cmd" where
  "vis_controls_cls namespace = undo_chunk (vis_toggle (plug (namespace @ ''general_c_ctr'') ''visControls''))"

definition vis_geometries_cls :: "string \<Rightarrow> unit cmd" where
  "vis_geometries_cls namespace = undo_chunk (vis_toggle (plug (namespace @ ''general_c_ctr'') ''visGeometries''))"

text \<open>Controls of a rig under namespace \<open>rig:\<close>, Shift and Alt held, and an empty group without namespace.\<close>

definition demo_select_scene :: scene where
  "demo_select_scene =
     \<lparr>sel = [''rig:spine_c_ctr''],
      plugs = [plug ''rig:general_c_ctr'' ''visControls'' \<mapsto> Num 1],
      locked = {}, udattrs = (\<lambda>_. []), defaults = Map.empty,
      lmat = [''rig:spine_c_ctr'' \<mapsto> replicate 16 0, ''rig:armFk_l_ctr'' \<mapsto> replicate 16 0,
              ''rig:armFk_r_ctr'' \<mapsto> replicate 16 0, ''rig:arm_l_jnt'' \<mapsto> replicate 16 0],
      wmat = Map.empty, blend = Map.empty,
      relatives = [''rig:modules_c_grp'' \<mapsto> Some [''rig:armFk_l_ctr'', ''rig:arm_l_jnt'', ''rig:armFk_r_ctr''],
                   ''modules_c_grp'' \<mapsto> None],
      keyed = [], mods = 9, undo_depth = 0\<rparr>"

subsection \<open>Selection\<close>

lemma select_by_modifier_ok:
  "list_all (node_exists sc) ns \<Longrightarrow>
   select_by_modifier ns sc =
     (Inr (), sc\<lparr>sel := (if get_modifier (mods sc) = Some Shift
                          then sel sc @ filter (\<lambda>n. n \<notin> set (sel sc)) (remdups ns)
                          else if get_modifier (mods sc) = Some Control
                          then filter (\<lambda>n. n \<notin> set ns) (sel sc)
                          else remdups ns)\<rparr>)"
  by (simp add: select_by_modifier_def select_add_def select_deselect_def select_replace_def
      host_simps exc_simps)

lemma select_by_modifier_missing:
  "filter (\<lambda>n. \<not> node_exists sc n) ns = n # r \<Longrightarrow>
   select_by_modifier ns sc = (Inl (no_match n), sc)"
  by (simp add: select_by_modifier_def select_add_def select_deselect_def select_replace_def
      host_simps exc_simps check_nodes_missing)

text \<open>
  C10. A list of existing controls is selected according to the modifier keys held: with
  Alt held (whatever else is held) the selection is replaced, as with no modifier; with
  Control and no Alt the controls are removed from the selection; with Shift alone they are
  appended to it, each once. The namespace, when there is one, prefixes every name.
\<close>

theorem select_control_list_model_modifiers:
  assumes "list_all (node_exists sc) (map (ns_prefix nl) names)"
  shows "select_control_list_model names nl sc =
    (Inr (), sc\<lparr>sel := (if bit (mods sc) 3 then remdups (map (ns_prefix nl) names)
                         else if bit (mods sc) 2
                         then filter (\<lambda>n. n \<notin> set (map (ns_prefix nl) names)) (sel sc)
                         else if bit (mods sc) 0
                         then sel sc @ filter (\<lambda>n. n \<notin> set (sel sc)) (remdups (map (ns_prefix nl) names))
                         else remdups (map (ns_prefix nl) names))\<rparr>)"
  using select_by_modifier_ok [OF assms]
  by (simp add: select_control_list_model_def get_modifier_bits)

text \<open>
  C11. If one of the names does not exist the host raises ValueError for the first such
  name and nothing is selected or deselected, the existing names of the list included.
\<close>

theorem select_control_list_model_missing:
  "filter (\<lambda>n. \<not> node_exists sc n) (map (ns_prefix nl) names) = n # r \<Longrightarrow>
   select_control_list_model names nl sc = (Inl (no_match n), sc)"
  by (simp add: select_control_list_model_def select_by_modifier_missing)

lemma ctr_descendants_ok:
  "relatives sc g = Some (Some xs) \<Longrightarrow> ctr_descendants g sc = (Inr (filter is_ctr xs), sc)"
  by (simp add: ctr_descendants_def host_simps exc_simps)

lemma ctr_descendants_empty:
  "relatives sc g = Some None \<Longrightarrow>
   ctr_descendants g sc = (Inl (TypeError ''NoneType object is not iterable''), sc)"
  by (simp add: ctr_descendants_def host_simps exc_simps)

lemma group_handler_model_grp:
  "group_handler_model act grp (Some ns) = bindE (ctr_descendants (ns @ grp)) act"
  by (simp add: group_handler_model_def)

text \<open>
  C12. "Key all" sets one keyframe over exactly the descendants of the namespace's
  \<open>modules_c_grp\<close> whose names end in \<open>_ctr\<close>, in the host's order.
\<close>

theorem key_all_controls_model_keys:
  assumes "relatives sc (ns @ ''modules_c_grp'') = Some (Some xs)"
    and "list_all (node_exists sc) (filter is_ctr xs)"
  shows "key_all_controls_model (Some ns) sc = (Inr (), sc\<lparr>keyed := keyed sc @ [filter is_ctr xs]\<rparr>)"
  using assms by (simp add: key_all_controls_model_def group_handler_model_grp ctr_descendants_ok
      host_simps exc_simps)

text \<open>
  C13. On a rig whose \<open>modules_c_grp\<close> has no descendants, \<open>listRelatives\<close> returns
  \<open>None\<close> and "select all" raises TypeError instead of selecting nothing.
\<close>

theorem select_all_controls_model_empty_group:
  "relatives sc (ns @ ''modules_c_grp'') = Some None \<Longrightarrow>
   select_all_controls_model (Some ns) sc = (Inl (TypeError ''NoneType object is not iterable''), sc)"
  by (simp add: select_all_controls_model_def group_handler_model_grp ctr_descendants_empty exc_simps)

lemma undo_free_select_by_modifier [undo_free_intros]: "undo_free (select_by_modifier ns)"
  unfolding select_by_modifier_def by (intro undo_free_intros)

lemma undo_free_ctr_descendants [undo_free_intros]: "undo_free (ctr_descendants g)"
  unfolding ctr_descendants_def by (intro undo_free_intros)

lemma undo_free_vis_toggle [undo_free_intros]: "undo_free (vis_toggle p)"
  unfolding vis_toggle_def by (intro undo_free_intros)

lemma group_handler_cls_model:
  "(\<And>xs. undo_free (act xs)) \<Longrightarrow> group_handler_cls act grp ns = group_handler_model act grp (Some ns)"
  by (auto simp: fun_eq_iff group_handler_cls_def group_handler_model_grp
      intro!: undo_chunk_transparent undo_free_intros)

lemma ns_prefix_Some: "ns_prefix (Some ns) = (@) ns"
  by (simp add: fun_eq_iff ns_prefix_def)

lemma select_control_list_cls_model:
  "select_control_list_cls ns names = select_control_list_model names (Some ns)"
  by (simp add: fun_eq_iff select_control_list_cls_def select_control_list_model_def ns_prefix_Some
      undo_chunk_transparent undo_free_intros)

text \<open>
  Each selection, keying and visibility handler of the class variant, undo chunk
  included, is its free-function counterpart given a line edit holding the same
  namespace.
\<close>

theorem select_key_vis_cls_model:
  "select_control_cls ns n = select_control_model n (Some ns) \<and>
   select_control_list_cls ns names = select_control_list_model names (Some ns) \<and>
   select_all_controls_cls ns = select_all_controls_model (Some ns) \<and>
   select_body_controls_cls ns = select_body_controls_model (Some ns) \<and>
   select_face_controls_cls ns = select_face_controls_model (Some ns) \<and>
   key_all_controls_cls ns = key_all_controls_model (Some ns) \<and>
   key_body_controls_cls ns = key_body_controls_model (Some ns) \<and>
   key_face_controls_cls ns = key_face_controls_model (Some ns) \<and>
   vis_controls_cls ns = vis_controls_model (Some ns) \<and>
   vis_geometries_cls ns = vis_geometries_model (Some ns)"
  by (simp add: fun_eq_iff select_control_cls_def select_control_model_def
      select_control_list_cls_def select_control_list_model_def ns_prefix_Some
      select_all_controls_cls_def select_all_controls_model_def
      select_body_controls_cls_def select_body_controls_model_def
      select_face_controls_cls_def select_face_controls_model_def
      key_all_controls_cls_def key_all_controls_model_def
      key_body_controls_cls_def key_body_controls_model_def
      key_face_controls_cls_def key_face_controls_model_def
      vis_controls_cls_def vis_controls_model_def vis_geometries_cls_def vis_geometries_model_def
      group_handler_cls_model undo_free_host undo_chunk_transparent undo_free_intros)

lemma vis_toggle_ok:
  "plugs sc p = Some v \<Longrightarrow> p \<notin> locked sc \<Longrightarrow>
   vis_toggle p sc = (Inr (), sc\<lparr>plugs := (plugs sc)(p \<mapsto> Num (if truthy v then 0 else 1))\<rparr>)"
  by (simp add: vis_toggle_def host_simps exc_simps)

lemma vis_controls_model_plug:
  "vis_controls_model (Some ns) = vis_toggle (plug (ns @ ''general_c_ctr'') ''visControls'')"
  by (simp add: vis_controls_model_def)

text \<open>
  C14. The visibility button writes the complement of the plug's truth value, so pressing
  it twice leaves the plug at 1 if it was true and at 0 if it was false: the original
  value back whenever the plug held 0 or 1.
\<close>

theorem vis_controls_model_twice:
  assumes "plugs sc (plug (ns @ ''general_c_ctr'') ''visControls'') = Some v"
    and "plug (ns @ ''general_c_ctr'') ''visControls'' \<notin> locked sc"
  shows "fst (vis_controls_model (Some ns) sc) = Inr () \<and>
    plugs (snd (vis_controls_model (Some ns) sc)) (plug (ns @ ''general_c_ctr'') ''visControls'') =
      Some (Num (if truthy v then 0 else 1)) \<and>
    vis_controls_model (Some ns) (snd (vis_controls_model (Some ns) sc)) =
      (Inr (), sc\<lparr>plugs := (plugs sc)(plug (ns @ ''general_c_ctr'') ''visControls'' \<mapsto>
                                       Num (if truthy v then 1 else 0))\<rparr>)"
  using assms by (simp add: vis_controls_model_plug vis_toggle_ok truthy_def)


theorem select_control_list_model_modifiers_witness:
  "select_control_list_model [''armFk_l_ctr'', ''armFk_r_ctr''] (Some ''rig:'') demo_select_scene =
     (Inr (), demo_select_scene\<lparr>sel := [''rig:armFk_l_ctr'', ''rig:armFk_r_ctr'']\<rparr>)"
  using select_control_list_model_modifiers [of demo_select_scene "Some ''rig:''" "[''armFk_l_ctr'', ''armFk_r_ctr'']"]
  by (simp add: demo_select_scene_def ns_prefix_def node_exists_def)

theorem select_control_list_model_missing_witness:
  "select_control_list_model [''armFk_l_ctr'', ''legFk_l_ctr''] (Some ''rig:'') demo_select_scene =
     (Inl (no_match ''rig:legFk_l_ctr''), demo_select_scene)"
  using select_control_list_model_missing [of demo_select_scene "Some ''rig:''" "[''armFk_l_ctr'', ''legFk_l_ctr'']"]
  by (simp add: demo_select_scene_def ns_prefix_def node_exists_def)

theorem key_all_controls_model_keys_witness:
  "key_all_controls_model (Some ''rig:'') demo_select_scene =
     (Inr (), demo_select_scene\<lparr>keyed := [[''rig:armFk_l_ctr'', ''rig:armFk_r_ctr'']]\<rparr>)"
  using key_all_controls_model_keys [of demo_select_scene "''rig:''" "[''rig:armFk_l_ctr'', ''rig:arm_l_jnt'', ''rig:armFk_r_ctr'']"]
  by (simp add: demo_select_scene_def node_exists_def is_ctr_def py_endswith_def)

theorem select_all_controls_model_empty_group_witness:
  "select_all_controls_model (Some []) demo_select_scene =
     (Inl (TypeError ''NoneType object is not iterable''), demo_select_scene)"
  using select_all_controls_model_empty_group [of demo_select_scene "[]"]
  by (simp add: demo_select_scene_def)

theorem vis_controls_model_twice_witness:
  "fst (vis_controls_model (Some ''rig:'') demo_select_scene) = Inr () \<and>
   plugs (snd (vis_controls_model (Some ''rig:'') demo_select_scene)) (plug ''rig:general_c_ctr'' ''visControls'') =
     Some (Num 0) \<and>
   vis_controls_model (Some ''rig:'') (snd (vis_controls_model (Some ''rig:'') demo_select_scene)) =
     (Inr (), demo_select_scene)"
proof -
  have "demo_select_scene\<lparr>plugs := (plugs demo_select_scene)(plug ''rig:general_c_ctr'' ''visControls'' \<mapsto> Num 1)\<rparr> =
        demo_select_scene"
    by (simp add: demo_select_scene_def)
  then show ?thesis
    using vis_controls_model_twice [of demo_select_scene "''rig:''" "Num 1"]
    by (simp add: demo_select_scene_def truthy_def)
qed

end
