(* ===== verification/PyFloat.thy ===== *)
theory PyFloat
  imports PyStr Complex_Main
begin

text \<open>
  Python's \<open>float(s)\<close> on a string, as \<open>bind_pose\<close> applies it to the pieces of the
  \<open>skinPoseData\<close> attribute: surrounding whitespace is stripped (\<open>py_strip\<close>, the
  characters \<open>str.isspace\<close> accepts among the 256 of \<open>char\<close>), then an optional sign,
  a decimal mantissa with an optional point, and an optional exponent are read; digits may
  be grouped by single underscores. The value is the exact real the literal denotes; the
  rounding to the nearest double and the spellings of infinity and NaN, which no matrix of
  reals can hold, are outside the model and give ValueError.
  \<open>nat_str\<close> and \<open>dec_str\<close> print a decimal; the lemmas show that \<open>float\<close> reads
  back what they print, which is the round trip the skin pose attribute relies on.
\<close>

definition py_isspace :: "char \<Rightarrow> bool" where
  "py_isspace c =
     (let n = (of_char c :: nat) in (9 \<le> n \<and> n \<le> 13) \<or> (28 \<le> n \<and> n \<le> 32) \<or> n = 133 \<or> n = 160)"

definition py_strip :: "string \<Rightarrow> string" where
  "py_strip s = rev (dropWhile py_isspace (rev (dropWhile py_isspace s)))"

definition is_digit :: "char \<Rightarrow> bool" where
  "is_digit c = (let n = (of_char c :: nat) in 48 \<le> n \<and> n \<le> 57)"

definition digit_val :: "char \<Rightarrow> nat" where
  "digit_val c = of_char c - 48"

text \<open>A run of digits, single underscores allowed between two digits: its value, its number of digits, the rest.\<close>

fun scan_digits :: "nat \<Rightarrow> nat \<Rightarrow> string \<Rightarrow> nat \<times> nat \<times> string" where
  "scan_digits v k [] = (v, k, [])"
| "scan_digits v k (c # cs) =
     (if is_digit c then scan_digits (10 * v + digit_val c) (Suc k) cs
      else if c = CHR ''_'' \<and> 0 < k \<and> cs \<noteq> [] \<and> is_digit (hd cs) then scan_digits v k cs
      else (v, k, c # cs))"

definition parse_sign :: "string \<Rightarrow> int \<times> string" where
  "parse_sign s =
     (case s of
        c # cs \<Rightarrow> if c = CHR ''-'' then (-1, cs) else if c = CHR ''+'' then (1, cs) else (1, s)
      | [] \<Rightarrow> (1, []))"

definition parse_exponent :: "string \<Rightarrow> (int \<times> string) option" where
  "parse_exponent s =
     (case s of
        c # cs \<Rightarrow>
          if c = CHR ''e'' \<or> c = CHR ''E'' then
            (case parse_sign cs of (sg, r) \<Rightarrow>
              (case scan_digits 0 0 r of (v, k, r') \<Rightarrow>
                 if k = 0 then None else Some (sg * int v, r')))
          else Some (0, s)
      | [] \<Rightarrow> Some (0, []))"

definition dec_scale :: "int \<Rightarrow> real" where
  "dec_scale e = (if 0 \<le> e then 10 ^ nat e else inverse (10 ^ nat (- e)))"

definition py_float_body :: "string \<Rightarrow> real option" where
  "py_float_body s =
     (case parse_sign s of (sg, s1) \<Rightarrow>
      case scan_digits 0 0 s1 of (ip, ki, s2) \<Rightarrow>
      case (case s2 of c # r \<Rightarrow> if c = CHR ''.'' then scan_digits 0 0 r else (0, 0, s2)
                     | [] \<Rightarrow> (0, 0, [])) of (fp, kf, s3) \<Rightarrow>
        if ki = 0 \<and> kf = 0 then None
        else (case parse_exponent s3 of
                None \<Rightarrow> None
              | Some (e, rest) \<Rightarrow>
                  if rest \<noteq> [] then None
                  else Some (of_int sg * of_nat (ip * 10 ^ kf + fp) * dec_scale (e - int kf))))"

definition py_float :: "string \<Rightarrow> py_error + real" where
  "py_float s =
     (case py_float_body (py_strip s) of
        None \<Rightarrow> Inl (ValueError (''could not convert string to float: '' @ s))
      | Some r \<Rightarrow> Inr r)"

text \<open>\<open>[float(x) for x in xs]\<close>: the values in order, or the first ValueError.\<close>

fun py_float_list :: "string list \<Rightarrow> py_error + real list" where
  "py_float_list [] = Inr []"
| "py_float_list (x # xs) =
     (case py_float x of
        Inl e \<Rightarrow> Inl e
      | Inr r \<Rightarrow> (case py_float_list xs of Inl e \<Rightarrow> Inl e | Inr rs \<Rightarrow> Inr (r # rs)))"

definition digit_char :: "nat \<Rightarrow> char" where
  "digit_char n = char_of (48 + n)"

fun nat_str :: "nat \<Rightarrow> string" where
  "nat_str n = (if n < 10 then [digit_char n] else nat_str (n div 10) @ [digit_char (n mod 10)])"

declare nat_str.simps [simp del]

text \<open>The decimal \<open>m / 10^k\<close> written with \<open>k\<close> digits after the point.\<close>

definition dec_str :: "int \<Rightarrow> nat \<Rightarrow> string" where
  "dec_str m k =
     (let a = nat \<bar>m\<bar>; f = a mod 10 ^ k
      in (if m < 0 then ''-'' else []) @ nat_str (a div 10 ^ k) @
         (if k = 0 then [] else ''.'' @ replicate (k - length (nat_str f)) CHR ''0'' @ nat_str f))"

definition dec_val :: "int \<Rightarrow> nat \<Rightarrow> real" where
  "dec_val m k = of_int m / 10 ^ k"

text \<open>One step of reading a digit run: the value so far times ten plus the digit.\<close>

abbreviation digit_step :: "char \<Rightarrow> nat \<Rightarrow> nat" where
  "digit_step c v \<equiv> 10 * v + digit_val c"

subsection \<open>Digits\<close>

lemma digit_char_facts:
  assumes "n < 10"
  shows "is_digit (digit_char n)" "digit_val (digit_char n) = n" "\<not> py_isspace (digit_char n)"
    "digit_char n \<noteq> CHR ''_''" "digit_char n \<noteq> CHR ''-''" "digit_char n \<noteq> CHR ''+''"
    "digit_char n \<noteq> CHR ''.''"
proof -
  have o: "(of_char (digit_char n) :: nat) = 48 + n" using assms by (simp add: digit_char_def of_char_of)
  show "is_digit (digit_char n)" using o assms by (simp add: is_digit_def)
  show "digit_val (digit_char n) = n" using o by (simp add: digit_val_def)
  show "\<not> py_isspace (digit_char n)" using o assms by (simp add: py_isspace_def)
  show "digit_char n \<noteq> CHR ''_''" "digit_char n \<noteq> CHR ''-''" "digit_char n \<noteq> CHR ''+''"
    "digit_char n \<noteq> CHR ''.''"
    using o assms by (auto dest: arg_cong [where f = "of_char :: char \<Rightarrow> nat"])
qed

subsection \<open>Printing and scanning digits\<close>

lemma nat_str_lt: "n < 10 \<Longrightarrow> nat_str n = [digit_char n]"
  by (simp add: nat_str.simps)

lemma nat_str_ge: "\<not> n < 10 \<Longrightarrow> nat_str n = nat_str (n div 10) @ [digit_char (n mod 10)]"
  by (subst nat_str.simps) simp

lemma nat_str_digits: "c \<in> set (nat_str n) \<Longrightarrow> \<exists>m < 10. c = digit_char m"
proof (induction n rule: nat_str.induct)
  case (1 n)
  show ?case
  proof (cases "n < 10")
    case True
    with 1 show ?thesis by (auto simp: nat_str_lt)
  next
    case False
    with 1(2) have "c \<in> set (nat_str (n div 10)) \<or> c = digit_char (n mod 10)"
      by (auto simp: nat_str_ge)
    then show ?thesis
    proof
      assume "c \<in> set (nat_str (n div 10))"
      then show ?thesis using 1(1) False by blast
    next
      assume "c = digit_char (n mod 10)"
      then show ?thesis by (intro exI [of _ "n mod 10"]) simp
    qed
  qed
qed


lemma nat_str_ne [simp]: "nat_str n \<noteq> []"
  by (cases "n < 10") (simp_all add: nat_str_lt nat_str_ge)

lemma scan_digits_digits:
  "list_all is_digit u \<Longrightarrow>
   scan_digits v k (u @ r) = scan_digits (fold digit_step u v) (k + length u) r"
  by (induction u arbitrary: v k) simp_all

lemma scan_digits_stop:
  "r = [] \<or> (\<not> is_digit (hd r) \<and> hd r \<noteq> CHR ''_'') \<Longrightarrow> scan_digits v k r = (v, k, r)"
  by (cases r) auto

lemma nat_str_is_digit: "list_all is_digit (nat_str n)"
  using nat_str_digits [of _ n] digit_char_facts(1) by (auto simp: list_all_iff)

lemma nat_str_value: "fold digit_step (nat_str n) 0 = n"
proof (induction n rule: nat_str.induct)
  case (1 n)
  show ?case
  proof (cases "n < 10")
    case True
    then show ?thesis by (simp add: nat_str_lt digit_char_facts)
  next
    case False
    have "n mod 10 < 10" by simp
    with 1 False show ?thesis by (simp add: nat_str_ge digit_char_facts)
  qed
qed

lemma nat_str_length: "n < 10 ^ k \<Longrightarrow> 0 < k \<Longrightarrow> length (nat_str n) \<le> k"
proof (induction n arbitrary: k rule: nat_str.induct)
  case (1 n)
  show ?case
  proof (cases "n < 10")
    case True
    with 1 show ?thesis by (simp add: nat_str_lt)
  next
    case False
    obtain j where k: "k = Suc j" using 1(3) by (cases k) simp_all
    with False 1(2) have "n div 10 < 10 ^ j" by (simp add: div_less_iff_less_mult mult.commute)
    moreover from False 1(2) k have "0 < j" by (cases j) simp_all
    ultimately have "length (nat_str (n div 10)) \<le> j" using 1(1) False by blast
    with False k show ?thesis by (simp add: nat_str_ge)
  qed
qed

lemma fold_digit_step: "fold digit_step u v = v * 10 ^ length u + fold digit_step u 0"
proof (induction u arbitrary: v)
  case Nil
  then show ?case by simp
next
  case (Cons c u)
  show ?case
    using Cons.IH [of "10 * v + digit_val c"] Cons.IH [of "digit_val c"] by (simp add: algebra_simps)
qed

lemma char_classes [simp]:
  "is_digit CHR ''0''" "digit_val CHR ''0'' = 0" "\<not> is_digit CHR ''.''" "\<not> is_digit CHR ''-''"
  "\<not> py_isspace CHR ''-''" "\<not> py_isspace CHR ''['' " "py_isspace CHR '' ''"
  by (simp_all add: is_digit_def digit_val_def py_isspace_def)

lemma fold_digit_zeros: "fold digit_step (replicate j CHR ''0'') 0 = 0"
  by (induction j) simp_all

lemma scan_nat_str:
  "r = [] \<or> (\<not> is_digit (hd r) \<and> hd r \<noteq> CHR ''_'') \<Longrightarrow>
   scan_digits 0 0 (nat_str n @ r) = (n, length (nat_str n), r)"
  using scan_digits_digits [OF nat_str_is_digit, of 0 0 n r] scan_digits_stop nat_str_value by simp

lemma scan_fraction:
  assumes "f < 10 ^ k" "0 < k"
  shows "scan_digits 0 0 (replicate (k - length (nat_str f)) CHR ''0'' @ nat_str f) = (f, k, [])"
proof -
  let ?u = "replicate (k - length (nat_str f)) CHR ''0'' @ nat_str f"
  have d: "list_all is_digit ?u" using nat_str_is_digit [of f] by (auto simp: list_all_iff)
  have "fold digit_step ?u 0 =
        fold digit_step (nat_str f) (fold digit_step (replicate (k - length (nat_str f)) CHR ''0'') 0)"
    by (simp only: fold_append o_apply)
  also have "\<dots> = f" by (simp only: fold_digit_zeros nat_str_value)
  finally have "fold digit_step ?u 0 = f" .
  moreover have "length ?u = k" using nat_str_length [OF assms] by simp
  moreover have "?u @ [] = ?u" by simp
  ultimately show ?thesis using scan_digits_digits [OF d, of 0 0 "[]"] by (simp only:) simp
qed

subsection \<open>Reading back a printed decimal\<close>

lemma py_float_body_digits:
  assumes sign: "parse_sign s = (sg, nat_str ip @ tail)"
    and tail: "(tail = [] \<and> fp = 0 \<and> kf = 0) \<or>
               (\<exists>fr. tail = CHR ''.'' # fr \<and> scan_digits 0 0 fr = (fp, kf, []))"
  shows "py_float_body s = Some (of_int sg * of_nat (ip * 10 ^ kf + fp) * dec_scale (- int kf))"
proof -
  have "tail = [] \<or> (\<not> is_digit (hd tail) \<and> hd tail \<noteq> CHR ''_'')" using tail by auto
  then have scan: "scan_digits 0 0 (nat_str ip @ tail) = (ip, length (nat_str ip), tail)"
    by (rule scan_nat_str)
  have pos: "length (nat_str ip) \<noteq> 0" by simp
  from tail show ?thesis
  proof
    assume "tail = [] \<and> fp = 0 \<and> kf = 0"
    with sign scan pos show ?thesis by (simp add: py_float_body_def parse_exponent_def)
  next
    assume "\<exists>fr. tail = CHR ''.'' # fr \<and> scan_digits 0 0 fr = (fp, kf, [])"
    then obtain fr where "tail = CHR ''.'' # fr" "scan_digits 0 0 fr = (fp, kf, [])" by blast
    with sign scan pos show ?thesis by (simp add: py_float_body_def parse_exponent_def)
  qed
qed

lemma py_strip_id:
  "s \<noteq> [] \<Longrightarrow> \<not> py_isspace (hd s) \<Longrightarrow> \<not> py_isspace (last s) \<Longrightarrow> py_strip s = s"
proof -
  assume s: "s \<noteq> []" and h: "\<not> py_isspace (hd s)" and l: "\<not> py_isspace (last s)"
  from s h have "dropWhile py_isspace s = s" by (cases s) simp_all
  moreover from s l have "dropWhile py_isspace (rev s) = rev s"
    by (cases "rev s") (simp_all add: last_rev [symmetric] hd_rev)
  ultimately show ?thesis by (simp add: py_strip_def)
qed

lemma nat_str_hd_last:
  "\<exists>d < 10. hd (nat_str n) = digit_char d" "\<exists>d < 10. last (nat_str n) = digit_char d"
  using nat_str_digits [of "hd (nat_str n)" n] nat_str_digits [of "last (nat_str n)" n] by simp_all

lemma dec_str_parts:
  obtains tail fp kf where
    "dec_str m k = (if m < 0 then ''-'' else []) @ nat_str (nat \<bar>m\<bar> div 10 ^ k) @ tail"
    "(tail = [] \<and> fp = 0 \<and> kf = 0) \<or> (\<exists>fr. tail = CHR ''.'' # fr \<and> scan_digits 0 0 fr = (fp, kf, []))"
    "nat \<bar>m\<bar> div 10 ^ k * 10 ^ kf + fp = nat \<bar>m\<bar>" "kf = k"
    "tail = [] \<or> (\<exists>d < 10. last tail = digit_char d)"
proof (cases "k = 0")
  case True
  then show ?thesis by (intro that [of "[]" 0 0]) (simp_all add: dec_str_def)
next
  case False
  let ?f = "nat \<bar>m\<bar> mod 10 ^ k"
  let ?tail = "CHR ''.'' # replicate (k - length (nat_str ?f)) CHR ''0'' @ nat_str ?f"
  have "scan_digits 0 0 (replicate (k - length (nat_str ?f)) CHR ''0'' @ nat_str ?f) = (?f, k, [])"
    using False by (intro scan_fraction) simp_all
  moreover have "\<exists>d < 10. last ?tail = digit_char d" using nat_str_hd_last(2) [of ?f] by simp
  ultimately show ?thesis using False
    by (intro that [of ?tail ?f k]) (simp_all add: dec_str_def Let_def div_mult_mod_eq)
qed

theorem py_float_dec_str: "py_float (dec_str m k) = Inr (dec_val m k)"
proof -
  let ?a = "nat \<bar>m\<bar>" and ?ip = "nat \<bar>m\<bar> div 10 ^ k"
  obtain tail fp kf where ds: "dec_str m k = (if m < 0 then ''-'' else []) @ nat_str ?ip @ tail"
    and tl: "(tail = [] \<and> fp = 0 \<and> kf = 0) \<or> (\<exists>fr. tail = CHR ''.'' # fr \<and> scan_digits 0 0 fr = (fp, kf, []))"
    and val: "?ip * 10 ^ kf + fp = ?a" and kf: "kf = k"
    and lst: "tail = [] \<or> (\<exists>d < 10. last tail = digit_char d)"
    by (rule dec_str_parts)
  obtain c cs where ns: "nat_str ?ip = c # cs" by (cases "nat_str ?ip") simp_all
  obtain d where d: "d < 10" "c = digit_char d" using nat_str_hd_last(1) [of ?ip] ns by auto
  have sign: "parse_sign (dec_str m k) = (if m < 0 then -1 else 1, nat_str ?ip @ tail)"
    using d digit_char_facts [OF d(1)] by (simp add: ds ns parse_sign_def)
  have body: "py_float_body (dec_str m k) =
      Some (of_int (if m < 0 then -1 else 1) * of_nat (?ip * 10 ^ kf + fp) * dec_scale (- int kf))"
    using sign tl by (rule py_float_body_digits)
  have "last (dec_str m k) \<noteq> CHR '' '' \<and> \<not> py_isspace (last (dec_str m k))"
  proof -
    have l: "last (dec_str m k) = (if tail = [] then last (nat_str ?ip) else last tail)"
      by (simp add: ds)
    obtain e where "e < 10" "last (dec_str m k) = digit_char e"
    proof (cases "tail = []")
      case True
      then show ?thesis using l nat_str_hd_last(2) [of ?ip] that by auto
    next
      case False
      then show ?thesis using l lst that by auto
    qed
    then show ?thesis using digit_char_facts [of e] by auto
  qed
  moreover have "\<not> py_isspace (hd (dec_str m k))"
    using d digit_char_facts [OF d(1)] by (simp add: ds ns)
  ultimately have strip: "py_strip (dec_str m k) = dec_str m k"
    by (intro py_strip_id) (simp_all add: ds)
  have v: "(of_nat (?ip * 10 ^ kf + fp) :: real) = of_nat ?a" by (simp only: val)
  have sc: "dec_scale (- int kf) = inverse (10 ^ k)"
    using kf by (cases "k = 0") (simp_all add: dec_scale_def)
  have sg: "of_int (if m < 0 then -1 else 1) * of_nat ?a = (of_int m :: real)" by simp
  have "py_float_body (dec_str m k) = Some (of_int m * inverse (10 ^ k))"
    by (simp only: body v sc sg)
  then show ?thesis by (simp add: py_float_def strip dec_val_def divide_inverse)
qed

subsection \<open>Whitespace and the characters of a printed decimal\<close>

lemma py_float_space: "py_float s = Inr r \<Longrightarrow> py_float (CHR '' '' # s) = Inr r"
  by (simp add: py_float_def py_strip_def split: option.splits)

lemma dec_str_chars:
  "c \<in> set (dec_str m k) \<Longrightarrow>
   c = CHR ''-'' \<or> c = CHR ''.'' \<or> c = CHR ''0'' \<or> (\<exists>d < 10. c = digit_char d)"
  by (auto simp: dec_str_def Let_def dest: nat_str_digits split: if_splits)

lemma dec_str_no_sep: "c \<in> {CHR ''['', CHR '']'', CHR '','', CHR '' ''} \<Longrightarrow> c \<notin> set (dec_str m k)"
proof
  assume c: "c \<in> {CHR ''['', CHR '']'', CHR '','', CHR '' ''}" and "c \<in> set (dec_str m k)"
  then consider "c = CHR ''-''" | "c = CHR ''.''" | "c = CHR ''0''" | d where "d < 10" "c = digit_char d"
    using dec_str_chars by blast
  then show False
  proof cases
    case (4 d)
    have "(of_char (digit_char d) :: nat) = 48 + d" using 4(1) by (simp add: digit_char_def of_char_of)
    with 4 c show False by auto
  qed (use c in auto)
qed

subsection \<open>A list of printed decimals\<close>

lemma py_float_list_decs:
  "py_float_list (map (\<lambda>v. '' '' @ v) (map (case_prod dec_str) ds)) = Inr (map (case_prod dec_val) ds)"
  by (induction ds) (auto simp: py_float_space py_float_dec_str)

end
