(* ===== verification/Bind.thy ===== *)
theory Bind
  imports Select PyFloat
begin

text \<open>
  The bind/skin pose reset (\<open>picker_model.bind_pose\<close>, \<open>Picker.bind_pose\<close>). For
  every \<open>_ctr\<close> descendant of the modules group (\<open>ctr_descendants\<close> of theory Select)
  the handler runs \<open>bind_one\<close>: each user-defined attribute is set to the first entry of
  its declared defaults (\<open>reset_user_attr\<close>, inside \<open>try/except: pass\<close>), the nine
  translate, rotate and scale channels are set to 0, 0 and 1 (\<open>reset_channels\<close>, each
  inside its own \<open>try\<close>), and where the \<open>skinPoseData\<close> attribute exists its string is
  cut at the last \<open>[\<close>, then at the first \<open>]\<close>, split at commas, read with
  \<open>float\<close> (\<open>skin_pose_parse\<close>) and written as the object-space matrix
  (\<open>apply_skin_pose\<close>). The free-function variant finds the group under the name
  \<open>'{}modules_grp'.format(namespace)\<close> when the line edit holds a namespace, and resets
  nothing when it has no line edit; the class variant uses \<open>namespace + 'modules_c_grp'\<close>
  and runs inside its undo chunk.
  The lemmas give the value every user attribute of a reset control ends with, the
  channels of a control without a skin pose and the matrix of one with it (theory Scene
  keeps channels and matrices as separate stores, so no lemma states both for one
  control), what a skin pose string that does not parse leaves behind, the round trip of
  the skin pose string, the free-function variant's wrong group name, and the agreement
  of the two variants without a namespace.
\<close>

definition skin_pose_parse :: "val \<Rightarrow> py_error + real list" where
  "skin_pose_parse v =
     (case v of
        Str skin_pose_data \<Rightarrow>
          py_float_list (py_split CHR '','' (hd (py_split CHR '']'' (last (py_split CHR ''['' skin_pose_data)))))
      | Num _ \<Rightarrow> Inl (AttributeError ''float object has no attribute split''))"

definition reset_user_attr :: "string \<Rightarrow> string \<Rightarrow> unit cmd" where
  "reset_user_attr ctr user_attr = try_pass
     (bindE (attr_defaults user_attr ctr) (\<lambda>dvs.
        case py_index dvs 0 of
          Inl e \<Rightarrow> raiseE e
        | Inr user_attr_dv \<Rightarrow> setAttr (plug ctr user_attr) user_attr_dv))"

definition reset_user_attrs :: "string \<Rightarrow> unit cmd" where
  "reset_user_attrs ctr =
     bindE (listAttr_ud ctr) (\<lambda>user_attrs.
     whenE (user_attrs \<noteq> [])
       (bindE (listAttr_ud ctr) (\<lambda>attrs. forE attrs (reset_user_attr ctr))))"

definition reset_channels :: "string \<Rightarrow> unit cmd" where
  "reset_channels ctr =
     forE ''trs'' (\<lambda>attr. forE ''xyz'' (\<lambda>axis.
       try_pass (setAttr (plug ctr [attr, axis]) (Num (if attr = CHR ''s'' then 1 else 0)))))"

definition apply_skin_pose :: "string \<Rightarrow> unit cmd" where
  "apply_skin_pose ctr =
     bindE (attr_exists ''skinPoseData'' ctr) (\<lambda>ex.
     whenE ex
       (bindE (getAttr (plug ctr ''skinPoseData'')) (\<lambda>v.
          case skin_pose_parse v of
            Inl e \<Rightarrow> raiseE e
          | Inr skin_pose_data \<Rightarrow> xform_matrix ctr skin_pose_data)))"

definition bind_one :: "string \<Rightarrow> unit cmd" where
  "bind_one ctr = thenE (reset_user_attrs ctr) (thenE (reset_channels ctr) (apply_skin_pose ctr))"

definition bind_pose_model :: "string option \<Rightarrow> unit cmd" where
  "bind_pose_model namespace_le =
     (let modules_grp = ''modules_c_grp''
      in bindE (case namespace_le of
                  None \<Rightarrow> returnE []
                | Some namespace \<Rightarrow>
                    if namespace \<noteq> [] then ctr_descendants (namespace @ ''modules_grp'')
                    else ctr_descendants modules_grp)
           (\<lambda>control_list. forE control_list bind_one))"

definition bind_pose_cls :: "string \<Rightarrow> unit cmd" where
  "bind_pose_cls namespace =
     undo_chunk
       (bindE (ctr_descendants (namespace @ ''modules_c_grp''))
          (\<lambda>control_list. forE control_list bind_one))"

text \<open>The string \<open>str\<close> gives for a list of decimals \<open>m / 10^k\<close>.\<close>

definition skin_str :: "(int \<times> nat) list \<Rightarrow> string" where
  "skin_str ds = ''['' @ py_join '', '' (map (case_prod dec_str) ds) @ '']''"

text \<open>The reading of the bind pose: the value each plug of a reset control ends with.\<close>

definition default_of :: "(string \<rightharpoonup> val list) \<Rightarrow> string \<Rightarrow> val option" where
  "default_of D p = (case D p of Some (d # _) \<Rightarrow> Some d | _ \<Rightarrow> None)"

definition channel_pairs :: "(char \<times> char) list" where
  "channel_pairs = concat (map (\<lambda>a. map (\<lambda>x. (a, x)) ''xyz'') ''trs'')"

definition user_plugs :: "scene \<Rightarrow> string \<Rightarrow> (string \<rightharpoonup> val) \<Rightarrow> (string \<rightharpoonup> val)" where
  "user_plugs sc c P =
     fold (\<lambda>a P. if settable sc (plug c a) \<and> default_of (defaults sc) (plug c a) \<noteq> None
                 then P(plug c a \<mapsto> the (default_of (defaults sc) (plug c a))) else P)
       (udattrs sc c) P"

definition channel_plugs :: "scene \<Rightarrow> string \<Rightarrow> (string \<rightharpoonup> val) \<Rightarrow> (string \<rightharpoonup> val)" where
  "channel_plugs sc c P =
     fold (\<lambda>q P. if settable sc (plug c [fst q, snd q]) \<and> True
                 then P(plug c [fst q, snd q] \<mapsto> Num (if fst q = CHR ''s'' then 1 else 0)) else P)
       channel_pairs P"

definition channels :: "string list" where
  "channels = map (\<lambda>q. [fst q, snd q]) channel_pairs"

definition bind_value :: "scene \<Rightarrow> string \<Rightarrow> string \<Rightarrow> val option" where
  "bind_value sc c a =
     (if settable sc (plug c a) \<and> a \<in> set channels then Some (Num (if hd a = CHR ''s'' then 1 else 0))
      else if settable sc (plug c a) \<and> a \<in> set (udattrs sc c) \<and> default_of (defaults sc) (plug c a) \<noteq> None
      then default_of (defaults sc) (plug c a)
      else plugs sc (plug c a))"

definition bind_plugs :: "scene \<Rightarrow> string \<Rightarrow> (string \<rightharpoonup> val)" where
  "bind_plugs sc c = channel_plugs sc c (user_plugs sc c (plugs sc))"

definition bind_lmat :: "scene \<Rightarrow> string \<Rightarrow> (string \<rightharpoonup> real list)" where
  "bind_lmat sc c =
     (case bind_value sc c ''skinPoseData'' of
        None \<Rightarrow> lmat sc
      | Some v \<Rightarrow> (case skin_pose_parse v of Inl _ \<Rightarrow> lmat sc | Inr m \<Rightarrow> (lmat sc)(c \<mapsto> m)))"

definition skin_ok :: "scene \<Rightarrow> string \<Rightarrow> bool" where
  "skin_ok sc c \<longleftrightarrow>
     (case bind_value sc c ''skinPoseData'' of
        None \<Rightarrow> True
      | Some v \<Rightarrow> (case skin_pose_parse v of Inl _ \<Rightarrow> False | Inr m \<Rightarrow> length m = 16))"

text \<open>An arm control under namespace \<open>rig:\<close> with a locked rotate Y, a user attribute with a default, and a skin pose.\<close>

definition demo_bind_scene :: scene where
  "demo_bind_scene =
     \<lparr>sel = [],
      plugs = [plug ''rig:arm_l_ctr'' ''tx'' \<mapsto> Num 5, plug ''rig:arm_l_ctr'' ''ry'' \<mapsto> Num 7,
               plug ''rig:arm_l_ctr'' ''sx'' \<mapsto> Num 2, plug ''rig:arm_l_ctr'' ''bend'' \<mapsto> Num 3,
               plug ''rig:arm_l_ctr'' ''skinPoseData'' \<mapsto> Str ''[1,0,0,0,0,1,0,0,0,0,1,0,0,0,0,1]''],
      locked = {plug ''rig:arm_l_ctr'' ''ry''},
      udattrs = (\<lambda>n. if n = ''rig:arm_l_ctr'' then [''bend'', ''skinPoseData''] else []),
      defaults = [plug ''rig:arm_l_ctr'' ''bend'' \<mapsto> [Num 0]],
      lmat = [''rig:arm_l_ctr'' \<mapsto> replicate 16 2, ''rig:arm_l_jnt'' \<mapsto> replicate 16 0],
      wmat = Map.empty, blend = Map.empty,
      relatives = [''rig:modules_c_grp'' \<mapsto> Some [''rig:arm_l_jnt'', ''rig:arm_l_ctr'']],
      keyed = [], mods = 0, undo_depth = 0\<rparr>"

subsection \<open>Reading the skin pose\<close>

lemma skin_body:
  "py_join '', '' (map (case_prod dec_str) ((m0, k0) # ds')) =
   py_join '','' (dec_str m0 k0 # map (\<lambda>v. '' '' @ v) (map (case_prod dec_str) ds'))"
  using py_join_sep_Cons [of "CHR '',''" "'' ''" "dec_str m0 k0" "map (case_prod dec_str) ds'"] by simp

lemma skin_pieces_chars:
  "w \<in> set (dec_str m0 k0 # map (\<lambda>v. '' '' @ v) (map (case_prod dec_str) ds')) \<Longrightarrow>
   c \<in> {CHR ''['', CHR '']'', CHR '',''} \<Longrightarrow> c \<notin> set w"
  using dec_str_no_sep by fastforce

lemma split_brackets:
  assumes "CHR ''['' \<notin> set body" "CHR '']'' \<notin> set body"
  shows "hd (py_split CHR '']'' (last (py_split CHR ''['' (''['' @ body @ '']'')))) = body"
proof -
  have "py_split CHR ''['' (CHR ''['' # body @ '']'') = [[], body @ '']'']"
    using py_split_append_sep [of "CHR ''[''" "[]" "body @ '']''"] assms by (simp add: py_split_no_sep)
  moreover have "py_split CHR '']'' (body @ '']'') = [body, []]"
    using py_split_append_sep [of "CHR '']''" body "[]"] assms by (simp add: py_split_no_sep)
  ultimately show ?thesis by simp
qed

lemma skin_body_chars:
  assumes "c \<in> {CHR ''['', CHR '']''}"
  shows "c \<notin> set (py_join '','' (dec_str m0 k0 # map (\<lambda>v. '' '' @ v) (map (case_prod dec_str) ds')))"
proof
  assume "c \<in> set (py_join '','' (dec_str m0 k0 # map (\<lambda>v. '' '' @ v) (map (case_prod dec_str) ds')))"
  then have "c \<in> set '','' \<or>
    (\<exists>w \<in> set (dec_str m0 k0 # map (\<lambda>v. '' '' @ v) (map (case_prod dec_str) ds')). c \<in> set w)"
    by (rule py_join_chars)
  moreover have "c \<notin> set '',''" using assms by auto
  ultimately obtain w where "w \<in> set (dec_str m0 k0 # map (\<lambda>v. '' '' @ v) (map (case_prod dec_str) ds'))"
    "c \<in> set w" by blast
  with skin_pieces_chars [of w m0 k0 ds' c] assms show False by blast
qed

text \<open>
  C20. The skin pose parse reads back a bracketed list of decimals written the way
  Python prints a list: \<open>[d1, d2, ...]\<close> gives the values \<open>d1, d2, ...\<close>.
\<close>

theorem skin_pose_parse_roundtrip:
  assumes "ds \<noteq> []"
  shows "skin_pose_parse (Str (skin_str ds)) = Inr (map (case_prod dec_val) ds)"
proof -
  obtain m0 k0 ds' where ds: "ds = (m0, k0) # ds'" using assms by (cases ds) auto
  let ?pieces = "dec_str m0 k0 # map (\<lambda>v. '' '' @ v) (map (case_prod dec_str) ds')"
  let ?body = "py_join '','' ?pieces"
  have cut: "hd (py_split CHR '']'' (last (py_split CHR ''['' (skin_str ds)))) = ?body"
    unfolding skin_str_def ds skin_body
    by (rule split_brackets) (rule skin_body_chars, simp)+
  have "py_split CHR '','' ?body = ?pieces"
    using skin_pieces_chars [of _ m0 k0 ds'] by (intro py_split_join) auto
  moreover have "py_float_list ?pieces = Inr (map (case_prod dec_val) ds)"
    using py_float_list_decs [of ds'] by (simp add: ds py_float_dec_str)
  ultimately show ?thesis using cut by (simp add: skin_pose_parse_def)
qed

theorem skin_pose_parse_roundtrip_witness:
  "skin_pose_parse (Str (skin_str [(1, 0), (-5, 1)])) = Inr [1, - 1 / 2]"
  using skin_pose_parse_roundtrip [of "[(1, 0), (-5, 1)]"] by (simp add: dec_val_def)

subsection \<open>Resetting one control\<close>

lemma reset_user_attr_eff:
  "reset_user_attr c a s =
     (Inr (), if settable s (plug c a) \<and> default_of (defaults s) (plug c a) \<noteq> None
              then s\<lparr>plugs := (plugs s)(plug c a \<mapsto> the (default_of (defaults s) (plug c a)))\<rparr> else s)"
proof (cases "defaults s (plug c a)")
  case None
  then show ?thesis
    by (simp add: reset_user_attr_def attr_defaults_def try_pass_def default_of_def exc_simps)
next
  case (Some ds)
  then show ?thesis
  proof (cases ds)
    case Nil
    with Some show ?thesis
      by (simp add: reset_user_attr_def attr_defaults_def try_pass_def default_of_def py_index_def exc_simps)
  next
    case (Cons d r)
    have "try_pass (setAttr (plug c a) d) s =
          (Inr (), if settable s (plug c a) then s\<lparr>plugs := (plugs s)(plug c a \<mapsto> d)\<rparr> else s)"
      by (rule try_set_eff)
    with Some Cons show ?thesis
      by (simp add: reset_user_attr_def attr_defaults_def try_pass_def default_of_def py_index_def exc_simps
          split: prod.splits sum.splits)
  qed
qed

lemma reset_user_attrs_eff:
  assumes "node_exists s c"
  shows "reset_user_attrs c s = (Inr (), s\<lparr>plugs := user_plugs s c (plugs s)\<rparr>)"
proof -
  have loop: "forE (udattrs s c) (reset_user_attr c) s = (Inr (), s\<lparr>plugs := user_plugs s c (plugs s)\<rparr>)"
    unfolding user_plugs_def
    by (rule forE_guarded [where D = "defaults s"]) (auto simp: reset_user_attr_eff)
  show ?thesis
  proof (cases "udattrs s c = []")
    case True
    with assms show ?thesis by (simp add: reset_user_attrs_def user_plugs_def host_simps exc_simps)
  next
    case False
    with assms loop show ?thesis by (simp add: reset_user_attrs_def host_simps exc_simps)
  qed
qed

lemma reset_channels_eff: "reset_channels c s = (Inr (), s\<lparr>plugs := channel_plugs s c (plugs s)\<rparr>)"
proof -
  have "reset_channels c =
        forE channel_pairs (\<lambda>q. try_pass (setAttr (plug c [fst q, snd q]) (Num (if fst q = CHR ''s'' then 1 else 0))))"
    unfolding reset_channels_def channel_pairs_def by (rule forE_nested)
  moreover have "forE channel_pairs (\<lambda>q. try_pass (setAttr (plug c [fst q, snd q]) (Num (if fst q = CHR ''s'' then 1 else 0)))) s =
        (Inr (), s\<lparr>plugs := channel_plugs s c (plugs s)\<rparr>)"
    unfolding channel_plugs_def
    by (rule forE_guarded [where D = "defaults s"]) (simp_all add: try_set_eff)
  ultimately show ?thesis by simp
qed

lemma channel_plugs_at:
  "channel_plugs sc c P (plug c a) =
     (if settable sc (plug c a) \<and> a \<in> set channels then Some (Num (if hd a = CHR ''s'' then 1 else 0))
      else P (plug c a))"
proof (cases "\<exists>x y. a = [x, y]")
  case True
  then obtain x y where a: "a = [x, y]" by blast
  have inj: "inj (\<lambda>q. plug c [fst q, snd q])" by (rule injI) (simp add: prod_eq_iff)
  have "(x, y) \<in> set channel_pairs \<longleftrightarrow> a \<in> set channels"
    by (auto simp: a channels_def image_iff) (metis fst_conv snd_conv)
  then show ?thesis
    using fold_guarded_at [OF inj, of "\<lambda>q. settable sc (plug c [fst q, snd q]) \<and> True"
        "\<lambda>q. Num (if fst q = CHR ''s'' then 1 else 0)" channel_pairs P "(x, y)"]
    by (simp add: channel_plugs_def a)
next
  case False
  then have "plug c a \<notin> range (\<lambda>q. plug c [fst q, snd q])" by auto
  moreover have "a \<notin> set channels" using False by (auto simp: channels_def)
  ultimately show ?thesis by (simp add: channel_plugs_def fold_guarded_other)
qed

lemma user_plugs_at:
  "user_plugs sc c P (plug c a) =
     (if a \<in> set (udattrs sc c) \<and> settable sc (plug c a) \<and> default_of (defaults sc) (plug c a) \<noteq> None
      then default_of (defaults sc) (plug c a) else P (plug c a))"
proof -
  have inj: "inj (plug c)" by (rule injI) simp
  show ?thesis
    using fold_guarded_at [OF inj, of "\<lambda>a. settable sc (plug c a) \<and> default_of (defaults sc) (plug c a) \<noteq> None"
        "\<lambda>a. the (default_of (defaults sc) (plug c a))" "udattrs sc c" P a]
    by (auto simp: user_plugs_def)
qed

lemma bind_plugs_at: "bind_plugs sc c (plug c a) = bind_value sc c a"
  by (auto simp: bind_plugs_def bind_value_def channel_plugs_at user_plugs_at)

lemma bind_plugs_other: "(\<And>a. p \<noteq> plug c a) \<Longrightarrow> bind_plugs sc c p = plugs sc p"
proof -
  assume p: "\<And>a. p \<noteq> plug c a"
  then have "p \<notin> range (\<lambda>q. plug c [fst q, snd q])" "p \<notin> range (plug c)" by auto
  then show ?thesis by (simp add: bind_plugs_def channel_plugs_def user_plugs_def fold_guarded_other)
qed

lemma bind_plugs_dom: "(bind_plugs sc c p = None) = (plugs sc p = None)"
proof (cases "\<exists>a. p = plug c a")
  case True
  then obtain a where "p = plug c a" by blast
  then show ?thesis by (auto simp: bind_plugs_at bind_value_def settable_def default_of_def)
next
  case False
  then show ?thesis by (simp add: bind_plugs_other)
qed

lemma user_plugs_settable: "settable (sc\<lparr>plugs := user_plugs sc c (plugs sc)\<rparr>) = settable sc"
proof
  fix p
  show "settable (sc\<lparr>plugs := user_plugs sc c (plugs sc)\<rparr>) p = settable sc p"
  proof (cases "\<exists>a. p = plug c a")
    case True
    then obtain a where "p = plug c a" by blast
    then show ?thesis by (auto simp: user_plugs_at settable_def default_of_def)
  next
    case False
    then have "p \<notin> range (plug c)" by auto
    then show ?thesis by (simp add: settable_def user_plugs_def fold_guarded_other)
  qed
qed

lemma bind_one_eff:
  assumes "node_exists sc c" "skin_ok sc c"
  shows "bind_one c sc = (Inr (), sc\<lparr>plugs := bind_plugs sc c, lmat := bind_lmat sc c\<rparr>)"
proof -
  let ?s1 = "sc\<lparr>plugs := user_plugs sc c (plugs sc)\<rparr>"
  let ?s2 = "sc\<lparr>plugs := bind_plugs sc c\<rparr>"
  have r1: "reset_user_attrs c sc = (Inr (), ?s1)" using assms(1) by (rule reset_user_attrs_eff)
  have "channel_plugs ?s1 c = channel_plugs sc c"
    by (simp add: fun_eq_iff channel_plugs_def user_plugs_settable)
  then have r2: "reset_channels c ?s1 = (Inr (), ?s2)"
    by (simp add: reset_channels_eff bind_plugs_def)
  have n2: "node_exists ?s2 c" using assms(1) by (simp add: node_exists_def)
  have r3: "apply_skin_pose c ?s2 = (Inr (), ?s2\<lparr>lmat := bind_lmat sc c\<rparr>)"
  proof (cases "bind_value sc c ''skinPoseData''")
    case None
    with n2 show ?thesis
      by (simp add: apply_skin_pose_def attr_exists_def bind_plugs_at bind_lmat_def exc_simps)
  next
    case (Some v)
    with assms(2) obtain m where m: "skin_pose_parse v = Inr m" "length m = 16"
      by (auto simp: skin_ok_def split: sum.splits)
    have "xform_matrix c m ?s2 = (Inr (), ?s2\<lparr>lmat := (lmat ?s2)(c \<mapsto> m)\<rparr>)"
      using n2 m(2) by (simp add: node_exists_def xform_matrix_ok)
    with Some n2 m show ?thesis
      by (simp add: apply_skin_pose_def attr_exists_def bind_plugs_at bind_lmat_def getAttr_def exc_simps)
  qed
  show ?thesis using r1 r2 r3 by (simp add: bind_one_def exc_simps)
qed

subsection \<open>Resetting every control\<close>

lemma bind_value_other:
  assumes "CHR ''.'' \<notin> set c" "CHR ''.'' \<notin> set c'" "c' \<noteq> c"
  shows "bind_value (sc\<lparr>plugs := bind_plugs sc c, lmat := X\<rparr>) c' a = bind_value sc c' a"
proof -
  have "\<And>b. bind_plugs sc c (plug c' b) = plugs sc (plug c' b)"
    using plug_other_node [OF assms(1,2,3)] by (simp add: bind_plugs_other)
  then show ?thesis by (auto simp: bind_value_def settable_def)
qed

lemma bind_lmat_other:
  assumes "CHR ''.'' \<notin> set c" "CHR ''.'' \<notin> set c'" "c' \<noteq> c"
  shows "bind_lmat (sc\<lparr>plugs := bind_plugs sc c, lmat := bind_lmat sc c\<rparr>) c' c' = bind_lmat sc c' c'"
    and "skin_ok (sc\<lparr>plugs := bind_plugs sc c, lmat := bind_lmat sc c\<rparr>) c' = skin_ok sc c'"
proof -
  have l: "bind_lmat sc c c' = lmat sc c'" using assms(3)
    by (simp add: bind_lmat_def split: option.split sum.split)
  show "bind_lmat (sc\<lparr>plugs := bind_plugs sc c, lmat := bind_lmat sc c\<rparr>) c' c' = bind_lmat sc c' c'"
    using l by (simp add: bind_lmat_def bind_value_other [OF assms] split: option.split sum.split)
  show "skin_ok (sc\<lparr>plugs := bind_plugs sc c, lmat := bind_lmat sc c\<rparr>) c' = skin_ok sc c'"
    by (simp add: skin_ok_def bind_value_other [OF assms])
qed

lemma bind_lmat_exists: "lmat sc n \<noteq> None \<Longrightarrow> bind_lmat sc c n \<noteq> None"
  by (simp add: bind_lmat_def split: option.split sum.split)

lemma forE_bind_one:
  assumes "distinct cs" "\<forall>c \<in> set cs. node_exists sc c \<and> CHR ''.'' \<notin> set c \<and> skin_ok sc c"
  shows "\<exists>Q L. forE cs bind_one sc = (Inr (), sc\<lparr>plugs := Q, lmat := L\<rparr>) \<and>
     (\<forall>c \<in> set cs. (\<forall>a. Q (plug c a) = bind_value sc c a) \<and> L c = bind_lmat sc c c) \<and>
     (\<forall>p. (\<forall>c \<in> set cs. \<forall>a. p \<noteq> plug c a) \<longrightarrow> Q p = plugs sc p) \<and>
     (\<forall>n. n \<notin> set cs \<longrightarrow> L n = lmat sc n)"
  using assms
proof (induction cs arbitrary: sc)
  case Nil
  show ?case by (intro exI [of _ "plugs sc"] exI [of _ "lmat sc"]) (simp add: exc_simps)
next
  case (Cons c cs)
  let ?s1 = "sc\<lparr>plugs := bind_plugs sc c, lmat := bind_lmat sc c\<rparr>"
  have c: "node_exists sc c" "CHR ''.'' \<notin> set c" "skin_ok sc c" "c \<notin> set cs"
    using Cons.prems by auto
  have step: "bind_one c sc = (Inr (), ?s1)" using c(1,3) by (rule bind_one_eff)
  have "\<forall>c' \<in> set cs. node_exists ?s1 c' \<and> CHR ''.'' \<notin> set c' \<and> skin_ok ?s1 c'"
    using Cons.prems c bind_lmat_other(2) bind_lmat_exists
    by (auto simp: node_exists_def) (metis bind_lmat_other(2))
  then obtain Q L where run: "forE cs bind_one ?s1 = (Inr (), ?s1\<lparr>plugs := Q, lmat := L\<rparr>)"
    and dn: "\<forall>c' \<in> set cs. (\<forall>a. Q (plug c' a) = bind_value ?s1 c' a) \<and> L c' = bind_lmat ?s1 c' c'"
    and fq: "\<forall>p. (\<forall>c' \<in> set cs. \<forall>a. p \<noteq> plug c' a) \<longrightarrow> Q p = plugs ?s1 p"
    and fl: "\<forall>n. n \<notin> set cs \<longrightarrow> L n = lmat ?s1 n"
    using Cons.IH [of ?s1] Cons.prems(1) by auto
  have dl: "\<And>c'. c' \<in> set cs \<Longrightarrow> CHR ''.'' \<notin> set c' \<and> c' \<noteq> c" using Cons.prems c(4) by auto
  have "forE (c # cs) bind_one sc = (Inr (), sc\<lparr>plugs := Q, lmat := L\<rparr>)"
    using run forE_Cons_Inr [of bind_one c sc "()" ?s1 cs, OF step] by simp
  moreover have "\<forall>c' \<in> set (c # cs). (\<forall>a. Q (plug c' a) = bind_value sc c' a) \<and> L c' = bind_lmat sc c' c'"
  proof
    fix c' assume "c' \<in> set (c # cs)"
    then consider "c' = c" | "c' \<in> set cs" by auto
    then show "(\<forall>a. Q (plug c' a) = bind_value sc c' a) \<and> L c' = bind_lmat sc c' c'"
    proof cases
      case 1
      have "\<And>a. Q (plug c a) = plugs ?s1 (plug c a)"
        using fq dl plug_other_node [OF c(2)] by metis
      then show ?thesis using 1 fl c(4) by (simp add: bind_plugs_at)
    next
      case 2
      with dn dl bind_value_other [OF c(2)] bind_lmat_other(1) [OF c(2)] show ?thesis by metis
    qed
  qed
  moreover have "\<forall>p. (\<forall>c' \<in> set (c # cs). \<forall>a. p \<noteq> plug c' a) \<longrightarrow> Q p = plugs sc p"
    using fq by (simp add: bind_plugs_other)
  moreover have "\<forall>n. n \<notin> set (c # cs) \<longrightarrow> L n = lmat sc n"
    using fl by (simp add: bind_lmat_def split: option.split sum.split)
  ultimately show ?case by blast
qed

lemma undo_free_bind_one [undo_free_intros]: "undo_free (bind_one c)"
  unfolding bind_one_def reset_user_attrs_def reset_user_attr_def reset_channels_def apply_skin_pose_def
  by (intro undo_free_intros)

lemma bind_pose_cls_run:
  "relatives sc (ns @ ''modules_c_grp'') = Some (Some xs) \<Longrightarrow>
   bind_pose_cls ns sc = forE (filter is_ctr xs) bind_one sc"
  by (simp add: bind_pose_cls_def undo_chunk_transparent undo_free_intros ctr_descendants_ok exc_simps)

lemma demo_bind_ready:
  "distinct (filter is_ctr [''rig:arm_l_jnt'', ''rig:arm_l_ctr'']) \<and>
   list_all (\<lambda>c. node_exists demo_bind_scene c \<and> CHR ''.'' \<notin> set c \<and> skin_ok demo_bind_scene c)
     (filter is_ctr [''rig:arm_l_jnt'', ''rig:arm_l_ctr''])"
  by (simp add: is_ctr_def py_endswith_def node_exists_def demo_bind_scene_def skin_ok_def
      bind_value_def settable_def channels_def channel_pairs_def default_of_def skin_pose_parse_def
      py_float_def py_strip_def py_float_body_def parse_sign_def parse_exponent_def is_digit_def
      py_isspace_def digit_val_def dec_scale_def plug_def)

lemma bind_one_bad_skin:
  assumes "node_exists sc c" "bind_value sc c ''skinPoseData'' = Some v" "skin_pose_parse v = Inl e"
  shows "bind_one c sc = (Inl e, sc\<lparr>plugs := bind_plugs sc c\<rparr>)"
proof -
  let ?s1 = "sc\<lparr>plugs := user_plugs sc c (plugs sc)\<rparr>"
  let ?s2 = "sc\<lparr>plugs := bind_plugs sc c\<rparr>"
  have r1: "reset_user_attrs c sc = (Inr (), ?s1)" using assms(1) by (rule reset_user_attrs_eff)
  have "channel_plugs ?s1 c = channel_plugs sc c"
    by (simp add: fun_eq_iff channel_plugs_def user_plugs_settable)
  then have r2: "reset_channels c ?s1 = (Inr (), ?s2)"
    by (simp add: reset_channels_eff bind_plugs_def)
  have n2: "node_exists ?s2 c" using assms(1) by (simp add: node_exists_def)
  have r3: "apply_skin_pose c ?s2 = (Inl e, ?s2)"
    using assms(2,3) n2
    by (simp add: apply_skin_pose_def attr_exists_def bind_plugs_at getAttr_def exc_simps)
  show ?thesis using r1 r2 r3 by (simp add: bind_one_def exc_simps)
qed

text \<open>
  C17. The bind pose reset returns normally on a rig whose controls exist and whose skin
  pose attributes, where present, read as 16 numbers. Afterwards every user-defined
  attribute of every reset control holds \<open>bind_value\<close>: the first entry of its declared
  defaults where it has one and is not locked, its old value otherwise. A control without
  a skin pose has its translate and rotate channels at 0 and its scale channels at 1
  where they exist and are not locked. A control with a skin pose ends with that pose as
  its object-space matrix: \<open>xform(matrix=...)\<close> is its last write, and it rewrites the
  channels, so their values are stated only for controls without one. No plug of another
  node changes.
\<close>

theorem bind_pose_cls_resets:
  assumes "relatives sc (ns @ ''modules_c_grp'') = Some (Some xs)"
    and "distinct (filter is_ctr xs)"
    and "\<forall>c \<in> set (filter is_ctr xs). node_exists sc c \<and> CHR ''.'' \<notin> set c \<and> skin_ok sc c"
  shows "fst (bind_pose_cls ns sc) = Inr () \<and>
    (\<forall>c \<in> set (filter is_ctr xs).
       (\<forall>a. a \<notin> set channels \<longrightarrow> plugs (snd (bind_pose_cls ns sc)) (plug c a) = bind_value sc c a) \<and>
       (bind_value sc c ''skinPoseData'' = None \<longrightarrow>
          (\<forall>a \<in> set channels. plugs (snd (bind_pose_cls ns sc)) (plug c a) = bind_value sc c a)) \<and>
       (\<forall>v m. bind_value sc c ''skinPoseData'' = Some v \<longrightarrow> skin_pose_parse v = Inr m \<longrightarrow>
          lmat (snd (bind_pose_cls ns sc)) c = Some m)) \<and>
    (\<forall>p. (\<forall>c \<in> set (filter is_ctr xs). \<forall>a. p \<noteq> plug c a) \<longrightarrow>
       plugs (snd (bind_pose_cls ns sc)) p = plugs sc p)"
  using forE_bind_one [OF assms(2,3)] bind_pose_cls_run [OF assms(1)]
  by (auto simp: bind_lmat_def)

theorem bind_pose_cls_resets_witness:
  "fst (bind_pose_cls ''rig:'' demo_bind_scene) = Inr () \<and>
   plugs (snd (bind_pose_cls ''rig:'' demo_bind_scene)) (plug ''rig:arm_l_ctr'' ''bend'') = Some (Num 0) \<and>
   lmat (snd (bind_pose_cls ''rig:'' demo_bind_scene)) ''rig:arm_l_ctr'' =
     Some [1,0,0,0,0,1,0,0,0,0,1,0,0,0,0,1]"
proof -
  have "bind_value demo_bind_scene ''rig:arm_l_ctr'' ''bend'' = Some (Num 0)"
    "bind_value demo_bind_scene ''rig:arm_l_ctr'' ''skinPoseData'' = Some (Str ''[1,0,0,0,0,1,0,0,0,0,1,0,0,0,0,1]'')"
    "skin_pose_parse (Str ''[1,0,0,0,0,1,0,0,0,0,1,0,0,0,0,1]'') = Inr [1,0,0,0,0,1,0,0,0,0,1,0,0,0,0,1]"
    "''bend'' \<notin> set channels"
    by (simp_all add: demo_bind_scene_def bind_value_def settable_def channels_def
        channel_pairs_def default_of_def skin_pose_parse_def py_float_def py_strip_def py_float_body_def
        parse_sign_def parse_exponent_def is_digit_def py_isspace_def digit_val_def dec_scale_def plug_def)
  then show ?thesis
    using bind_pose_cls_resets [of demo_bind_scene "''rig:''" "[''rig:arm_l_jnt'', ''rig:arm_l_ctr'']"]
      demo_bind_ready
    by (simp add: demo_bind_scene_def is_ctr_def py_endswith_def list_all_iff)
qed

text \<open>
  C18. A skin pose string that does not parse stops the reset: \<open>float\<close> raises ValueError
  outside any \<open>try\<close>, after the control's user attributes and channels have been reset and
  before its matrix is written; the controls after it are not reset, and the undo chunk
  is still closed by \<open>finally\<close>, so the scene is the old one with only that control's
  plugs reset.
\<close>

theorem bind_pose_cls_bad_skin_pose:
  assumes "relatives sc (ns @ ''modules_c_grp'') = Some (Some xs)" "filter is_ctr xs = c # rest"
    and "node_exists sc c" "bind_value sc c ''skinPoseData'' = Some v" "skin_pose_parse v = Inl e"
  shows "bind_pose_cls ns sc = (Inl e, sc\<lparr>plugs := bind_plugs sc c\<rparr>)"
  using bind_pose_cls_run [OF assms(1)] bind_one_bad_skin [OF assms(3-5)] assms(2) by simp

theorem bind_pose_cls_bad_skin_pose_witness:
  "bind_pose_cls ''rig:''
     (demo_bind_scene\<lparr>plugs := (plugs demo_bind_scene)(plug ''rig:arm_l_ctr'' ''skinPoseData'' \<mapsto> Str ''[1,x]'')\<rparr>) =
   (Inl (ValueError ''could not convert string to float: x''),
    demo_bind_scene\<lparr>plugs := (plugs demo_bind_scene)(plug ''rig:arm_l_ctr'' ''skinPoseData'' \<mapsto> Str ''[1,x]'',
                       plug ''rig:arm_l_ctr'' ''tx'' \<mapsto> Num 0, plug ''rig:arm_l_ctr'' ''sx'' \<mapsto> Num 1,
                       plug ''rig:arm_l_ctr'' ''bend'' \<mapsto> Num 0)\<rparr>)"
proof -
  let ?sc = "demo_bind_scene\<lparr>plugs := (plugs demo_bind_scene)(plug ''rig:arm_l_ctr'' ''skinPoseData'' \<mapsto> Str ''[1,x]'')\<rparr>"
  have h: "relatives ?sc (''rig:'' @ ''modules_c_grp'') = Some (Some [''rig:arm_l_jnt'', ''rig:arm_l_ctr''])"
    "filter is_ctr [''rig:arm_l_jnt'', ''rig:arm_l_ctr''] = [''rig:arm_l_ctr'']"
    "node_exists ?sc ''rig:arm_l_ctr''"
    "bind_value ?sc ''rig:arm_l_ctr'' ''skinPoseData'' = Some (Str ''[1,x]'')"
    "skin_pose_parse (Str ''[1,x]'') = Inl (ValueError ''could not convert string to float: x'')"
    by (simp_all add: demo_bind_scene_def is_ctr_def py_endswith_def node_exists_def bind_value_def
        settable_def channels_def channel_pairs_def default_of_def skin_pose_parse_def py_float_def
        py_strip_def py_float_body_def parse_sign_def parse_exponent_def is_digit_def py_isspace_def
        digit_val_def dec_scale_def plug_def)
  have "bind_plugs ?sc ''rig:arm_l_ctr'' =
          (plugs ?sc)(plug ''rig:arm_l_ctr'' ''tx'' \<mapsto> Num 0, plug ''rig:arm_l_ctr'' ''sx'' \<mapsto> Num 1,
                      plug ''rig:arm_l_ctr'' ''bend'' \<mapsto> Num 0)"
    by (simp add: fun_eq_iff bind_plugs_def channel_plugs_def user_plugs_def channel_pairs_def
        demo_bind_scene_def settable_def default_of_def plug_def)
  then show ?thesis
    using bind_pose_cls_bad_skin_pose [OF h] by (simp add: demo_bind_scene_def)
qed

text \<open>
  C19. The free-function bind pose looks the group up as \<open>namespace + 'modules_grp'\<close>,
  so with a namespace on a rig whose group is \<open>modules_c_grp\<close> it raises ValueError and
  resets nothing; without a line edit it resets nothing either.
\<close>

theorem bind_pose_model_wrong_group:
  "namespace \<noteq> [] \<Longrightarrow> relatives sc (namespace @ ''modules_grp'') = None \<Longrightarrow>
   bind_pose_model (Some namespace) sc = (Inl (no_match (namespace @ ''modules_grp'')), sc) \<and>
   bind_pose_model None sc = (Inr (), sc)"
  by (simp add: bind_pose_model_def ctr_descendants_def listRelatives_ad_def exc_simps)

theorem bind_pose_model_wrong_group_witness:
  "bind_pose_model (Some ''rig:'') demo_bind_scene = (Inl (no_match ''rig:modules_grp''), demo_bind_scene) \<and>
   bind_pose_model None demo_bind_scene = (Inr (), demo_bind_scene)"
  using bind_pose_model_wrong_group [of "''rig:''" demo_bind_scene] by (simp add: demo_bind_scene_def)

text \<open>
  Without a namespace the class variant of the bind pose, undo chunk included, is the
  free-function variant.
\<close>

theorem bind_pose_cls_model: "bind_pose_cls [] = bind_pose_model (Some [])"
  by (simp add: fun_eq_iff bind_pose_cls_def bind_pose_model_def undo_chunk_transparent undo_free_intros)

end
