(* ===== verification/Drag.thy ===== *)
theory Drag
  imports Select "HOL-Library.Multiset"
begin

text \<open>
  Drag-marquee selection (\<open>Picker.mousePressEvent\<close>, \<open>keyReleaseEvent\<close>,
  \<open>mouseMoveEvent\<close>, \<open>mouseReleaseEvent\<close> in \<open>picker.py\<close>, the same four handlers in
  \<open>picker_controller.py\<close>).
  \<^item> Geometry is Qt 5's: a \<open>qrect\<close> holds the corners \<open>x1, y1, x2, y2\<close> as
    \<open>QRect\<close> stores them, \<open>QRect(QPoint, QSize)\<close> is \<open>rect_ps\<close>, \<open>QRect(QPoint,
    QPoint)\<close> is \<open>rect_pp\<close>, and \<open>normalized\<close>, \<open>intersects\<close> and
    \<open>move_top_left\<close> follow \<open>qrect.cpp\<close>. \<open>widget_geometry\<close> is the geometry a
    widget takes from \<open>setGeometry\<close>: a negative width or height becomes 0.
    Coordinates are Python/Qt ints, kept as \<open>int\<close>: no drag reaches 2^31.
  \<^item> The window's own state is the record \<open>drag\<close>: the five attributes the handlers
    keep (\<open>origin\<close>, \<open>drag_selection\<close>, \<open>source_geo\<close>, \<open>alt_point\<close>,
    \<open>delta\<close>), the rubber band's geometry and visibility, and which tracked buttons carry
    the highlight style. The widgets the handlers read (\<open>widget_styles_dict\<close>, their
    screen rectangles, their parents and names, the current tab) are the record \<open>ui\<close>.
  \<^item> Every handler is a function of the event's data; a Python exception (\<open>None + QPoint\<close>,
    \<open>QRect(None, p)\<close>, \<open>None.objectName()\<close>) is an \<open>Inl\<close> value. The parent walk of the
    release handler is a \<open>while\<close> loop over \<open>parentWidget()\<close>: \<open>find_tab\<close> is a
    \<open>partial_function (option)\<close>, \<open>None\<close> when the walk would not end.
  \<^item> \<open>drag_event_cls\<close> and \<open>drag_event_ctl\<close> deliver one event to the handler of each
    window, the scene included; \<open>drag_run_cls\<close> delivers a sequence. \<open>drag_step\<close> is the
    step relation of the machine without the scene and \<open>drag_reachable\<close> its reachable
    states from the state \<open>__init__\<close> leaves; every run stays in them.
\<close>

type_synonym qpoint = "int \<times> int"

record qrect =
  rx1 :: int
  ry1 :: int
  rx2 :: int
  ry2 :: int

definition padd :: "qpoint \<Rightarrow> qpoint \<Rightarrow> qpoint" where
  "padd p q = (fst p + fst q, snd p + snd q)"

definition psub :: "qpoint \<Rightarrow> qpoint \<Rightarrow> qpoint" where
  "psub p q = (fst p - fst q, snd p - snd q)"

text \<open>\<open>QRect(QPoint topLeft, QSize size)\<close>; \<open>QSize()\<close> is the invalid size \<open>(-1, -1)\<close>.\<close>

definition rect_ps :: "qpoint \<Rightarrow> int \<times> int \<Rightarrow> qrect" where
  "rect_ps p sz = \<lparr>rx1 = fst p, ry1 = snd p, rx2 = fst p + fst sz - 1, ry2 = snd p + snd sz - 1\<rparr>"

definition qsize_invalid :: "int \<times> int" where
  "qsize_invalid = (-1, -1)"

definition rect_pp :: "qpoint \<Rightarrow> qpoint \<Rightarrow> qrect" where
  "rect_pp p q = \<lparr>rx1 = fst p, ry1 = snd p, rx2 = fst q, ry2 = snd q\<rparr>"

definition rect_width :: "qrect \<Rightarrow> int" where
  "rect_width r = rx2 r - rx1 r + 1"

definition rect_height :: "qrect \<Rightarrow> int" where
  "rect_height r = ry2 r - ry1 r + 1"

definition top_left :: "qrect \<Rightarrow> qpoint" where
  "top_left r = (rx1 r, ry1 r)"

definition normalized :: "qrect \<Rightarrow> qrect" where
  "normalized r =
     \<lparr>rx1 = (if rx2 r < rx1 r - 1 then rx2 r else rx1 r),
      ry1 = (if ry2 r < ry1 r - 1 then ry2 r else ry1 r),
      rx2 = (if rx2 r < rx1 r - 1 then rx1 r else rx2 r),
      ry2 = (if ry2 r < ry1 r - 1 then ry1 r else ry2 r)\<rparr>"

definition rect_is_null :: "qrect \<Rightarrow> bool" where
  "rect_is_null r \<longleftrightarrow> rx2 r = rx1 r - 1 \<and> ry2 r = ry1 r - 1"

text \<open>\<open>QRect::intersects\<close>: each rectangle's extent along an axis, its corners swapped when its size is negative.\<close>

definition span_lo :: "int \<Rightarrow> int \<Rightarrow> int" where
  "span_lo a b = (if b - a + 1 < 0 then b else a)"

definition span_hi :: "int \<Rightarrow> int \<Rightarrow> int" where
  "span_hi a b = (if b - a + 1 < 0 then a else b)"

definition intersects :: "qrect \<Rightarrow> qrect \<Rightarrow> bool" where
  "intersects r s \<longleftrightarrow>
     \<not> rect_is_null r \<and> \<not> rect_is_null s \<and>
     \<not> (span_lo (rx1 r) (rx2 r) > span_hi (rx1 s) (rx2 s) \<or> span_lo (rx1 s) (rx2 s) > span_hi (rx1 r) (rx2 r)) \<and>
     \<not> (span_lo (ry1 r) (ry2 r) > span_hi (ry1 s) (ry2 s) \<or> span_lo (ry1 s) (ry2 s) > span_hi (ry1 r) (ry2 r))"

definition move_top_left :: "qrect \<Rightarrow> qpoint \<Rightarrow> qrect" where
  "move_top_left r p =
     \<lparr>rx1 = fst p, ry1 = snd p, rx2 = rx2 r + (fst p - rx1 r), ry2 = ry2 r + (snd p - ry1 r)\<rparr>"

definition widget_geometry :: "qrect \<Rightarrow> qrect" where
  "widget_geometry r = rect_ps (top_left r) (max 0 (rect_width r), max 0 (rect_height r))"

text \<open>
  \<open>QRect(self.rubber_band.mapToGlobal(self.rubber_band.rect().topLeft()),
  self.rubber_band.rect().size())\<close>: the band's geometry moved by the window's screen position.
\<close>

definition global_rect :: "qpoint \<Rightarrow> qrect \<Rightarrow> qrect" where
  "global_rect wpos r = rect_ps (padd wpos (top_left r)) (rect_width r, rect_height r)"

record ui =
  win_pos :: qpoint
  widgets :: "nat list"
  wname :: "nat \<Rightarrow> string"
  wrect :: "nat \<Rightarrow> qrect"
  wparent :: "nat \<Rightarrow> nat option"
  tab_index :: int

record drag =
  origin :: "qpoint option"
  drag_selection :: "qrect option"
  source_geo :: "qrect option"
  alt_point :: "qpoint option"
  delta :: "qpoint option"
  band :: qrect
  band_visible :: bool
  highlighted :: "nat \<Rightarrow> bool"

text \<open>The attributes \<open>__init__\<close> sets to \<open>None\<close>, a hidden band and every button in its own style.\<close>

definition drag_init :: drag where
  "drag_init =
     \<lparr>origin = None, drag_selection = None, source_geo = None, alt_point = None, delta = None,
      band = rect_ps (0, 0) (0, 0), band_visible = False, highlighted = (\<lambda>_. False)\<rparr>"

definition mouse_press :: "bool \<Rightarrow> qpoint \<Rightarrow> drag \<Rightarrow> drag" where
  "mouse_press left p d =
     (if left then
        d\<lparr>origin := Some p, drag_selection := Some (rect_ps p qsize_invalid),
          band := widget_geometry (rect_ps p qsize_invalid), band_visible := True\<rparr>
      else d)"

definition key_release :: "bool \<Rightarrow> drag \<Rightarrow> py_error + drag" where
  "key_release key_alt d =
     (if key_alt \<and> delta d \<noteq> None then
        (case origin d of
           None \<Rightarrow> Inl (TypeError ''unsupported operand type(s) for +=: NoneType and QPoint'')
         | Some org \<Rightarrow>
             Inr (d\<lparr>origin := Some (padd org (the (delta d))), source_geo := None, alt_point := None,
                    delta := None\<rparr>))
      else Inr d)"

text \<open>The highlight loop of \<open>mouseMoveEvent\<close>: each tracked button is highlighted exactly when it meets the band.\<close>

definition restyle :: "ui \<Rightarrow> drag \<Rightarrow> drag" where
  "restyle u d =
     d\<lparr>highlighted :=
         fold (\<lambda>w h. h(w := intersects (global_rect (win_pos u) (band d)) (wrect u w))) (widgets u)
           (highlighted d)\<rparr>"

definition mouse_move :: "ui \<Rightarrow> bool \<Rightarrow> qpoint \<Rightarrow> drag \<Rightarrow> py_error + drag" where
  "mouse_move u alt_mod p d =
     (if alt_mod then
        (let d1 = (if alt_point d = None then d\<lparr>source_geo := Some (band d), alt_point := Some p\<rparr> else d)
         in case (alt_point d1, source_geo d1) of
              (Some a, Some sg) \<Rightarrow>
                Inr (restyle u (d1\<lparr>delta := Some (psub p a),
                                    band := widget_geometry (move_top_left sg (padd (top_left sg) (psub p a)))\<rparr>))
            | _ \<Rightarrow> Inl (TypeError ''QRect(None)''))
      else
        (case origin d of
           None \<Rightarrow> Inl (TypeError ''QRect(None, QPoint)'')
         | Some org \<Rightarrow>
             Inr (restyle u (d\<lparr>drag_selection := Some (normalized (rect_pp org p)),
                                band := widget_geometry (normalized (rect_pp org p))\<rparr>))))"

text \<open>
  \<open>while parent_tab.objectName() != 'body_tab' and parent_tab.objectName() != 'face_tab':
  parent_tab = parent_tab.parentWidget()\<close>: the first ancestor (the widget itself
  included) named after a tab; a widget without such an ancestor ends at \<open>None\<close> and
  raises AttributeError; a cycle of parents would loop.
\<close>

partial_function (option) find_tab :: "ui \<Rightarrow> nat option \<Rightarrow> (py_error + nat) option" where
  "find_tab u w =
     (case w of
        None \<Rightarrow> Some (Inl (AttributeError ''NoneType object has no attribute objectName''))
      | Some x \<Rightarrow>
          if wname u x \<noteq> ''body_tab'' \<and> wname u x \<noteq> ''face_tab'' then find_tab u (wparent u x)
          else Some (Inr x))"

declare find_tab.simps [code]

text \<open>The body of the release loop for one tracked button that meets the band: the names it appends.\<close>

definition tab_names :: "ui \<Rightarrow> nat \<Rightarrow> nat \<Rightarrow> string list" where
  "tab_names u t w =
     (if wname u t = ''body_tab'' \<and> tab_index u = 0 then [wname u w] else []) @
     (if wname u t = ''face_tab'' \<and> tab_index u = 1 then [wname u w] else [])"

fun collect_controls ::
  "ui \<Rightarrow> qrect \<Rightarrow> nat list \<Rightarrow> (nat \<Rightarrow> bool) \<Rightarrow> ((py_error + string list) \<times> (nat \<Rightarrow> bool)) option" where
  "collect_controls u r [] h = Some (Inr [], h)"
| "collect_controls u r (w # ws) h =
     (if intersects r (wrect u w) then
        (case find_tab u (Some w) of
           None \<Rightarrow> None
         | Some (Inl e) \<Rightarrow> Some (Inl e, h)
         | Some (Inr t) \<Rightarrow>
             (case collect_controls u r ws (h(w := False)) of
                None \<Rightarrow> None
              | Some (Inl e, h') \<Rightarrow> Some (Inl e, h')
              | Some (Inr names, h') \<Rightarrow> Some (Inr (tab_names u t w @ names), h')))
      else collect_controls u r ws h)"

text \<open>
  \<open>mouseReleaseEvent\<close> up to the selection call: the band is hidden and the names to
  select are collected; \<open>Inr None\<close> is a release of another button, which does nothing.
\<close>

definition mouse_release :: "ui \<Rightarrow> bool \<Rightarrow> drag \<Rightarrow> ((py_error + string list option) \<times> drag) option" where
  "mouse_release u left d =
     (if left then
        (case collect_controls u (global_rect (win_pos u) (band d)) (widgets u) (highlighted d) of
           None \<Rightarrow> None
         | Some (Inl e, h) \<Rightarrow> Some (Inl e, d\<lparr>band_visible := False, highlighted := h\<rparr>)
         | Some (Inr names, h) \<Rightarrow> Some (Inr (Some names), d\<lparr>band_visible := False, highlighted := h\<rparr>))
      else Some (Inr None, d))"

text \<open>The release handler of each window with its selection call on the scene.\<close>

definition mouse_release_cls ::
  "ui \<Rightarrow> string \<Rightarrow> bool \<Rightarrow> drag \<Rightarrow> scene \<Rightarrow> ((py_error + unit) \<times> drag \<times> scene) option" where
  "mouse_release_cls u namespace left d sc =
     (case mouse_release u left d of
        None \<Rightarrow> None
      | Some (Inl e, d') \<Rightarrow> Some (Inl e, d', sc)
      | Some (Inr None, d') \<Rightarrow> Some (Inr (), d', sc)
      | Some (Inr (Some names), d') \<Rightarrow>
          (case select_control_list_cls namespace names sc of (r, sc') \<Rightarrow> Some (r, d', sc')))"

definition mouse_release_ctl ::
  "ui \<Rightarrow> string option \<Rightarrow> bool \<Rightarrow> drag \<Rightarrow> scene \<Rightarrow> ((py_error + unit) \<times> drag \<times> scene) option" where
  "mouse_release_ctl u namespace_le left d sc =
     (case mouse_release u left d of
        None \<Rightarrow> None
      | Some (Inl e, d') \<Rightarrow> Some (Inl e, d', sc)
      | Some (Inr None, d') \<Rightarrow> Some (Inr (), d', sc)
      | Some (Inr (Some names), d') \<Rightarrow>
          (case select_control_list_model names namespace_le sc of (r, sc') \<Rightarrow> Some (r, d', sc')))"

datatype event =
    Press bool qpoint
  | Move bool qpoint
  | KeyRelease bool
  | Release bool

text \<open>
  Qt's delivery of one event to the window's handler. An exception a handler raises is
  printed by the host and the window goes on with the state the handler left: a press never
  raises, a move and a key release raise before any assignment, a release after hiding the
  band and restoring the styles it reached.
\<close>

definition drag_event_cls :: "ui \<Rightarrow> string \<Rightarrow> event \<Rightarrow> drag \<Rightarrow> scene \<Rightarrow> ((py_error + unit) \<times> drag \<times> scene) option" where
  "drag_event_cls u namespace e d sc =
     (case e of
        Press left p \<Rightarrow> Some (Inr (), mouse_press left p d, sc)
      | Move alt_mod p \<Rightarrow>
          (case mouse_move u alt_mod p d of Inl err \<Rightarrow> Some (Inl err, d, sc) | Inr d' \<Rightarrow> Some (Inr (), d', sc))
      | KeyRelease k \<Rightarrow>
          (case key_release k d of Inl err \<Rightarrow> Some (Inl err, d, sc) | Inr d' \<Rightarrow> Some (Inr (), d', sc))
      | Release left \<Rightarrow> mouse_release_cls u namespace left d sc)"

definition drag_event_ctl ::
  "ui \<Rightarrow> string option \<Rightarrow> event \<Rightarrow> drag \<Rightarrow> scene \<Rightarrow> ((py_error + unit) \<times> drag \<times> scene) option" where
  "drag_event_ctl u namespace_le e d sc =
     (case e of
        Press left p \<Rightarrow> Some (Inr (), mouse_press left p d, sc)
      | Move alt_mod p \<Rightarrow>
          (case mouse_move u alt_mod p d of Inl err \<Rightarrow> Some (Inl err, d, sc) | Inr d' \<Rightarrow> Some (Inr (), d', sc))
      | KeyRelease k \<Rightarrow>
          (case key_release k d of Inl err \<Rightarrow> Some (Inl err, d, sc) | Inr d' \<Rightarrow> Some (Inr (), d', sc))
      | Release left \<Rightarrow> mouse_release_ctl u namespace_le left d sc)"

text \<open>A sequence of events delivered to the \<open>picker.py\<close> window; \<open>None\<close> if a release never returns.\<close>

fun drag_run_cls :: "ui \<Rightarrow> string \<Rightarrow> event list \<Rightarrow> drag \<times> scene \<Rightarrow> (drag \<times> scene) option" where
  "drag_run_cls u namespace [] st = Some st"
| "drag_run_cls u namespace (e # es) st =
     (case drag_event_cls u namespace e (fst st) (snd st) of
        None \<Rightarrow> None
      | Some (r, d', sc') \<Rightarrow> drag_run_cls u namespace es (d', sc'))"

text \<open>
  The window's state machine, the scene left out: one event handled, a move or key release
  only when it returns (otherwise the state is unchanged), a release whatever it returns.
\<close>

inductive drag_step :: "ui \<Rightarrow> drag \<Rightarrow> event \<Rightarrow> drag \<Rightarrow> bool" where
  press: "drag_step u d (Press left p) (mouse_press left p d)"
| move: "mouse_move u alt_mod p d = Inr d' \<Longrightarrow> drag_step u d (Move alt_mod p) d'"
| key: "key_release k d = Inr d' \<Longrightarrow> drag_step u d (KeyRelease k) d'"
| release: "mouse_release u left d = Some (r, d') \<Longrightarrow> drag_step u d (Release left) d'"

inductive drag_reachable :: "ui \<Rightarrow> drag \<Rightarrow> bool" where
  init: "drag_reachable u drag_init"
| step: "drag_reachable u d \<Longrightarrow> drag_step u d e d' \<Longrightarrow> drag_reachable u d'"

text \<open>
  The contract of the release handler (spec, section 8): a tracked button is selected when its
  rectangle meets the band and its nearest tab ancestor, itself included, is the current tab.
  \<open>tab_anc u w t\<close>: \<open>t\<close> is that ancestor.
\<close>

definition is_tab :: "ui \<Rightarrow> nat \<Rightarrow> bool" where
  "is_tab u x \<longleftrightarrow> wname u x = ''body_tab'' \<or> wname u x = ''face_tab''"

inductive tab_anc :: "ui \<Rightarrow> nat \<Rightarrow> nat \<Rightarrow> bool" where
  here: "is_tab u x \<Longrightarrow> tab_anc u x x"
| up: "\<not> is_tab u x \<Longrightarrow> wparent u x = Some y \<Longrightarrow> tab_anc u y t \<Longrightarrow> tab_anc u x t"

code_pred tab_anc .

definition current_tab :: "ui \<Rightarrow> nat \<Rightarrow> bool" where
  "current_tab u t \<longleftrightarrow>
     (wname u t = ''body_tab'' \<and> tab_index u = 0) \<or> (wname u t = ''face_tab'' \<and> tab_index u = 1)"

definition in_region :: "ui \<Rightarrow> nat \<Rightarrow> bool" where
  "in_region u w \<longleftrightarrow> (\<exists>t. tab_anc u w t \<and> current_tab u t)"

definition marquee_spec :: "ui \<Rightarrow> qrect \<Rightarrow> string multiset" where
  "marquee_spec u r =
     image_mset (wname u) (filter_mset (\<lambda>w. intersects r (wrect u w) \<and> in_region u w) (mset (widgets u)))"

text \<open>
  A window at screen position (100, 100) with four tracked buttons: \<open>arm_l_ctr\<close> and
  \<open>spine_ctr\<close> on the body tab (the second inside a frame), \<open>brow_l_ctr\<close> on the
  face tab, and \<open>tail_ctr\<close> outside both tabs; the body tab is current.
\<close>

definition demo_ui :: ui where
  "demo_ui =
     \<lparr>win_pos = (100, 100), widgets = [1, 2, 3, 4],
      wname = (\<lambda>n. if n = 1 then ''arm_l_ctr'' else if n = 2 then ''brow_l_ctr''
                     else if n = 3 then ''spine_ctr'' else if n = 4 then ''tail_ctr''
                     else if n = 10 then ''body_tab'' else if n = 11 then ''face_tab''
                     else if n = 12 then ''spine_frame'' else ''''),
      wrect = (\<lambda>n. if n = 1 then rect_ps (110, 110) (10, 10) else if n = 2 then rect_ps (300, 300) (10, 10)
                   else if n = 3 then rect_ps (120, 140) (10, 10) else rect_ps (500, 500) (10, 10)),
      wparent = (\<lambda>n. if n = 1 then Some 10 else if n = 2 then Some 11 else if n = 3 then Some 12
                     else if n = 12 then Some 10 else if n = 10 then Some 13 else if n = 11 then Some 13
                     else None),
      tab_index = 0\<rparr>"

text \<open>A rank of the demo window's widgets that every parent lowers: the tree has depth 3.\<close>

definition demo_rank :: "nat \<Rightarrow> nat" where
  "demo_rank n = (if n = 13 then 0 else if n = 10 \<or> n = 11 then 1 else if n = 12 then 2 else 3)"

text \<open>The attributes the Alt panning relies on: a pan origin is recorded with the band geometry it pans, and a pan offset only after both.\<close>

definition drag_inv :: "drag \<Rightarrow> bool" where
  "drag_inv d \<longleftrightarrow> (alt_point d = None \<longleftrightarrow> source_geo d = None) \<and> (delta d = None \<or> alt_point d \<noteq> None)"

definition demo_drag_scene :: scene where
  "demo_drag_scene =
     demo_select_scene\<lparr>lmat := [''rig:arm_l_ctr'' \<mapsto> replicate 16 0, ''rig:spine_ctr'' \<mapsto> replicate 16 0],
                       mods := 0\<rparr>"

lemma restyle_fields [simp]:
  "origin (restyle u d) = origin d" "drag_selection (restyle u d) = drag_selection d"
  "source_geo (restyle u d) = source_geo d" "alt_point (restyle u d) = alt_point d"
  "delta (restyle u d) = delta d" "band (restyle u d) = band d"
  "band_visible (restyle u d) = band_visible d"
  by (simp_all add: restyle_def)

lemma mouse_move_alt:
  "alt_point d = Some a \<Longrightarrow> source_geo d = Some sg \<Longrightarrow>
   mouse_move u True p d =
     Inr (restyle u (d\<lparr>delta := Some (psub p a),
                       band := widget_geometry (move_top_left sg (padd (top_left sg) (psub p a)))\<rparr>))"
  by (simp add: mouse_move_def)

lemma mouse_move_alt_start:
  "alt_point d = None \<Longrightarrow>
   mouse_move u True p d =
     Inr (restyle u (d\<lparr>source_geo := Some (band d), alt_point := Some p, delta := Some (psub p p),
                       band := widget_geometry (move_top_left (band d) (padd (top_left (band d)) (psub p p)))\<rparr>))"
  by (simp add: mouse_move_def)

lemma mouse_release_keeps:
  "mouse_release u left d = Some (r, d') \<Longrightarrow>
   origin d' = origin d \<and> source_geo d' = source_geo d \<and> alt_point d' = alt_point d \<and>
   delta d' = delta d \<and> band d' = band d"
  by (auto simp: mouse_release_def split: if_splits option.splits sum.splits prod.splits)

lemma drag_step_inv:
  assumes "drag_step u d e d'" "drag_inv d"
  shows "drag_inv d'"
  using assms
proof (induction rule: drag_step.induct)
  case (move u alt_mod p d d')
  then show ?case
    by (auto simp: drag_inv_def mouse_move_def Let_def split: if_splits option.splits prod.splits)
next
  case (key k d d' u)
  then show ?case
    by (auto simp: drag_inv_def key_release_def split: if_splits option.splits)
next
  case (release u left d r d')
  then show ?case
    using mouse_release_keeps [OF release.hyps] by (auto simp: drag_inv_def)
qed (simp add: drag_inv_def mouse_press_def)

lemma reachable_drag_inv: "drag_reachable u d \<Longrightarrow> drag_inv d"
proof (induction rule: drag_reachable.induct)
  case init
  show ?case by (simp add: drag_inv_def drag_init_def)
next
  case (step u d e d')
  then show ?case by (blast intro: drag_step_inv)
qed

lemma find_tab_None: "find_tab u None = Some (Inl (AttributeError ''NoneType object has no attribute objectName''))"
  by (simp add: find_tab.simps)

lemma find_tab_here:
  "wname u x = ''body_tab'' \<or> wname u x = ''face_tab'' \<Longrightarrow> find_tab u (Some x) = Some (Inr x)"
  by (subst find_tab.simps) auto

lemma find_tab_up:
  "wname u x \<noteq> ''body_tab'' \<Longrightarrow> wname u x \<noteq> ''face_tab'' \<Longrightarrow> find_tab u (Some x) = find_tab u (wparent u x)"
  by (subst find_tab.simps) auto

lemmas find_tab_eval = find_tab_None find_tab_here find_tab_up

lemmas rect_defs = global_rect_def intersects_def rect_ps_def widget_geometry_def normalized_def
  rect_pp_def padd_def psub_def top_left_def rect_width_def rect_height_def move_top_left_def
  qsize_invalid_def span_lo_def span_hi_def rect_is_null_def

inductive_simps tab_anc_simps: "tab_anc u x t"

lemma tab_anc_find_tab: "tab_anc u x t \<Longrightarrow> find_tab u (Some x) = Some (Inr t)"
  by (induction rule: tab_anc.induct) (auto simp: is_tab_def find_tab_here find_tab_up)

lemma tab_anc_unique: "tab_anc u x t \<Longrightarrow> tab_anc u x t' \<Longrightarrow> t = t'"
proof -
  assume a: "tab_anc u x t" "tab_anc u x t'"
  have "find_tab u (Some x) = Some (Inr t)" using a(1) by (rule tab_anc_find_tab)
  moreover have "find_tab u (Some x) = Some (Inr t')" using a(2) by (rule tab_anc_find_tab)
  ultimately show "t = t'" by simp
qed
lemma fold_reset:
  "fold (\<lambda>w h. if P w then h(w := False) else h) ws h x = (if x \<in> set ws \<and> P x then False else h x)"
  by (induction ws arbitrary: h) auto

lemma in_region_tab:
  assumes "tab_anc u w t"
  shows "in_region u w \<longleftrightarrow> current_tab u t"
  unfolding in_region_def using tab_anc_unique [OF assms] assms by blast

lemma tab_names_region:
  assumes "tab_anc u w t"
  shows "tab_names u t w = (if in_region u w then [wname u w] else [])"
  unfolding in_region_tab [OF assms] tab_names_def current_tab_def by simp

lemma collect_controls_ok:
  assumes "\<forall>w\<in>set ws. intersects r (wrect u w) \<longrightarrow> (\<exists>t. tab_anc u w t)"
  shows "collect_controls u r ws h =
           Some (Inr (map (wname u) (filter (\<lambda>w. intersects r (wrect u w) \<and> in_region u w) ws)),
                 fold (\<lambda>w h. if intersects r (wrect u w) then h(w := False) else h) ws h)"
  using assms
proof (induction ws arbitrary: h)
  case (Cons w ws)
  show ?case
  proof (cases "intersects r (wrect u w)")
    case True
    then obtain t where t: "tab_anc u w t" using Cons.prems by auto
    have ih: "collect_controls u r ws (h(w := False)) =
           Some (Inr (map (wname u) (filter (\<lambda>w. intersects r (wrect u w) \<and> in_region u w) ws)),
                 fold (\<lambda>w h. if intersects r (wrect u w) then h(w := False) else h) ws (h(w := False)))"
      using Cons by simp
    show ?thesis
      using True by (simp add: tab_anc_find_tab [OF t] tab_names_region [OF t] ih)
  next
    case False
    then show ?thesis using Cons by simp
  qed
qed simp

lemma mouse_release_ok:
  assumes "\<forall>w\<in>set (widgets u). intersects (global_rect (win_pos u) (band d)) (wrect u w) \<longrightarrow> (\<exists>t. tab_anc u w t)"
  shows "mouse_release u True d =
           Some (Inr (Some (map (wname u) (filter (\<lambda>w. intersects (global_rect (win_pos u) (band d)) (wrect u w) \<and>
                                                          in_region u w) (widgets u)))),
                 d\<lparr>band_visible := False,
                   highlighted := fold (\<lambda>w h. if intersects (global_rect (win_pos u) (band d)) (wrect u w)
                                              then h(w := False) else h) (widgets u) (highlighted d)\<rparr>)"
  using collect_controls_ok [OF assms, of "highlighted d"] by (simp add: mouse_release_def)

lemma demo_tab_anc: "tab_anc demo_ui 1 10" "tab_anc demo_ui 3 10"
proof -
  have t: "tab_anc demo_ui 10 10" by (rule tab_anc.here) (simp add: demo_ui_def is_tab_def)
  show "tab_anc demo_ui 1 10" by (rule tab_anc.up [OF _ _ t]) (simp_all add: demo_ui_def is_tab_def)
  have "tab_anc demo_ui 12 10" by (rule tab_anc.up [OF _ _ t]) (simp_all add: demo_ui_def is_tab_def)
  then show "tab_anc demo_ui 3 10" by (rule tab_anc.up [rotated 2]) (simp_all add: demo_ui_def is_tab_def)
qed

lemma demo_band:
  "global_rect (win_pos demo_ui) (band (projr (mouse_move demo_ui False (30, 50) (mouse_press True (5, 5) drag_init)))) =
     \<lparr>rx1 = 105, ry1 = 105, rx2 = 130, ry2 = 150\<rparr>"
  by (simp add: demo_ui_def mouse_move_def mouse_press_def restyle_def rect_defs)

lemma drag_event_cls_step:
  assumes "drag_event_cls u ns e d sc = Some (r, d', sc')"
  shows "d' = d \<or> drag_step u d e d'"
proof (cases e)
  case (Release left)
  then obtain r0 where "mouse_release u left d = Some (r0, d')"
    using assms by (auto simp: drag_event_cls_def mouse_release_cls_def
        split: option.splits sum.splits prod.splits)
  then show ?thesis using Release by (blast intro: drag_step.release)
qed (use assms in \<open>auto simp: drag_event_cls_def intro: drag_step.intros split: sum.splits\<close>)

lemma drag_run_reachable:
  "drag_run_cls u ns es (d, sc) = Some (d', sc') \<Longrightarrow> drag_reachable u d \<Longrightarrow> drag_reachable u d'"
proof (induction es arbitrary: d sc)
  case (Cons e es)
  then obtain r d1 sc1 where ev: "drag_event_cls u ns e d sc = Some (r, d1, sc1)"
    and run: "drag_run_cls u ns es (d1, sc1) = Some (d', sc')"
    by (auto split: option.splits)
  have "drag_reachable u d1"
    using drag_event_cls_step [OF ev] Cons.prems(2) by (blast intro: drag_reachable.step)
  then show ?case using Cons.IH [OF run] by blast
qed simp

lemma demo_stale_run:
  "\<exists>d sc'. drag_run_cls demo_ui ''rig:'' [Press True (5, 5), Move False (30, 30), Move True (40, 40), Release True]
        (drag_init, demo_drag_scene) = Some (d, sc') \<and>
      alt_point d = Some (40, 40) \<and> source_geo d = Some \<lparr>rx1 = 5, ry1 = 5, rx2 = 30, ry2 = 30\<rparr>"
  by (simp add: drag_event_cls_def mouse_release_cls_def mouse_release_def mouse_move_def mouse_press_def
      drag_init_def demo_ui_def find_tab_eval restyle_def rect_defs tab_names_def select_control_list_cls_model
      select_control_list_model_def ns_prefix_Some select_by_modifier_ok node_exists_def demo_drag_scene_def)

lemma find_tab_returns:
  assumes "\<And>x y. wparent u x = Some y \<Longrightarrow> rk y < (rk x :: nat)"
  shows "\<exists>r. find_tab u w = Some r"
proof (cases w)
  case None
  then show ?thesis by (simp add: find_tab_None)
next
  case (Some x)
  have "\<exists>r. find_tab u (Some x) = Some r"
  proof (induction x rule: measure_induct_rule [of rk])
    case (less x)
    show ?case
    proof (cases "is_tab u x")
      case False
      then show ?thesis
        using less assms by (cases "wparent u x") (auto simp: is_tab_def find_tab_up find_tab_None)
    qed (auto simp: is_tab_def find_tab_here)
  qed
  then show ?thesis using Some by simp
qed

lemma collect_controls_returns:
  assumes "\<And>x y. wparent u x = Some y \<Longrightarrow> rk y < (rk x :: nat)"
  shows "collect_controls u r ws h \<noteq> None"
proof (induction ws arbitrary: h)
  case (Cons w ws)
  obtain res where "find_tab u (Some w) = Some res"
    using find_tab_returns [where u = u and rk = rk and w = "Some w"] assms by blast
  moreover obtain c1 where "collect_controls u r ws h = Some c1"
    using Cons.IH [of h] by blast
  moreover obtain c2 where "collect_controls u r ws (h(w := False)) = Some c2"
    using Cons.IH [of "h(w := False)"] by blast
  ultimately show ?case
    by (cases res; cases c2) (auto split: sum.split)
qed simp

lemma drag_event_cls_returns:
  assumes "\<And>x y. wparent u x = Some y \<Longrightarrow> rk y < (rk x :: nat)"
  shows "drag_event_cls u ns e d sc \<noteq> None"
proof (cases e)
  case (Release left)
  have "collect_controls u (global_rect (win_pos u) (band d)) (widgets u) (highlighted d) \<noteq> None"
    using collect_controls_returns [where rk = rk] assms by blast
  then show ?thesis
    using Release by (auto simp: drag_event_cls_def mouse_release_cls_def mouse_release_def
        split: sum.split option.split prod.split)
qed (auto simp: drag_event_cls_def split: sum.split)

lemma restyle_highlighted:
  "highlighted (restyle u d) w =
     (if w \<in> set (widgets u) then intersects (global_rect (win_pos u) (band d)) (wrect u w) else highlighted d w)"
proof -
  have "fold (\<lambda>w h. h(w := P w)) ws h x = (if x \<in> set ws then P x else h x)"
    for P :: "nat \<Rightarrow> bool" and ws h x
    by (induction ws arbitrary: h) auto
  from this [of "\<lambda>w. intersects (global_rect (win_pos u) (band d)) (wrect u w)" "widgets u" "highlighted d" w]
  show ?thesis by (simp add: restyle_def)
qed

text \<open>
  C21. In every run of the \<open>picker.py\<close> window from the state \<open>__init__\<close> leaves, whatever
  events it receives and whatever its handlers raise, a mouse move with Alt held raises no
  exception: whenever the pan origin is set, so is the band geometry it pans (by rule
  induction over \<open>drag_reachable\<close>, which every run stays in).
\<close>

theorem alt_move_never_raises:
  assumes "drag_run_cls u ns es (drag_init, sc) = Some (d, sc')"
  shows "\<not> isl (mouse_move u True p d)"
proof -
  have "drag_inv d"
    using drag_run_reachable [OF assms drag_reachable.init] by (rule reachable_drag_inv)
  then show ?thesis
    by (cases "alt_point d") (auto simp: drag_inv_def mouse_move_alt mouse_move_alt_start)
qed

lemma alt_move_never_raises_witness:
  "drag_run_cls demo_ui ''rig:'' [Press True (5, 5), Move False (30, 30)] (drag_init, demo_drag_scene) =
     Some (projr (mouse_move demo_ui False (30, 30) (mouse_press True (5, 5) drag_init)), demo_drag_scene) \<and>
   \<not> isl (mouse_move demo_ui True (40, 40) (projr (mouse_move demo_ui False (30, 30) (mouse_press True (5, 5) drag_init))))"
proof -
  have r: "drag_run_cls demo_ui ''rig:'' [Press True (5, 5), Move False (30, 30)] (drag_init, demo_drag_scene) =
     Some (projr (mouse_move demo_ui False (30, 30) (mouse_press True (5, 5) drag_init)), demo_drag_scene)"
    by (simp add: drag_event_cls_def mouse_move_def mouse_press_def)
  show ?thesis using alt_move_never_raises [OF r] r by simp
qed

text \<open>
  C22. Moving the mouse with Alt held and a button other than the left one pressed, before
  any left press, and then releasing Alt evaluates \<open>self.origin += self.delta\<close> with
  \<open>self.origin\<close> still \<open>None\<close>: after a single Alt move from the initial state, releasing
  Alt raises TypeError.
\<close>

theorem key_release_type_error:
  "\<exists>d. drag_run_cls u ns [Move True p] (drag_init, sc) = Some (d, sc) \<and>
       drag_event_cls u ns (KeyRelease True) d sc =
         Some (Inl (TypeError ''unsupported operand type(s) for +=: NoneType and QPoint''), d, sc)"
proof -
  obtain d where m: "mouse_move u True p drag_init = Inr d"
    using mouse_move_alt_start [of drag_init u p] by (simp add: drag_init_def)
  moreover have "origin d = None" "delta d = Some (0, 0)"
    using m mouse_move_alt_start [of drag_init u p] by (auto simp: drag_init_def psub_def)
  ultimately show ?thesis by (auto simp: drag_event_cls_def key_release_def)
qed

text \<open>
  C23. The pan state is reset only by the Alt key's release. When the left button was
  released with Alt still held, the next press starts a new band at the pointer, but the
  first Alt move after it moves the band of the previous drag by the pointer's offset from
  the previous pan origin: the new press point is ignored.
\<close>

theorem alt_move_after_press_stale:
  assumes "alt_point d = Some a" "source_geo d = Some g"
  shows "\<exists>d'. mouse_move u True p (mouse_press True q d) = Inr d' \<and> origin d' = Some q \<and>
              band d' = widget_geometry (move_top_left g (padd (top_left g) (psub p a)))"
  using assms by (simp add: mouse_press_def mouse_move_alt)

lemma alt_move_after_press_stale_witness:
  "\<exists>d sc'. drag_run_cls demo_ui ''rig:'' [Press True (5, 5), Move False (30, 30), Move True (40, 40), Release True]
        (drag_init, demo_drag_scene) = Some (d, sc') \<and>
     (\<exists>d'. mouse_move demo_ui True (200, 200) (mouse_press True (200, 200) d) = Inr d' \<and>
           origin d' = Some (200, 200) \<and> band d' = \<lparr>rx1 = 165, ry1 = 165, rx2 = 190, ry2 = 190\<rparr>)"
proof -
  obtain d sc' where r: "drag_run_cls demo_ui ''rig:'' [Press True (5, 5), Move False (30, 30), Move True (40, 40),
        Release True] (drag_init, demo_drag_scene) = Some (d, sc')"
    and a: "alt_point d = Some (40, 40)" "source_geo d = Some \<lparr>rx1 = 5, ry1 = 5, rx2 = 30, ry2 = 30\<rparr>"
    using demo_stale_run by blast
  show ?thesis
    using alt_move_after_press_stale [OF a, of demo_ui "(200, 200)" "(200, 200)"] r
    by (auto simp: rect_defs)
qed

text \<open>
  C24. Every run of the \<open>picker.py\<close> window returns: whatever events arrive, each handler
  returns, normally or with an exception, provided the parent relation of the widgets has a
  rank, as Qt's widget tree does. The only loop that could run forever is the parent walk of
  the release handler, and it climbs the tree.
\<close>

theorem drag_run_cls_returns:
  assumes "\<And>x y. wparent u x = Some y \<Longrightarrow> rk y < (rk x :: nat)"
  shows "\<exists>st'. drag_run_cls u ns es st = Some st'"
proof (induction es arbitrary: st)
  case (Cons e es)
  obtain r d' sc' where "drag_event_cls u ns e (fst st) (snd st) = Some (r, d', sc')"
    using drag_event_cls_returns [OF assms] by fastforce
  then show ?case using Cons by simp
qed simp

lemma drag_run_cls_returns_witness:
  "\<exists>st'. drag_run_cls demo_ui ''rig:'' [Press True (5, 5), Move False (300, 450), Release True]
          (drag_init, demo_drag_scene) = Some st'"
proof -
  have "wparent demo_ui x = Some y \<Longrightarrow> demo_rank y < demo_rank x" for x y
    by (simp add: demo_ui_def demo_rank_def split: if_splits)
  then show ?thesis by (rule drag_run_cls_returns)
qed

text \<open>
  C25. Refinement of the release handler by its contract: when every tracked button that
  meets the band lies on a tab, a left release hides the band, restores the style of every
  button it meets, and passes to the selection the names of exactly the buttons that meet
  the band and lie on the current tab, each as often as it is tracked: as a multiset, so the
  result does not depend on the dictionary's order.
\<close>

theorem mouse_release_marquee:
  assumes "\<forall>w\<in>set (widgets u). intersects (global_rect (win_pos u) (band d)) (wrect u w) \<longrightarrow> (\<exists>t. tab_anc u w t)"
  shows "\<exists>names d'. mouse_release u True d = Some (Inr (Some names), d') \<and>
           mset names = marquee_spec u (global_rect (win_pos u) (band d)) \<and> \<not> band_visible d' \<and>
           list_all (\<lambda>w. intersects (global_rect (win_pos u) (band d)) (wrect u w) \<longrightarrow> \<not> highlighted d' w)
             (widgets u)"
  by (simp add: mouse_release_ok [OF assms] marquee_spec_def fold_reset list_all_iff)

lemma mouse_release_marquee_witness:
  "\<exists>names d'. mouse_release demo_ui True (projr (mouse_move demo_ui False (30, 50) (mouse_press True (5, 5) drag_init))) =
       Some (Inr (Some names), d') \<and>
     mset names = marquee_spec demo_ui \<lparr>rx1 = 105, ry1 = 105, rx2 = 130, ry2 = 150\<rparr> \<and>
     \<not> band_visible d' \<and>
     list_all (\<lambda>w. intersects \<lparr>rx1 = 105, ry1 = 105, rx2 = 130, ry2 = 150\<rparr> (wrect demo_ui w) \<longrightarrow> \<not> highlighted d' w)
       (widgets demo_ui)"
proof -
  have "\<forall>w\<in>set (widgets demo_ui). intersects \<lparr>rx1 = 105, ry1 = 105, rx2 = 130, ry2 = 150\<rparr> (wrect demo_ui w) \<longrightarrow>
          (\<exists>t. tab_anc demo_ui w t)"
    using demo_tab_anc by (auto simp: demo_ui_def rect_defs)
  then show ?thesis
    using mouse_release_marquee [of demo_ui "projr (mouse_move demo_ui False (30, 50) (mouse_press True (5, 5) drag_init))"]
    by (simp only: demo_band)
qed

lemma marquee_spec_demo:
  "marquee_spec demo_ui \<lparr>rx1 = 105, ry1 = 105, rx2 = 130, ry2 = 150\<rparr> = {#''arm_l_ctr'', ''spine_ctr''#}"
  using in_region_tab [OF demo_tab_anc(1)] in_region_tab [OF demo_tab_anc(2)]
  by (simp add: marquee_spec_def current_tab_def demo_ui_def rect_defs)

text \<open>
  C26. A move without Alt sets the band to the rectangle spanned by the press point and the
  pointer, its top left corner the smaller coordinates and its width and height the distance
  plus one pixel. The one exception is Qt's \<open>normalized()\<close>: a pointer exactly one pixel left
  of (above) the press point gives a band of width (height) 0 at the press point.
\<close>

theorem mouse_move_band_bounds:
  assumes "origin d = Some org"
  shows "\<exists>d'. mouse_move u False p d = Inr d' \<and>
           rx1 (band d') = (if fst p = fst org - 1 then fst org else min (fst org) (fst p)) \<and>
           ry1 (band d') = (if snd p = snd org - 1 then snd org else min (snd org) (snd p)) \<and>
           rect_width (band d') = (if fst p = fst org - 1 then 0 else \<bar>fst p - fst org\<bar> + 1) \<and>
           rect_height (band d') = (if snd p = snd org - 1 then 0 else \<bar>snd p - snd org\<bar> + 1)"
  using assms by (simp add: mouse_move_def rect_defs)

lemma mouse_move_band_bounds_witness:
  "\<exists>d'. mouse_move demo_ui False (4, 30) (mouse_press True (5, 5) drag_init) = Inr d' \<and>
     rx1 (band d') = 5 \<and> ry1 (band d') = 5 \<and> rect_width (band d') = 0 \<and> rect_height (band d') = 26"
  using mouse_move_band_bounds [of "mouse_press True (5, 5) drag_init" "(5, 5)" demo_ui "(4, 30)"]
  by (simp add: mouse_press_def)

text \<open>
  C27. The two windows handle every mouse and key event alike: their press, move and key
  handlers are the same code, and their release handlers, \<open>picker.py\<close>'s selecting through
  the class's \<open>select_control_list\<close> inside an undo chunk and the controller's calling
  \<open>picker_model.select_control_list\<close> with the namespace line edit, have the same outcome
  on the window and on the scene.
\<close>

theorem drag_event_cls_ctl:
  "drag_event_cls u ns e d sc = drag_event_ctl u (Some ns) e d sc"
  by (cases e) (simp_all add: drag_event_cls_def drag_event_ctl_def mouse_release_cls_def mouse_release_ctl_def
      select_control_list_cls_model split: option.split sum.split prod.split)

text \<open>
  C28. Marquee selection end to end: a left release with no modifier key held, over buttons
  that lie on tabs and whose namespaced controls exist, replaces the scene's selection by the
  namespaced names of the buttons the band meets on the current tab (each once), changes
  nothing else in the scene, and leaves no undo chunk open.
\<close>

theorem mouse_release_cls_selects:
  assumes "\<forall>w\<in>set (widgets u). intersects (global_rect (win_pos u) (band d)) (wrect u w) \<longrightarrow>
             (\<exists>t. tab_anc u w t) \<and> node_exists sc (ns @ wname u w)"
    and "mods sc = 0"
  shows "\<exists>names d'. mset names = marquee_spec u (global_rect (win_pos u) (band d)) \<and>
           mouse_release_cls u ns True d sc = Some (Inr (), d', sc\<lparr>sel := remdups (map ((@) ns) names)\<rparr>)"
proof -
  let ?R = "global_rect (win_pos u) (band d)"
  let ?names = "map (wname u) (filter (\<lambda>w. intersects ?R (wrect u w) \<and> in_region u w) (widgets u))"
  have rel: "mouse_release u True d = Some (Inr (Some ?names), d\<lparr>band_visible := False,
                   highlighted := fold (\<lambda>w h. if intersects ?R (wrect u w) then h(w := False) else h)
                     (widgets u) (highlighted d)\<rparr>)"
    using assms(1) by (intro mouse_release_ok) blast
  have ex: "list_all (node_exists sc) (map ((@) ns) ?names)"
    using assms(1) by (auto simp: list_all_iff)
  have sel: "select_control_list_cls ns ?names sc = (Inr (), sc\<lparr>sel := remdups (map ((@) ns) ?names)\<rparr>)"
    using select_by_modifier_ok [OF ex] assms(2)
    by (simp add: select_control_list_cls_model select_control_list_model_def ns_prefix_Some get_modifier_bits)
  show ?thesis
    by (rule exI [of _ ?names]) (simp add: mouse_release_cls_def rel sel marquee_spec_def)
qed

lemma mouse_release_cls_selects_witness:
  "\<exists>names d'. mset names = marquee_spec demo_ui \<lparr>rx1 = 105, ry1 = 105, rx2 = 130, ry2 = 150\<rparr> \<and>
     mouse_release_cls demo_ui ''rig:'' True
       (projr (mouse_move demo_ui False (30, 50) (mouse_press True (5, 5) drag_init))) demo_drag_scene =
       Some (Inr (), d', demo_drag_scene\<lparr>sel := remdups (map ((@) ''rig:'') names)\<rparr>)"
proof -
  have "\<forall>w\<in>set (widgets demo_ui). intersects \<lparr>rx1 = 105, ry1 = 105, rx2 = 130, ry2 = 150\<rparr> (wrect demo_ui w) \<longrightarrow>
          (\<exists>t. tab_anc demo_ui w t) \<and> node_exists demo_drag_scene (''rig:'' @ wname demo_ui w)"
    using demo_tab_anc by (auto simp: demo_ui_def rect_defs demo_drag_scene_def node_exists_def)
  moreover have "mods demo_drag_scene = 0" by (simp add: demo_drag_scene_def)
  ultimately show ?thesis
    using mouse_release_cls_selects [of demo_ui "projr (mouse_move demo_ui False (30, 50) (mouse_press True (5, 5) drag_init))"
        demo_drag_scene "''rig:''"]
    by (simp only: demo_band)
qed

text \<open>
  C37. The highlight loop of a mouse move: after a move that returns, each tracked button
  carries the highlight style exactly when its screen rectangle meets the band's, the others
  having their own style restored, and widgets that are not tracked keep theirs.
\<close>

theorem mouse_move_highlights:
  assumes "mouse_move u alt_mod p d = Inr d'"
  shows "highlighted d' w =
           (if w \<in> set (widgets u) then intersects (global_rect (win_pos u) (band d')) (wrect u w)
            else highlighted d w)"
  using assms
  by (auto simp: mouse_move_def restyle_highlighted Let_def split: if_splits option.splits prod.splits)

lemma mouse_move_highlights_witness:
  "\<exists>d'. mouse_move demo_ui False (30, 50) (mouse_press True (5, 5) drag_init) = Inr d' \<and>
     highlighted d' 1 \<and> \<not> highlighted d' 2 \<and> highlighted d' 3 \<and> \<not> highlighted d' 4"
proof -
  obtain d' where m: "mouse_move demo_ui False (30, 50) (mouse_press True (5, 5) drag_init) = Inr d'"
    by (simp add: mouse_move_def mouse_press_def)
  have "global_rect (win_pos demo_ui) (band d') = \<lparr>rx1 = 105, ry1 = 105, rx2 = 130, ry2 = 150\<rparr>"
    using m demo_band by simp
  then show ?thesis
    using m mouse_move_highlights [OF m] by (simp add: demo_ui_def rect_defs)
qed

end
