(* ===== verification/Window.thy ===== *)
theory Window
  imports Drag Pose Snap Bind
begin

text \<open>
  The two windows and the bootstrap: what \<open>Picker.__init__\<close> builds (\<open>picker.py\<close> and
  \<open>picker_controller.py\<close>), \<open>load_images\<close>, the two \<open>openWindow\<close> functions and
  \<open>picker_run.py\<close>.
  \<^item> The Qt Designer form is the record \<open>form\<close>: the object names of its push buttons, line
    edits and labels in \<open>findChildren\<close> order, the geometry of its child widgets, its size,
    and the files of the \<open>images\<close> folder in \<open>os.listdir\<close> order.
  \<^item> A window is the record \<open>window\<close>: its title and object name, its fixed size, the
    connections it makes (button name and the handler a click runs, the datatype
    \<open>action\<close>), the tool tips, the buttons it tracks for the marquee, the image each
    label shows, and the scaled child geometries.
  \<^item> \<open>findChildren(..., name)[0]\<close> on a missing widget raises IndexError: construction
    is an \<open>error + window\<close>.
  \<^item> A click runs the class's method (\<open>handler_cls\<close>) or the \<open>picker_model\<close> function
    (\<open>handler_ctl\<close>) on the scene; the namespace button writes the line edit's text.
  \<^item> The application's windows are a list in creation order; closing a window with
    \<open>WA_DeleteOnClose\<close> and \<open>QWindow.destroy()\<close> remove it from the list. A window is
    \<open>shown\<close> once \<open>show()\<close> ran; a constructor that raises leaves a hidden half-built
    widget in the list (\<open>half_built_cls\<close>, \<open>half_built_ctl\<close>).
  \<^item> Reading the Designer file and the images folder from disk is theory Startup.
\<close>

datatype action =
    SetNamespace | BindPose | FlipPose | MirrorPose | VisControls | VisGeometries
  | SelectAll | SelectBody | SelectFace | KeyAll | KeyBody | KeyFace
  | SelectControl string | SnapFkIk string string

record form =
  buttons :: "string list"
  line_edits :: "string list"
  labels :: "string list"
  child_geoms :: "(int \<times> int \<times> int \<times> int) list"
  form_size :: "int \<times> int"
  image_files :: "string list"

record window =
  wtitle :: string
  wobj :: string
  wsize :: "int \<times> int"
  conns :: "(string \<times> action) list"
  tooltips :: "(string \<times> string) list"
  tracked :: "string list"
  pixmaps :: "string \<rightharpoonup> string"
  scaled_geoms :: "(int \<times> int \<times> int \<times> int) list"
  shown :: bool

definition char_name :: string where
  "char_name = ''Hulk''"

text \<open>The buttons \<open>__init__\<close> looks up by name, each with the handler it connects.\<close>

definition fixed_actions :: "(string \<times> action) list" where
  "fixed_actions =
     [(''bindPose_pushButton'', BindPose), (''flipPose_pushButton'', FlipPose),
      (''mirrorPose_pushButton'', MirrorPose), (''visControls_pushButton'', VisControls),
      (''visGeometries_pushButton'', VisGeometries), (''selectAll_pushButton'', SelectAll),
      (''selectBody_pushButton'', SelectBody), (''selectFace_pushButton'', SelectFace),
      (''keyAll_pushButton'', KeyAll), (''keyBody_pushButton'', KeyBody), (''keyFace_pushButton'', KeyFace)]"

definition snap_actions :: "(string \<times> action) list" where
  "snap_actions =
     [(''armSnap_l_pushButton'', SnapFkIk ''arm'' ''l''), (''armSnap_r_pushButton'', SnapFkIk ''arm'' ''r''),
      (''legSnap_l_pushButton'', SnapFkIk ''leg'' ''l''), (''legSnap_r_pushButton'', SnapFkIk ''leg'' ''r'')]"

definition namespace_action :: "string \<times> action" where
  "namespace_action = (''namespace_pushButton'', SetNamespace)"

text \<open>The \<open># Controls\<close> loop: every push button whose name ends in \<open>_ctr\<close> selects its control.\<close>

definition control_actions :: "form \<Rightarrow> (string \<times> action) list" where
  "control_actions f = map (\<lambda>n. (n, SelectControl n)) (filter is_ctr (buttons f))"

definition has_buttons :: "form \<Rightarrow> (string \<times> action) list \<Rightarrow> bool" where
  "has_buttons f xs \<longleftrightarrow> list_all (\<lambda>x. fst x \<in> set (buttons f)) xs"

definition has_line_edit :: "form \<Rightarrow> bool" where
  "has_line_edit f \<longleftrightarrow> ''namespace_lineEdit'' \<in> set (line_edits f)"

text \<open>\<open>Picker.__init__\<close> (\<open>picker.py\<close>): pose, visibility, selection and key buttons, controls, snaps, namespace.\<close>

definition connect_cls :: "form \<Rightarrow> py_error + (string \<times> action) list" where
  "connect_cls f =
     (if \<not> has_buttons f fixed_actions then Inl IndexError
      else if \<not> has_buttons f snap_actions then Inl IndexError
      else if \<not> has_buttons f [namespace_action] then Inl IndexError
      else if \<not> has_line_edit f then Inl IndexError
      else Inr (fixed_actions @ control_actions f @ snap_actions @ [namespace_action]))"

text \<open>\<open>Picker.__init__\<close> (\<open>picker_controller.py\<close>): namespace first, then as the class does.\<close>

definition connect_ctl :: "form \<Rightarrow> py_error + (string \<times> action) list" where
  "connect_ctl f =
     (if \<not> has_buttons f [namespace_action] then Inl IndexError
      else if \<not> has_line_edit f then Inl IndexError
      else if \<not> has_buttons f fixed_actions then Inl IndexError
      else if \<not> has_buttons f snap_actions then Inl IndexError
      else Inr ([namespace_action] @ fixed_actions @ control_actions f @ snap_actions))"

text \<open>\<open>load_images\<close>: each image file is shown on the label named after the text before its first dot.\<close>

definition image_ext :: "string \<Rightarrow> bool" where
  "image_ext file \<longleftrightarrow>
     py_endswith file ''.png'' \<or> py_endswith file ''.jpg'' \<or> py_endswith file ''.jpeg'' \<or> py_endswith file ''.gif''"

definition file_stem :: "string \<Rightarrow> string" where
  "file_stem file = hd (py_split CHR ''.'' file)"

definition label_of :: "string \<Rightarrow> string" where
  "label_of file = file_stem file @ ''_label''"

definition load_images :: "form \<Rightarrow> string \<rightharpoonup> string" where
  "load_images f =
     fold (\<lambda>file pm. if label_of file \<in> set (labels f) then pm(label_of file \<mapsto> file) else pm)
       (filter image_ext (image_files f)) Map.empty"

text \<open>\<open># Scale the whole window\<close>: every child's geometry and the fixed size times the factor.\<close>

definition scale_geom :: "int \<Rightarrow> int \<times> int \<times> int \<times> int \<Rightarrow> int \<times> int \<times> int \<times> int" where
  "scale_geom s g = (case g of (x, y, w, h) \<Rightarrow> (x * s, y * s, w * s, h * s))"

definition build_window :: "form \<Rightarrow> int \<Rightarrow> string \<Rightarrow> string \<Rightarrow> (string \<times> action) list \<Rightarrow> window" where
  "build_window f s title obj cs =
     \<lparr>wtitle = title, wobj = obj, wsize = (750 * s, 675 * s), conns = cs,
      tooltips = map (\<lambda>n. (n, n)) (filter is_ctr (buttons f)), tracked = filter is_ctr (buttons f),
      pixmaps = load_images f, scaled_geoms = map (scale_geom s) (child_geoms f), shown = False\<rparr>"

definition construct_cls :: "form \<Rightarrow> int \<Rightarrow> py_error + window" where
  "construct_cls f s =
     map_sum id (build_window f s (char_name @ '' Picker'') (char_name @ ''PickerWindow'')) (connect_cls f)"

definition construct_ctl :: "form \<Rightarrow> int \<Rightarrow> py_error + window" where
  "construct_ctl f s = map_sum id (build_window f s [] []) (connect_ctl f)"

text \<open>What a click runs: the class's methods with the line edit's text, or the model's functions with the line edit.\<close>

definition handler_cls :: "action \<Rightarrow> string \<Rightarrow> unit cmd" where
  "handler_cls a ns =
     (case a of
        SetNamespace \<Rightarrow> returnE ()
      | BindPose \<Rightarrow> bind_pose_cls ns
      | FlipPose \<Rightarrow> flip_pose_cls
      | MirrorPose \<Rightarrow> mirror_pose_cls
      | VisControls \<Rightarrow> vis_controls_cls ns
      | VisGeometries \<Rightarrow> vis_geometries_cls ns
      | SelectAll \<Rightarrow> select_all_controls_cls ns
      | SelectBody \<Rightarrow> select_body_controls_cls ns
      | SelectFace \<Rightarrow> select_face_controls_cls ns
      | KeyAll \<Rightarrow> key_all_controls_cls ns
      | KeyBody \<Rightarrow> key_body_controls_cls ns
      | KeyFace \<Rightarrow> key_face_controls_cls ns
      | SelectControl n \<Rightarrow> select_control_cls ns n
      | SnapFkIk limb side \<Rightarrow> snap_fk_ik_cls limb side ns)"

definition handler_ctl :: "action \<Rightarrow> string \<Rightarrow> unit cmd" where
  "handler_ctl a ns =
     (case a of
        SetNamespace \<Rightarrow> returnE ()
      | BindPose \<Rightarrow> bind_pose_model (Some ns)
      | FlipPose \<Rightarrow> flip_pose_model
      | MirrorPose \<Rightarrow> mirror_pose_model
      | VisControls \<Rightarrow> vis_controls_model (Some ns)
      | VisGeometries \<Rightarrow> vis_geometries_model (Some ns)
      | SelectAll \<Rightarrow> select_all_controls_model (Some ns)
      | SelectBody \<Rightarrow> select_body_controls_model (Some ns)
      | SelectFace \<Rightarrow> select_face_controls_model (Some ns)
      | KeyAll \<Rightarrow> key_all_controls_model (Some ns)
      | KeyBody \<Rightarrow> key_body_controls_model (Some ns)
      | KeyFace \<Rightarrow> key_face_controls_model (Some ns)
      | SelectControl n \<Rightarrow> select_control_model n (Some ns)
      | SnapFkIk limb side \<Rightarrow> snap_fk_ik_model limb side (Some ns))"

definition click_cls :: "action \<Rightarrow> string \<Rightarrow> scene \<Rightarrow> (py_error + unit) \<times> string \<times> scene" where
  "click_cls a ns sc =
     (if a = SetNamespace then (Inr (), set_namespace_cls (sel sc), sc)
      else (case handler_cls a ns sc of (r, sc') \<Rightarrow> (r, ns, sc')))"

definition click_ctl :: "action \<Rightarrow> string \<Rightarrow> scene \<Rightarrow> (py_error + unit) \<times> string \<times> scene" where
  "click_ctl a ns sc =
     (if a = SetNamespace then (Inr (), set_namespace_model (sel sc), sc)
      else (case handler_ctl a ns sc of (r, sc') \<Rightarrow> (r, ns, sc')))"

text \<open>The actions whose two implementations are meant to agree and do (see \<open>Pose\<close>, \<open>Snap\<close>, \<open>Bind\<close> for the others).\<close>

definition same_handler :: "string \<Rightarrow> action \<Rightarrow> bool" where
  "same_handler ns a =
     (case a of FlipPose \<Rightarrow> False | BindPose \<Rightarrow> ns = [] | SnapFkIk _ _ \<Rightarrow> ns = [] | _ \<Rightarrow> True)"

text \<open>Python's \<open>needle in hay\<close> on strings.\<close>

definition py_in :: "string \<Rightarrow> string \<Rightarrow> bool" where
  "py_in needle hay \<longleftrightarrow> list_ex (\<lambda>i. take (length needle) (drop i hay) = needle) [0..<Suc (length hay)]"

text \<open>
  A constructor that raises leaves its widget behind: \<open>Picker\<close> is created as a child of
  Maya's main window, which keeps it when Python drops the half-built object. The class
  variant has set its title and object name by then (lines 19 and 20, before any call that
  can raise); the controller's has neither. Such a widget is never shown; its other
  attributes are not modelled.
\<close>

definition half_built_cls :: window where
  "half_built_cls =
     \<lparr>wtitle = char_name @ '' Picker'', wobj = char_name @ ''PickerWindow'', wsize = (0, 0), conns = [],
      tooltips = [], tracked = [], pixmaps = Map.empty, scaled_geoms = [], shown = False\<rparr>"

definition half_built_ctl :: window where
  "half_built_ctl =
     \<lparr>wtitle = [], wobj = [], wsize = (0, 0), conns = [], tooltips = [], tracked = [], pixmaps = Map.empty,
      scaled_geoms = [], shown = False\<rparr>"

text \<open>
  \<open>openWindow\<close> in \<open>picker.py\<close>, given the outcome of the constructor: the first window named
  \<open>HulkPickerWindow\<close> is closed (and deleted, \<open>WA_DeleteOnClose\<close>), then the new picker is
  shown.
\<close>

fun close_first :: "string \<Rightarrow> window list \<Rightarrow> window list" where
  "close_first n [] = []"
| "close_first n (w # ws) = (if wobj w = n then ws else w # close_first n ws)"

definition open_window_cls :: "py_error + window \<Rightarrow> window list \<Rightarrow> (py_error + unit) \<times> window list" where
  "open_window_cls picker ws =
     (let ws' = close_first (char_name @ ''PickerWindow'') ws
      in case picker of
           Inl e \<Rightarrow> (Inl e, ws' @ [half_built_cls])
         | Inr w \<Rightarrow> (Inr (), ws' @ [w\<lparr>shown := True\<rparr>]))"

text \<open>
  \<open>openWindow\<close> in \<open>picker_controller.py\<close>: every window whose name contains
  \<open>pickerWindow\<close> is destroyed; the new window shows itself at the end of its constructor
  and is then named.
\<close>

definition open_window_ctl :: "py_error + window \<Rightarrow> window list \<Rightarrow> (py_error + unit) \<times> window list" where
  "open_window_ctl picker ws =
     (let ws' = filter (\<lambda>w. \<not> py_in ''pickerWindow'' (wobj w)) ws
      in case picker of
           Inl e \<Rightarrow> (Inl e, ws' @ [half_built_ctl])
         | Inr w \<Rightarrow> (Inr (), ws' @ [w\<lparr>shown := True, wobj := ''pickerWindow'', wtitle := ''Picker''\<rparr>]))"

text \<open>
  \<open>picker_run.py\<close>: the folder is added to \<open>sys.path\<close> once, then the controller's window,
  built by its constructor at scale 1, is opened.
\<close>

definition picker_folder :: string where
  "picker_folder = []"

definition run_picker :: "py_error + window \<Rightarrow> string list \<times> window list \<Rightarrow> (py_error + unit) \<times> string list \<times> window list" where
  "run_picker picker st =
     (case st of (path, ws) \<Rightarrow>
        let path' = (if picker_folder \<in> set path then path else path @ [picker_folder])
        in case open_window_ctl picker ws of (r, ws') \<Rightarrow> (r, path', ws'))"

definition demo_form :: form where
  "demo_form =
     \<lparr>buttons = map fst fixed_actions @ map fst snap_actions @ [''namespace_pushButton'', ''arm_l_ctr'', ''spine_ctr''],
      line_edits = [''namespace_lineEdit''], labels = [''body_label'', ''face_label''],
      child_geoms = [(10, 20, 30, 40)], form_size = (750, 675),
      image_files = [''body.png'', ''readme.txt'', ''face.jpg'']\<rparr>"

lemma has_buttons_Nil [simp]: "has_buttons f []"
  by (simp add: has_buttons_def)

lemma has_buttons_append [simp]: "has_buttons f (xs @ ys) \<longleftrightarrow> has_buttons f xs \<and> has_buttons f ys"
  by (simp add: has_buttons_def)

lemma has_buttons_Cons [simp]: "has_buttons f (x # xs) \<longleftrightarrow> fst x \<in> set (buttons f) \<and> has_buttons f xs"
  by (simp add: has_buttons_def)

text \<open>
  C29. The two windows wire the same buttons to the same handlers: for every form both
  constructors fail (IndexError) or both succeed, and then they make the same connections,
  in a different order (the controller connects the namespace button first).
\<close>

theorem connect_cls_ctl_same:
  "map_sum id mset (connect_cls f) = map_sum id mset (connect_ctl f)"
  by (auto simp: connect_cls_def connect_ctl_def)

lemma fold_label_upd:
  "fold (\<lambda>file pm. if label_of file \<in> L then pm(label_of file \<mapsto> file) else pm) xs m =
     m ++ map_of (rev (map (\<lambda>x. (label_of x, x)) (filter (\<lambda>x. label_of x \<in> L) xs)))"
  by (induction xs arbitrary: m) (auto simp: map_add_upd_left map_add_assoc)

lemma load_images_map_of:
  "load_images f = map_of (rev (map (\<lambda>x. (label_of x, x)) (filter (\<lambda>x. label_of x \<in> set (labels f)) (filter image_ext (image_files f)))))"
  by (simp add: load_images_def fold_label_upd)

lemma hd_py_split: "hd (py_split c s) = takeWhile (\<lambda>x. x \<noteq> c) s"
  by (induction s) (simp_all add: Let_def)

lemma map_of_rev_pairs:
  "map_of (rev (map (\<lambda>x. (k x, x)) xs)) l =
     (if filter (\<lambda>x. k x = l) xs = [] then None else Some (last (filter (\<lambda>x. k x = l) xs)))"
  by (induction xs rule: rev_induct) auto

text \<open>
  C31. \<open>load_images\<close> gives a label the picture of the last file \<open>os.listdir\<close> lists among
  those that end in \<open>.png\<close>, \<open>.jpg\<close>, \<open>.jpeg\<close> or \<open>.gif\<close> and whose text before the
  first dot, followed by \<open>_label\<close>, is the label's name; a label with no such file, or a
  name that is no label of the form, gets none.
\<close>

theorem load_images_last_wins:
  "load_images f lbl =
     (let fs = filter (\<lambda>x. (py_endswith x ''.png'' \<or> py_endswith x ''.jpg'' \<or> py_endswith x ''.jpeg'' \<or>
                            py_endswith x ''.gif'') \<and> takeWhile (\<lambda>c. c \<noteq> CHR ''.'') x @ ''_label'' = lbl)
                (image_files f)
      in if lbl \<in> set (labels f) \<and> fs \<noteq> [] then Some (last fs) else None)"
proof -
  have "filter (\<lambda>x. label_of x = lbl) (filter (\<lambda>x. label_of x \<in> set (labels f)) (filter image_ext xs)) =
        (if lbl \<in> set (labels f) then filter (\<lambda>x. image_ext x \<and> label_of x = lbl) xs else [])" for xs
    by (induction xs) auto
  then show ?thesis
    by (simp add: load_images_map_of map_of_rev_pairs image_ext_def label_of_def file_stem_def hd_py_split
        Let_def)
qed

lemma load_images_same_stem:
  "load_images (demo_form\<lparr>image_files := [''body.png'', ''body.jpg'']\<rparr>) ''body_label'' = Some ''body.jpg''"
  "load_images (demo_form\<lparr>image_files := [''body.jpg'', ''body.png'']\<rparr>) ''body_label'' = Some ''body.png''"
  by (simp_all add: load_images_map_of demo_form_def image_ext_def py_endswith_def label_of_def file_stem_def)

lemma close_first_count:
  "length (filter (\<lambda>w. wobj w = n) (close_first n ws)) = length (filter (\<lambda>w. wobj w = n) ws) - 1"
  by (induction ws) auto

lemma close_first_others:
  "filter (\<lambda>w. wobj w \<noteq> n) (close_first n ws) = filter (\<lambda>w. wobj w \<noteq> n) ws"
  by (induction ws) auto

lemma construct_cls_wobj: "construct_cls f s = Inr w \<Longrightarrow> wobj w = ''HulkPickerWindow''"
  by (cases "connect_cls f") (auto simp: construct_cls_def build_window_def char_name_def)

text \<open>
  C32. \<open>openWindow\<close> of \<open>picker.py\<close> keeps exactly one picker window: from a state with at
  most one window named \<open>HulkPickerWindow\<close> it leaves exactly one, the new window, shown,
  or, when its constructor raises, the hidden half-built one (the old one being closed
  first), and every other window as it was.
\<close>

theorem open_window_cls_single:
  assumes "length (filter (\<lambda>w. wobj w = ''HulkPickerWindow'') ws) \<le> 1"
  shows "filter (\<lambda>w. wobj w = ''HulkPickerWindow'') (snd (open_window_cls (construct_cls f s) ws)) =
           [case construct_cls f s of Inl e \<Rightarrow> half_built_cls | Inr w \<Rightarrow> w\<lparr>shown := True\<rparr>] \<and>
         filter (\<lambda>w. wobj w \<noteq> ''HulkPickerWindow'') (snd (open_window_cls (construct_cls f s) ws)) =
           filter (\<lambda>w. wobj w \<noteq> ''HulkPickerWindow'') ws"
proof -
  have "filter (\<lambda>w. wobj w = ''HulkPickerWindow'') (close_first ''HulkPickerWindow'' ws) = []"
    using assms close_first_count [of "''HulkPickerWindow''" ws] by simp
  then show ?thesis
    using close_first_others [of "''HulkPickerWindow''" ws] construct_cls_wobj [of f s]
    by (cases "construct_cls f s") (simp_all add: open_window_cls_def char_name_def half_built_cls_def)
qed

lemma open_window_cls_single_witness:
  "filter (\<lambda>w. wobj w = ''HulkPickerWindow'') (snd (open_window_cls (construct_cls demo_form 1)
      [build_window demo_form 1 ''Hulk Picker'' ''HulkPickerWindow'' []])) =
     [(projr (construct_cls demo_form 1))\<lparr>shown := True\<rparr>]"
proof -
  have "\<not> isl (construct_cls demo_form 1)"
    by (simp add: construct_cls_def connect_cls_def demo_form_def fixed_actions_def snap_actions_def
        namespace_action_def has_line_edit_def has_buttons_def)
  then show ?thesis
    using open_window_cls_single [of "[build_window demo_form 1 ''Hulk Picker'' ''HulkPickerWindow'' []]" demo_form 1]
    by (auto simp: build_window_def split: sum.splits)
qed

lemma py_in_picker_names:
  "py_in ''pickerWindow'' ''pickerWindow''" "\<not> py_in ''pickerWindow'' ''HulkPickerWindow''"
  by (simp_all add: py_in_def)

lemma demo_form_ok: "\<not> isl (construct_cls demo_form s)" "\<not> isl (construct_ctl demo_form s)"
  by (simp_all add: construct_cls_def construct_ctl_def connect_cls_def connect_ctl_def demo_form_def
      fixed_actions_def snap_actions_def namespace_action_def has_line_edit_def has_buttons_def)

text \<open>
  C33. Running \<open>picker_run.py\<close> on a form with the widgets the constructor needs always
  ends with the controller's picker window open, exactly one shown window named after
  \<open>pickerWindow\<close>, every other window kept (the window of \<open>picker.py\<close>, named
  \<open>HulkPickerWindow\<close>, included), and the picker folder on \<open>sys.path\<close> once, however
  often the script has run.
\<close>

theorem run_picker_opens:
  assumes "\<not> isl (construct_ctl f 1)"
  shows "case run_picker (construct_ctl f 1) (path, ws) of (r, path', ws') \<Rightarrow>
           r = Inr () \<and> length (filter (\<lambda>w. py_in ''pickerWindow'' (wobj w) \<and> shown w) ws') = 1 \<and>
           filter (\<lambda>w. \<not> py_in ''pickerWindow'' (wobj w)) ws' = filter (\<lambda>w. \<not> py_in ''pickerWindow'' (wobj w)) ws \<and>
           count_list path' picker_folder = max 1 (count_list path picker_folder)"
proof -
  obtain w where "construct_ctl f 1 = Inr w" using assms by (cases "construct_ctl f 1") auto
  moreover have "picker_folder \<in> set path \<Longrightarrow> 1 \<le> count_list path picker_folder"
    using count_list_0_iff [of path picker_folder] by linarith
  ultimately show ?thesis
    by (auto simp: run_picker_def open_window_ctl_def py_in_picker_names count_list_0_iff)
qed

lemma run_picker_opens_witness:
  "case run_picker (construct_ctl demo_form 1) ([''/maya/scripts''], [build_window demo_form 1 ''Hulk Picker'' ''HulkPickerWindow'' []]) of
     (r, path', ws') \<Rightarrow>
       r = Inr () \<and> length (filter (\<lambda>w. py_in ''pickerWindow'' (wobj w) \<and> shown w) ws') = 1 \<and>
       filter (\<lambda>w. \<not> py_in ''pickerWindow'' (wobj w)) ws' = [build_window demo_form 1 ''Hulk Picker'' ''HulkPickerWindow'' []] \<and>
       count_list path' picker_folder = 1"
  using run_picker_opens [OF demo_form_ok(2), where path = "[''/maya/scripts'']" and ws = "[build_window demo_form 1 ''Hulk Picker'' ''HulkPickerWindow'' []]"]
  by (simp add: build_window_def py_in_picker_names picker_folder_def split: prod.splits)

lemma mirror_pose_cls_model: "mirror_pose_cls = mirror_pose_model"
  by (simp add: fun_eq_iff mirror_pose_cls_def mirror_pose_model_def undo_chunk_transparent undo_free_intros
      mirror_one_def side_ofE_def copy_user_attrs_def copy_user_attr_def)

lemma ns_prefix_empty: "ns_prefix (Some []) = ns_prefix None"
  by (simp add: fun_eq_iff ns_prefix_def)

lemma snap_fk_ik_model_empty: "snap_fk_ik_model limb side (Some []) = snap_fk_ik_model limb side None"
proof -
  have "ns_segment (Some []) = ns_segment None"
    by (simp add: fun_eq_iff ns_segment_def ns_prefix_empty)
  then show ?thesis
    by (simp only: snap_fk_ik_model_def snap_settings_def snap_segments_def ns_prefix_empty)
qed

lemma named_buttons_not_ctr:
  "\<not> is_ctr (fst namespace_action)" "list_all (\<lambda>x. \<not> is_ctr (fst x)) fixed_actions"
  "list_all (\<lambda>x. \<not> is_ctr (fst x)) snap_actions"
  "distinct (map fst (fixed_actions @ snap_actions @ [namespace_action]))"
  by (simp_all add: namespace_action_def fixed_actions_def snap_actions_def is_ctr_def py_endswith_def)

text \<open>
  C34. The window's connection table is well formed: on a form whose buttons have distinct
  names, every connected button exists and is connected to one handler only, and the
  buttons the marquee tracks are exactly those connected to selecting their own control.
\<close>

theorem construct_cls_table:
  assumes "distinct (buttons f)" and "construct_cls f s = Inr w"
  shows "distinct (map fst (conns w)) \<and> set (map fst (conns w)) \<subseteq> set (buttons f) \<and>
         set (tracked w) = {b. (b, SelectControl b) \<in> set (conns w)}"
proof -
  have c: "connect_cls f = Inr (fixed_actions @ control_actions f @ snap_actions @ [namespace_action])"
    and w: "w = build_window f s (char_name @ '' Picker'') (char_name @ ''PickerWindow'')
                  (fixed_actions @ control_actions f @ snap_actions @ [namespace_action])"
    using assms(2) by (auto simp: construct_cls_def connect_cls_def split: if_splits)
  have hb: "has_buttons f (fixed_actions @ snap_actions @ [namespace_action])"
    using c by (auto simp: connect_cls_def split: if_splits)
  have nc: "x \<in> set (fixed_actions @ snap_actions @ [namespace_action]) \<Longrightarrow> \<not> is_ctr (fst x)" for x
    using named_buttons_not_ctr(1-3) by (auto simp: list_all_iff)
  have "distinct (map fst (fixed_actions @ control_actions f @ snap_actions @ [namespace_action]))"
    using named_buttons_not_ctr(4) assms(1) nc
    by (auto simp: control_actions_def distinct_map_filter comp_def)
  moreover have "set (map fst (fixed_actions @ control_actions f @ snap_actions @ [namespace_action])) \<subseteq> set (buttons f)"
    using hb by (auto simp: control_actions_def has_buttons_def list_all_iff)
  moreover have "set (filter is_ctr (buttons f)) =
      {b. (b, SelectControl b) \<in> set (fixed_actions @ control_actions f @ snap_actions @ [namespace_action])}"
    by (auto simp: control_actions_def fixed_actions_def snap_actions_def namespace_action_def)
  ultimately show ?thesis
    by (simp add: w build_window_def)
qed

lemma construct_cls_table_witness:
  "\<exists>w. construct_cls demo_form 1 = Inr w \<and> distinct (map fst (conns w)) \<and>
     set (map fst (conns w)) \<subseteq> set (buttons demo_form) \<and>
     set (tracked w) = {b. (b, SelectControl b) \<in> set (conns w)}"
proof -
  obtain w where w: "construct_cls demo_form 1 = Inr w"
    using demo_form_ok(1) [of 1] by (cases "construct_cls demo_form 1") auto
  have "distinct (buttons demo_form)"
    by (simp add: demo_form_def fixed_actions_def snap_actions_def)
  then show ?thesis
    using construct_cls_table [OF _ w] w by blast
qed

lemma undo_free_depth: "undo_free m \<Longrightarrow> undo_depth (snd (m s)) = undo_depth s"
proof -
  assume u: "undo_free m"
  have "m s = (fst (m s), (snd (m s))\<lparr>undo_depth := undo_depth s\<rparr>)"
    using undo_freeD [OF u, where s = s and k = "undo_depth s"] by simp
  then have "undo_depth (snd (m s)) = undo_depth ((snd (m s))\<lparr>undo_depth := undo_depth s\<rparr>)"
    by (metis snd_conv)
  then show ?thesis by simp
qed

lemma undo_free_pose_steps [undo_free_intros]:
  "undo_free (flip_one_cls c)" "undo_free (flip_one_model c)" "undo_free (mirror_one c)"
  unfolding flip_one_cls_def flip_one_model_def mirror_one_def side_ofE_def flip_center_def swap_matrices_def
    swap_user_attrs_def swap_user_attr_def copy_user_attrs_def copy_user_attr_def
  by (intro undo_free_intros)+

lemma undo_free_model_handlers:
  "undo_free (bind_pose_model nl)" "undo_free flip_pose_model" "undo_free mirror_pose_model"
  "undo_free (vis_controls_model nl)" "undo_free (vis_geometries_model nl)"
  "undo_free (select_all_controls_model nl)" "undo_free (select_body_controls_model nl)"
  "undo_free (select_face_controls_model nl)" "undo_free (key_all_controls_model nl)"
  "undo_free (key_body_controls_model nl)" "undo_free (key_face_controls_model nl)"
  "undo_free (select_control_model n nl)" "undo_free (snap_fk_ik_model limb side nl)"
  unfolding bind_pose_model_def flip_pose_model_def mirror_pose_model_def
      vis_controls_model_def vis_geometries_model_def select_all_controls_model_def select_body_controls_model_def
      select_face_controls_model_def key_all_controls_model_def key_body_controls_model_def
      key_face_controls_model_def group_handler_model_def select_control_model_def snap_fk_ik_model_def
  by (intro undo_free_intros)+

lemma undo_free_handler_ctl: "undo_free (handler_ctl a ns)"
  by (cases a) (simp_all add: handler_ctl_def undo_free_model_handlers undo_free_returnE)

lemma undo_chunk_depth: "undo_free m \<Longrightarrow> undo_depth (snd (undo_chunk m s)) = undo_depth s"
  by (simp add: undo_chunk_transparent undo_free_depth)

lemma handler_cls_depth: "undo_depth (snd (handler_cls a ns sc)) = undo_depth sc"
proof -
  have body: "undo_free (bindE (ctr_descendants g) act)" if "\<And>xs. undo_free (act xs)" for g act
    using that by (intro undo_free_intros)
  show ?thesis
    by (cases a) (simp_all add: handler_cls_def bind_pose_cls_def flip_pose_cls_def mirror_pose_cls_def
      vis_controls_cls_def vis_geometries_cls_def select_all_controls_cls_def select_body_controls_cls_def
      select_face_controls_cls_def key_all_controls_cls_def key_body_controls_cls_def
      key_face_controls_cls_def group_handler_cls_def select_control_cls_def snap_fk_ik_cls_def
      undo_chunk_depth body undo_free_intros returnE_apply)
qed

end
