(* ===== verification/Startup.thy ===== *)
theory Startup
  imports Window
begin

text \<open>
  Where the windows find their files: the paths \<open>picker.py\<close> and \<open>picker_controller.py\<close>
  build from \<open>__file__\<close>, the host's file system they read, and the constructors of
  theory Window composed with those reads.
  \<^item> \<open>os.path.dirname\<close> is \<open>dirname\<close>, for the two flavours of \<open>os.path\<close>: \<open>posixpath\<close>
    (separator \<open>/\<close>) and \<open>ntpath\<close> (separators \<open>/\<close> and backslash, and a drive letter
    \<open>C:\<close> split off first; UNC paths are not modelled). Both keep the text before the
    last separator, with trailing separators removed unless nothing else is left.
  \<^item> The host (record \<open>host\<close>) holds its flavour, the Designer files that exist, and the
    folder listings, both keyed by the normalised path: on Windows names are compared
    case-insensitively and with either separator (\<open>ntpath.normcase\<close>).
  \<^item> \<open>loadUiWidget\<close> opens the file and loads it; on a missing file \<open>QUiLoader.load\<close>
    returns \<open>None\<close> and \<open>ui.setParent(self)\<close> raises AttributeError. \<open>os.listdir\<close>
    of a missing folder raises FileNotFoundError.
  \<^item> \<open>picker_init\<close> and \<open>controller_init\<close> are the two constructors as they run in
    Maya: load the form, list the images folder, then build the window (\<open>construct_cls\<close>,
    \<open>construct_ctl\<close>), in the order of \<open>__init__\<close>. The controller's module computes its
    paths when it is imported or reloaded, as \<open>picker_run.py\<close> does before opening the
    window (\<open>run_picker_host\<close>).
\<close>

datatype os_kind = Posix | NT

definition backslash :: char where
  "backslash = CHR 0x5C"

definition path_seps :: "os_kind \<Rightarrow> char list" where
  "path_seps k = (case k of Posix \<Rightarrow> [CHR ''/''] | NT \<Rightarrow> [CHR ''/'', backslash])"

text \<open>\<open>ntpath.splitdrive\<close> for drive letters; \<open>posixpath\<close> has no drives.\<close>

definition splitdrive :: "os_kind \<Rightarrow> string \<Rightarrow> string \<times> string" where
  "splitdrive k p =
     (if k = NT \<and> 2 \<le> length p \<and> p ! 1 = CHR '':'' then (take 2 p, drop 2 p) else ([], p))"

definition rstrip_seps :: "os_kind \<Rightarrow> string \<Rightarrow> string" where
  "rstrip_seps k s = rev (dropWhile (\<lambda>c. c \<in> set (path_seps k)) (rev s))"

text \<open>
  \<open>os.path.dirname\<close>: \<open>head = p[:i]\<close> up to and including the last separator, then
  \<open>head.rstrip(seps) or head\<close> (\<open>ntpath\<close>), equivalently \<open>head.rstrip(sep)\<close> unless
  \<open>head\<close> is all separators (\<open>posixpath\<close>).
\<close>

definition dirname :: "os_kind \<Rightarrow> string \<Rightarrow> string" where
  "dirname k p =
     (case splitdrive k p of (d, q) \<Rightarrow>
        let head = rev (dropWhile (\<lambda>c. c \<notin> set (path_seps k)) (rev q))
        in d @ (if rstrip_seps k head = [] then head else rstrip_seps k head))"

definition normcase :: "os_kind \<Rightarrow> string \<Rightarrow> string" where
  "normcase k p = (case k of Posix \<Rightarrow> p | NT \<Rightarrow> map (\<lambda>c. if c = CHR ''/'' then backslash else ascii_lower c) p)"

text \<open>The paths of \<open>picker.py\<close> (\<open>__init__\<close>, \<open>load_images\<close>) from its \<open>__file__\<close>.\<close>

definition ui_path_cls :: "os_kind \<Rightarrow> string \<Rightarrow> string" where
  "ui_path_cls k file = dirname k file @ [backslash] @ ''picker.ui''"

definition images_folder_cls :: "os_kind \<Rightarrow> string \<Rightarrow> string" where
  "images_folder_cls k file = dirname k file @ ''/images''"

text \<open>The module globals of \<open>picker_controller.py\<close> and the folder its \<open>load_images\<close> reads.\<close>

definition ui_path_ctl :: "os_kind \<Rightarrow> string \<Rightarrow> string" where
  "ui_path_ctl k file = dirname k file @ [backslash] @ ''picker_view.ui''"

definition images_folder_ctl :: "os_kind \<Rightarrow> string \<Rightarrow> string" where
  "images_folder_ctl k file = dirname k (ui_path_ctl k file) @ ''/images''"

record host =
  host_os :: os_kind
  ui_files :: "string \<rightharpoonup> form"
  dirs :: "string \<rightharpoonup> string list"
  app_icon :: "string option"

definition load_ui :: "host \<Rightarrow> string \<Rightarrow> py_error + form" where
  "load_ui h path =
     (case ui_files h (normcase (host_os h) path) of
        None \<Rightarrow> Inl (AttributeError ''NoneType object has no attribute setParent'')
      | Some f \<Rightarrow> Inr f)"

definition listdir :: "host \<Rightarrow> string \<Rightarrow> py_error + string list" where
  "listdir h path =
     (case dirs h (normcase (host_os h) path) of
        None \<Rightarrow> Inl (FileNotFoundError path)
      | Some files \<Rightarrow> Inr files)"

text \<open>
  \<open>load_icon\<close> of \<open>picker.py\<close> sets the application's window icon to the icon file's path; a
  missing file gives a null \<open>QIcon\<close> and raises nothing.
\<close>

definition icon_path :: "os_kind \<Rightarrow> string \<Rightarrow> string" where
  "icon_path k file = dirname k file @ ''/images/hiddenStrings.png''"

definition load_icon :: "host \<Rightarrow> string \<Rightarrow> host" where
  "load_icon h file = h\<lparr>app_icon := Some (icon_path (host_os h) file)\<rparr>"

definition picker_init :: "host \<Rightarrow> string \<Rightarrow> int \<Rightarrow> (py_error + window) \<times> host" where
  "picker_init h file s =
     (case load_ui h (ui_path_cls (host_os h) file) of
        Inl e \<Rightarrow> (Inl e, h)
      | Inr f \<Rightarrow>
          let h' = load_icon h file in
          (case listdir h' (images_folder_cls (host_os h') file) of
             Inl e \<Rightarrow> (Inl e, h')
           | Inr files \<Rightarrow> (construct_cls (f\<lparr>image_files := files\<rparr>) s, h')))"

definition controller_init :: "host \<Rightarrow> string \<Rightarrow> int \<Rightarrow> py_error + window" where
  "controller_init h file s =
     (case load_ui h (ui_path_ctl (host_os h) file) of
        Inl e \<Rightarrow> Inl e
      | Inr f \<Rightarrow>
          (case listdir h (images_folder_ctl (host_os h) file) of
             Inl e \<Rightarrow> Inl e
           | Inr files \<Rightarrow> construct_ctl (f\<lparr>image_files := files\<rparr>) s))"

text \<open>\<open>picker_run.py\<close> on a host: the reload of \<open>picker_controller\<close> recomputes its paths from its \<open>__file__\<close>.\<close>

definition run_picker_host ::
  "host \<Rightarrow> string \<Rightarrow> string list \<times> window list \<Rightarrow> (py_error + unit) \<times> string list \<times> window list" where
  "run_picker_host h file st = run_picker (controller_init h file 1) st"

text \<open>A folder path as \<open>__file__\<close> gives it: not empty, no trailing separator, not a bare drive.\<close>

definition plain_folder :: "os_kind \<Rightarrow> string \<Rightarrow> bool" where
  "plain_folder k folder \<longleftrightarrow>
     folder \<noteq> [] \<and> last folder \<notin> set (path_seps k) \<and> \<not> (k = NT \<and> length folder = 2 \<and> folder ! 1 = CHR '':'')"

definition sep_free :: "os_kind \<Rightarrow> string \<Rightarrow> bool" where
  "sep_free k name \<longleftrightarrow> list_all (\<lambda>c. c \<notin> set (path_seps k)) name"

text \<open>
  A picker folder as it is shipped: the two Designer files and the images folder, under the
  names a file manager shows (\<open>folder/picker.ui\<close>, \<open>folder/picker_view.ui\<close>,
  \<open>folder/images\<close>).
\<close>

definition folder_host :: "os_kind \<Rightarrow> string \<Rightarrow> form \<Rightarrow> form \<Rightarrow> string list \<Rightarrow> host" where
  "folder_host k folder f_cls f_ctl images =
     \<lparr>host_os = k,
      ui_files = [normcase k (folder @ ''/picker.ui'') \<mapsto> f_cls, normcase k (folder @ ''/picker_view.ui'') \<mapsto> f_ctl],
      dirs = [normcase k (folder @ ''/images'') \<mapsto> images], app_icon = None\<rparr>"


lemma head_child:
  assumes "c \<in> S" "\<forall>x\<in>set ys. x \<notin> S"
  shows "rev (dropWhile (\<lambda>x. x \<notin> S) (rev (xs @ c # ys))) = xs @ [c]"
proof -
  have "dropWhile (\<lambda>x. x \<notin> S) (rev ys @ c # rev xs) = dropWhile (\<lambda>x. x \<notin> S) (c # rev xs)"
    by (rule dropWhile_append2) (use assms(2) in auto)
  then show ?thesis using assms(1) by simp
qed

lemma rstrip_child:
  assumes "c \<in> set (path_seps k)" "xs \<noteq> []" "last xs \<notin> set (path_seps k)"
  shows "rstrip_seps k (xs @ [c]) = xs"
proof -
  obtain ys y where "xs = ys @ [y]" using assms(2) by (cases xs rule: rev_cases) auto
  then show ?thesis using assms by (simp add: rstrip_seps_def)
qed

lemma dirname_child:
  assumes "plain_folder k folder" "sep_free k name" "c \<in> set (path_seps k)"
  shows "dirname k (folder @ c # name) = folder"
proof (cases "k = NT \<and> 2 \<le> length folder \<and> folder ! 1 = CHR '':''")
  case True
  then have d: "splitdrive k (folder @ c # name) = (take 2 folder, drop 2 folder @ c # name)"
    by (simp add: splitdrive_def nth_append)
  have ne: "drop 2 folder \<noteq> []" and lst: "last (drop 2 folder) = last folder"
    using True assms(1) by (auto simp: plain_folder_def)
  have h: "rev (dropWhile (\<lambda>x. x \<notin> set (path_seps k)) (rev (drop 2 folder @ c # name))) = drop 2 folder @ [c]"
    using assms(2,3) by (intro head_child) (auto simp: sep_free_def list_all_iff)
  have "rstrip_seps k (drop 2 folder @ [c]) = drop 2 folder"
    using rstrip_child [OF assms(3) ne] assms(1) lst by (simp add: plain_folder_def)
  then show ?thesis
    using ne unfolding dirname_def d prod.case h Let_def by simp
next
  case False
  then have d: "splitdrive k (folder @ c # name) = ([], folder @ c # name)"
    using assms(1,3) by (cases folder) (auto simp: splitdrive_def nth_append plain_folder_def path_seps_def
        backslash_def Suc_le_eq split: os_kind.splits)
  have h: "rev (dropWhile (\<lambda>x. x \<notin> set (path_seps k)) (rev (folder @ c # name))) = folder @ [c]"
    using assms(2,3) by (intro head_child) (auto simp: sep_free_def list_all_iff)
  have "rstrip_seps k (folder @ [c]) = folder"
    using rstrip_child [OF assms(3)] assms(1) by (simp add: plain_folder_def)
  then show ?thesis
    using assms(1) unfolding dirname_def d prod.case h Let_def by (simp add: plain_folder_def)
qed

lemma dirname_posix_append:
  assumes "sep_free Posix s"
  shows "dirname Posix (p @ s) = dirname Posix p"
proof -
  have "dropWhile (\<lambda>x. x \<notin> set (path_seps Posix)) (rev s @ rev p) = dropWhile (\<lambda>x. x \<notin> set (path_seps Posix)) (rev p)"
    by (rule dropWhile_append2) (use assms in \<open>auto simp: sep_free_def list_all_iff\<close>)
  then show ?thesis by (simp add: dirname_def splitdrive_def)
qed

lemma ascii_lower_backslash [simp]: "ascii_lower backslash = backslash"
  by (simp add: ascii_lower_def backslash_def)

lemma normcase_nt_sep:
  assumes "c \<in> set (path_seps NT)"
  shows "normcase NT (xs @ c # ys) = normcase NT (xs @ CHR ''/'' # ys)"
  using assms by (auto simp: normcase_def path_seps_def)

lemma sep_free_ui_names [simp]:
  "sep_free k ''picker.ui''" "sep_free k ''picker_view.ui''"
  by (cases k; simp add: sep_free_def path_seps_def backslash_def)+

text \<open>C38: For \<open>__file__\<close> a file of a plain folder, \<open>Picker.load_images\<close> of \<open>picker.py\<close> lists \<open>folder/images\<close> on both systems, while the controller window's \<open>load_images\<close>, which takes the folder of its backslash \<open>ui_path\<close>, lists \<open>folder/images\<close> on Windows but the images folder of the parent folder on Linux and macOS.\<close>

lemma images_folders:
  assumes "plain_folder k folder" "sep_free k name" "c \<in> set (path_seps k)"
  shows "images_folder_cls k (folder @ c # name) = folder @ ''/images'' \<and>
         images_folder_ctl k (folder @ c # name) =
           (if k = NT then folder @ ''/images'' else dirname Posix folder @ ''/images'')"
proof (cases k)
  case Posix
  have "sep_free Posix (backslash # ''picker_view.ui'')"
    by (simp add: sep_free_def path_seps_def backslash_def)
  then show ?thesis
    using Posix dirname_child [OF assms] dirname_posix_append [of "backslash # ''picker_view.ui''" folder]
    by (simp add: images_folder_cls_def images_folder_ctl_def ui_path_ctl_def)
next
  case NT
  have "backslash \<in> set (path_seps NT)" by (simp add: path_seps_def)
  then show ?thesis
    using NT dirname_child [OF assms] dirname_child [OF assms(1)[unfolded NT], of "''picker_view.ui''" backslash]
    by (simp add: images_folder_cls_def images_folder_ctl_def ui_path_ctl_def)
qed

lemma images_folders_witness:
  "images_folder_cls NT (''C:/tools/picker'' @ backslash # ''picker.py'') = ''C:/tools/picker/images'' \<and>
   images_folder_ctl Posix (''/home/a/picker/picker_controller.py'') = ''/home/a/images''"
  using images_folders [of NT "''C:/tools/picker''" "''picker.py''" backslash]
        images_folders [of Posix "''/home/a/picker''" "''picker_controller.py''" "CHR ''/''"]
  by (simp add: plain_folder_def sep_free_def path_seps_def backslash_def dirname_def splitdrive_def rstrip_seps_def)

lemma ui_paths_child:
  assumes "plain_folder k folder" "sep_free k name" "c \<in> set (path_seps k)"
  shows "ui_path_cls k (folder @ c # name) = folder @ backslash # ''picker.ui''"
    "ui_path_ctl k (folder @ c # name) = folder @ backslash # ''picker_view.ui''"
  using dirname_child [OF assms] by (simp_all add: ui_path_cls_def ui_path_ctl_def)

lemma normcase_length [simp]: "length (normcase k p) = length p"
  by (cases k) (simp_all add: normcase_def)

lemma folder_host_files:
  "host_os (folder_host k folder fc fv imgs) = k"
  "ui_files (folder_host k folder fc fv imgs) (normcase k (folder @ ''/picker.ui'')) = Some fc"
  "ui_files (folder_host k folder fc fv imgs) (normcase k (folder @ ''/picker_view.ui'')) = Some fv"
  "dirs (folder_host k folder fc fv imgs) (normcase k (folder @ ''/images'')) = Some imgs"
proof -
  have "normcase k (folder @ ''/picker.ui'') \<noteq> normcase k (folder @ ''/picker_view.ui'')"
    by (rule notI, drule arg_cong [where f = length], simp)
  then show "ui_files (folder_host k folder fc fv imgs) (normcase k (folder @ ''/picker.ui'')) = Some fc"
    by (simp add: folder_host_def)
qed (simp_all add: folder_host_def)

lemma nt_paths:
  assumes "plain_folder NT folder" "sep_free NT name" "c \<in> set (path_seps NT)"
  shows "normcase NT (ui_path_cls NT (folder @ c # name)) = normcase NT (folder @ ''/picker.ui'')"
    "normcase NT (ui_path_ctl NT (folder @ c # name)) = normcase NT (folder @ ''/picker_view.ui'')"
    "images_folder_cls NT (folder @ c # name) = folder @ ''/images''"
    "icon_path NT (folder @ c # name) = folder @ ''/images/hiddenStrings.png''"
    "images_folder_ctl NT (folder @ c # name) = folder @ ''/images''"
proof -
  have bs: "backslash \<in> set (path_seps NT)" by (simp add: path_seps_def)
  show "normcase NT (ui_path_cls NT (folder @ c # name)) = normcase NT (folder @ ''/picker.ui'')"
    "normcase NT (ui_path_ctl NT (folder @ c # name)) = normcase NT (folder @ ''/picker_view.ui'')"
    using ui_paths_child [OF assms] normcase_nt_sep [OF bs] by simp_all
  show "images_folder_cls NT (folder @ c # name) = folder @ ''/images''"
    "icon_path NT (folder @ c # name) = folder @ ''/images/hiddenStrings.png''"
    "images_folder_ctl NT (folder @ c # name) = folder @ ''/images''"
    using dirname_child [OF assms] dirname_child [OF assms(1) _ bs, of "''picker_view.ui''"] ui_paths_child [OF assms]
    by (simp_all add: images_folder_cls_def images_folder_ctl_def icon_path_def)
qed

text \<open>C39: On Windows, with the picker folder as shipped, the class window's constructor and \<open>picker_run.py\<close> read the right Designer file, icon and images folder: they behave as the constructors of theory Window on the shipped forms with the shipped images, and the class window sets the shipped icon as the application's icon.\<close>

lemma startup_nt:
  assumes "plain_folder NT folder" "sep_free NT name" "c \<in> set (path_seps NT)"
  shows "picker_init (folder_host NT folder fc fv imgs) (folder @ c # name) s =
           (construct_cls (fc\<lparr>image_files := imgs\<rparr>) s,
            (folder_host NT folder fc fv imgs)\<lparr>app_icon := Some (folder @ ''/images/hiddenStrings.png'')\<rparr>) \<and>
         run_picker_host (folder_host NT folder fc fv imgs) (folder @ c # name) st =
           run_picker (construct_ctl (fv\<lparr>image_files := imgs\<rparr>) 1) st"
  using nt_paths [OF assms]
  by (simp add: picker_init_def controller_init_def run_picker_host_def load_ui_def listdir_def
      load_icon_def folder_host_files)

lemma startup_nt_witness:
  "picker_init (folder_host NT ''C:/tools/picker'' demo_form demo_form [''body.png''])
      (''C:/tools/picker'' @ backslash # ''picker.py'') 1 =
     (construct_cls (demo_form\<lparr>image_files := [''body.png'']\<rparr>) 1,
      (folder_host NT ''C:/tools/picker'' demo_form demo_form [''body.png''])\<lparr>app_icon := Some (''C:/tools/picker'' @ ''/images/hiddenStrings.png'')\<rparr>) \<and>
   run_picker_host (folder_host NT ''C:/tools/picker'' demo_form demo_form [''body.png''])
      (''C:/tools/picker'' @ backslash # ''picker.py'') ([], []) =
     run_picker (construct_ctl (demo_form\<lparr>image_files := [''body.png'']\<rparr>) 1) ([], [])"
  by (rule startup_nt) (simp_all add: plain_folder_def sep_free_def path_seps_def backslash_def)

text \<open>C40: On Linux and macOS the backslash in \<open>ui_path_value\<close> is no separator, so the Designer file path names no file, \<open>QUiLoader.load\<close> returns None, and both constructors raise AttributeError before any button is connected, the class window before it sets the icon.\<close>

lemma startup_posix_fails:
  assumes "plain_folder Posix folder" "sep_free Posix name"
  shows "picker_init (folder_host Posix folder fc fv imgs) (folder @ CHR ''/'' # name) s =
           (Inl (AttributeError ''NoneType object has no attribute setParent''), folder_host Posix folder fc fv imgs) \<and>
         controller_init (folder_host Posix folder fc fv imgs) (folder @ CHR ''/'' # name) s =
           Inl (AttributeError ''NoneType object has no attribute setParent'')"
proof -
  have "CHR ''/'' \<in> set (path_seps Posix)" by (simp add: path_seps_def)
  from ui_paths_child [OF assms this] show ?thesis
    by (simp add: picker_init_def controller_init_def load_ui_def folder_host_def normcase_def backslash_def)
qed

lemma startup_posix_fails_witness:
  "picker_init (folder_host Posix ''/home/a/picker'' demo_form demo_form [''body.png'']) ''/home/a/picker/picker.py'' 1 =
     (Inl (AttributeError ''NoneType object has no attribute setParent''),
      folder_host Posix ''/home/a/picker'' demo_form demo_form [''body.png'']) \<and>
   controller_init (folder_host Posix ''/home/a/picker'' demo_form demo_form [''body.png'']) ''/home/a/picker/picker_controller.py'' 1 =
     Inl (AttributeError ''NoneType object has no attribute setParent'')"
proof -
  have "plain_folder Posix ''/home/a/picker''" "sep_free Posix ''picker.py''" "sep_free Posix ''picker_controller.py''"
    by (simp_all add: plain_folder_def sep_free_def path_seps_def)
  from startup_posix_fails [OF this(1,2), of demo_form demo_form "[''body.png'']" 1]
       startup_posix_fails [OF this(1,3), of demo_form demo_form "[''body.png'']" 1]
  show ?thesis by simp
qed

text \<open>C30: On Windows, with the Designer files in place but no images folder next to them, the class window's constructor raises FileNotFoundError for \<open>folder/images\<close> after it has set the application icon (\<open>load_icon\<close> runs before \<open>load_images\<close>), and the controller window's raises the same error; no window is built.\<close>

theorem startup_missing_images:
  assumes "plain_folder NT folder" "sep_free NT name" "c \<in> set (path_seps NT)"
  shows "picker_init ((folder_host NT folder fc fv imgs)\<lparr>dirs := Map.empty\<rparr>) (folder @ c # name) s =
           (Inl (FileNotFoundError (folder @ ''/images'')),
            (folder_host NT folder fc fv imgs)\<lparr>dirs := Map.empty,
               app_icon := Some (folder @ ''/images/hiddenStrings.png'')\<rparr>) \<and>
         controller_init ((folder_host NT folder fc fv imgs)\<lparr>dirs := Map.empty\<rparr>) (folder @ c # name) s =
           Inl (FileNotFoundError (folder @ ''/images''))"
  using nt_paths [OF assms]
  by (simp add: picker_init_def controller_init_def load_ui_def listdir_def load_icon_def folder_host_files)

theorem startup_missing_images_witness:
  "picker_init ((folder_host NT ''C:/tools/picker'' demo_form demo_form [''body.png''])\<lparr>dirs := Map.empty\<rparr>)
      (''C:/tools/picker'' @ backslash # ''picker.py'') 1 =
     (Inl (FileNotFoundError (''C:/tools/picker'' @ ''/images'')),
      (folder_host NT ''C:/tools/picker'' demo_form demo_form [''body.png''])\<lparr>dirs := Map.empty,
         app_icon := Some (''C:/tools/picker'' @ ''/images/hiddenStrings.png'')\<rparr>) \<and>
   controller_init ((folder_host NT ''C:/tools/picker'' demo_form demo_form [''body.png''])\<lparr>dirs := Map.empty\<rparr>)
      (''C:/tools/picker'' @ backslash # ''picker.py'') 1 =
     Inl (FileNotFoundError (''C:/tools/picker'' @ ''/images''))"
  by (rule startup_missing_images) (simp_all add: plain_folder_def sep_free_def path_seps_def backslash_def)

end
