(* ===== verification/Spec2Isabelle.thy ===== *)
theory Spec2Isabelle
  imports Pose Snap Select Bind Drag Window Startup
begin

text \<open>
  \<^bold>\<open>A verification library of the character-rig picker.\<close>

  The repository is a picker window for a Maya rig, in two generations that share the
  same rig conventions: \<open>src/picker.py\<close>, a \<open>Picker\<close> widget class whose methods are the
  button handlers, and the older \<open>src/picker_controller.py\<close>, a \<open>Picker\<close> window whose
  buttons call the free functions of \<open>src/picker_model.py\<close>; \<open>src/picker_run.py\<close> opens
  the latter. Every handler is a short sequence of \<open>maya.cmds\<close> calls on the scene, and
  the window itself keeps the state of a drag-marquee selection. The library models the
  handlers, the marquee, the windows' construction and the bootstrap as executable HOL
  functions, and proves what the code does on every path, errors included.

  \<^bold>\<open>Theories and what they model.\<close>
  \<^item> \<open>Prelude\<close>: Python's control flow as exception-state functions
    \<open>('s, 'a) exc = 's \<Rightarrow> (py_error + 'a) \<times> 's\<close>: an uncaught exception is an
    \<open>Inl\<close> result that keeps the effects already made; \<open>forE\<close>, \<open>mapE\<close>, \<open>try_pass\<close>
    (\<open>try/except: pass\<close>), \<open>try_finally\<close>; the frame rules \<open>keeps_intros\<close>.
  \<^item> \<open>PyStr\<close>, \<open>PyFloat\<close>: \<open>str.split\<close>, \<open>join\<close>, \<open>replace\<close>, \<open>endswith\<close>, negative
    indexing, and \<open>float(s)\<close> (exact reals; rounding to doubles, \<open>inf\<close> and \<open>nan\<close>
    are not modelled and give ValueError).
  \<^item> \<open>Names\<close>: \<open>get_modifier\<close>, \<open>set_namespace\<close> (both variants), the namespace prefix
    and the side and mirror names of the rig convention.
  \<^item> \<open>Scene\<close>: the host. The record \<open>scene\<close> holds the selection, plugs and locks, user
    attributes and their defaults, object and world matrices (a blended node's world
    matrix follows its FK or IK source, \<open>world\<close>), descendants, keys, modifier state and
    the undo depth. Each \<open>cmds\<close> call is a function that raises where Maya does (no
    matching node or plug: ValueError; a locked plug: RuntimeError). \<open>undo_chunk\<close> is
    the \<open>undoInfo(openChunk)\<close> / \<open>try ... finally: closeChunk\<close> bracket of the class handlers.
  \<^item> \<open>Pose\<close> (flip and mirror), \<open>Snap\<close> (FK/IK snap), \<open>Select\<close> (selection by modifier,
    group selection and keying, visibility toggles), \<open>Bind\<close> (bind/skin pose reset): one
    definition per handler and per loop body, \<open>_model\<close> for \<open>picker_model.py\<close> and
    \<open>_cls\<close> for \<open>picker.py\<close>, each with its host calls in source order.
  \<^item> \<open>Drag\<close>: the four mouse and key handlers of the marquee (identical in both windows) as
    functions on the record \<open>drag\<close> of the window's attributes, reading the record \<open>ui\<close>
    of tracked buttons, their screen rectangles, parents and the current tab. Geometry is
    Qt 5's \<open>QRect\<close> on ints. The parent walk of the release handler is
    \<open>partial_function (option)\<close> \<open>find_tab\<close>; \<open>drag_step\<close> and \<open>drag_reachable\<close> are the
    state machine. \<open>mouse_release_cls\<close> and \<open>mouse_release_ctl\<close> compose the release with
    each window's selection call.
  \<^item> \<open>Window\<close>: the record \<open>form\<close> of the Designer file, the constructors of both windows
    (connections, tool tips, tracked buttons, \<open>load_images\<close>, scaling; IndexError for a
    missing widget), the click dispatch of each window (\<open>handler_cls\<close>, \<open>handler_ctl\<close>),
    both \<open>openWindow\<close> functions on the list of open windows (a constructor that raises
    leaves its hidden half-built widget, \<open>half_built_cls\<close>, \<open>half_built_ctl\<close>), and
    \<open>picker_run.py\<close>.
  \<^item> \<open>Startup\<close>: where the windows find their files. \<open>os.path.dirname\<close> and \<open>normcase\<close>
    for both flavours of \<open>os.path\<close> (\<open>os_kind\<close>: Posix, NT with drive letters), the record
    \<open>host\<close> of Designer files, folder listings and the application icon, \<open>loadUiWidget\<close>
    (\<open>load_ui\<close>, AttributeError on a file that is not there), \<open>load_icon\<close>, \<open>os.listdir\<close>
    (\<open>listdir\<close>, FileNotFoundError), the paths each module builds from \<open>__file__\<close>, and
    the constructors as they run (\<open>picker_init\<close>, \<open>controller_init\<close>, in the order of
    \<open>__init__\<close>), with \<open>picker_run.py\<close>'s reload recomputing the controller's paths
    (\<open>run_picker_host\<close>).

  \<^bold>\<open>What the lemmas show.\<close>
  Flip negates a centre control's rotate Y, rotate Z and translate X and is an
  involution there; flip and mirror exchange or copy exactly the pair's matrices and
  attributes, flip exchanges once per selected name of a pair (so selecting both sides
  cancels), the class flip also rewrites a right control from a centre one, and a
  missing counterpart raises with the scene untouched (C1 to C6). The snap switches the
  mode, a missing control stops it half-way with the limb already switched, and the
  class variant reads a doubly prefixed plug (C7 to C9). The
  selection handlers select, deselect or add by modifier, raise on a missing name or an
  empty group, and the visibility toggle is an involution (C10 to C14). Namespace capture
  and the counterpart names (C15, C16). The bind pose resets user attributes, the
  channels of controls without a skin pose and the matrix of those with one; a skin pose
  that does not parse stops it after that control's plugs; the free function uses the
  wrong group with a namespace; the skin pose string reads back (C17 to C20). The marquee: an Alt pan never raises in a reachable
  state (by rule induction over \<open>drag_reachable\<close>, which every run of the window stays in),
  a key release can raise, the pan state survives a release, every run of the window
  returns on a widget tree, the release selects exactly the contract's multiset of names,
  the band's bounds, the two windows handle events alike, the composition with the
  selection handlers (C21 to C28), and the highlight loop (C37). The windows: the same
  wiring in both (C29), which picture each label shows (C31), the window count kept by
  both \<open>openWindow\<close>s and the bootstrap, the connection table's well-formedness (C32
  to C34).
  Start-up: without an images folder both constructors raise FileNotFoundError, the
  class window after setting the icon (C30); the images folder each window lists on
  each system (C38); on Windows, with the
  folder as shipped, the constructors on the host are those of theory Window on the
  shipped forms (a refinement, C39); on Linux and macOS the backslash paths make both
  constructors raise AttributeError (C40).
  Across components: a click has the same effect in both windows except where the
  handlers differ (C35), and every handler leaves the undo depth balanced (C36).

  \<^bold>\<open>Bounds and fuel.\<close> No loop of the code is unbounded except the parent walk, which
  is a \<open>partial_function\<close>: C24 proves that with it every run of the window returns, on any
  parent relation with a rank.
  Integers are unbounded: coordinates and scale factors stay far from 2^31 in a window.

  \<^bold>\<open>Not modelled.\<close> Qt itself beyond the geometry and lookups above (painting, event
  delivery: key events are assumed to reach the window, and \<open>deleteLater\<close> is taken as
  immediate), the contents of files (a Designer file is its parsed \<open>form\<close>, \<open>QPixmap\<close>
  is not read), UNC paths and symbolic links in \<open>os.path\<close>, the module cache beyond the
  paths a reload recomputes, and Maya's decomposition of matrices into channels: theory
  Scene keeps a node's object-space matrix and its channel plugs as separate stores,
  whereas in Maya \<open>xform(matrix=...)\<close> rewrites the channels and \<open>setAttr\<close> on a channel
  rewrites the matrix. No property C1 to C40 states both a matrix and a channel of one node after a
  write to either. The release handler's \<open>findChildren(QTabWidget, 'picker_tab')[0]\<close>
  is taken to succeed: the current tab index is an input of the release.
\<close>

text \<open>
  C35. A click on a button has the same effect in both windows, on the scene and on the
  namespace line edit, given the same namespace text, for every handler except the pose
  flip (whose class variant also exchanges a centre control's attributes with a right
  control) and, with a namespace, the bind pose and the snaps (whose free-function and class
  variants look up different nodes).
\<close>

theorem click_cls_ctl:
  assumes "same_handler ns a"
  shows "click_cls a ns sc = click_ctl a ns sc"
  using assms
  by (cases a) (simp_all add: click_cls_def click_ctl_def handler_cls_def handler_ctl_def same_handler_def
      select_key_vis_cls_model set_namespace_cls_model snap_fk_ik_cls_no_namespace bind_pose_cls_model
      mirror_pose_cls_model snap_fk_ik_model_empty)

lemma click_cls_ctl_witness:
  "click_cls (SelectControl ''arm_l_ctr'') ''rig:'' demo_drag_scene =
     click_ctl (SelectControl ''arm_l_ctr'') ''rig:'' demo_drag_scene \<and>
   click_cls (SnapFkIk ''arm'' ''l'') [] demo_drag_scene = click_ctl (SnapFkIk ''arm'' ''l'') [] demo_drag_scene"
  using click_cls_ctl [of "''rig:''" "SelectControl ''arm_l_ctr''" demo_drag_scene]
    click_cls_ctl [of "[]" "SnapFkIk ''arm'' ''l''" demo_drag_scene]
  by (simp add: same_handler_def)

text \<open>
  C36. Every handler a button runs, in either window, leaves the host's undo depth as it
  found it, whatever it raises: the class handlers close the chunk they open in a
  \<open>finally\<close>, and the free functions open none.
\<close>

theorem handlers_undo_balanced:
  "undo_depth (snd (handler_cls a ns sc)) = undo_depth sc \<and> undo_depth (snd (handler_ctl a ns sc)) = undo_depth sc"
  by (simp add: handler_cls_depth undo_free_depth [OF undo_free_handler_ctl])

end
